theory Spec2Isabelle
  imports Main
begin

section \<open>Python strings\<close>

text \<open>
  A Python \<open>str\<close> is a sequence of Unicode code points. It is modelled as a HOL
  \<open>string\<close> whose characters are the code points below 256; text with larger code
  points lies outside the model (the prompt in \<open>Summarise.py\<close> asks the producer for
  ASCII only).
\<close>

text \<open>\<open>str.lower\<close> on the code points below 256: A-Z and the Latin-1 capitals.\<close>

definition lower_char :: "char \<Rightarrow> char" where
  "lower_char c =
     (let n = (of_char c :: nat)
      in if (65 \<le> n \<and> n \<le> 90) \<or> (192 \<le> n \<and> n \<le> 222 \<and> n \<noteq> 215)
         then char_of (n + 32) else c)"

definition lower :: "string \<Rightarrow> string" where
  "lower s = map lower_char s"

text \<open>
  \<open>str.splitlines\<close>: a line ends at LF, VT, FF, CR, CR LF, FS, GS, RS or NEL
  (U+2028 and U+2029 are beyond the modelled code points); the boundaries are dropped,
  and a boundary at the very end opens no further line.
\<close>

definition is_linebreak :: "char \<Rightarrow> bool" where
  "is_linebreak c = (of_char c \<in> {10, 11, 12, 13, 28, 29, 30, 133 :: nat})"

fun splitlines_from :: "string \<Rightarrow> string \<Rightarrow> string list" where
  "splitlines_from cur [] = (if cur = [] then [] else [cur])"
| "splitlines_from cur [c] = (if is_linebreak c then [cur] else [cur @ [c]])"
| "splitlines_from cur (c # d # cs) =
     (if c = CHR 0x0D \<and> d = CHR 0x0A then cur # splitlines_from [] cs
      else if is_linebreak c then cur # splitlines_from [] (d # cs)
      else splitlines_from (cur @ [c]) (d # cs))"

definition splitlines :: "string \<Rightarrow> string list" where
  "splitlines s = splitlines_from [] s"

text \<open>\<open>str(n)\<close> for an \<open>int\<close>: decimal digits, with a minus sign below zero.\<close>

fun digits :: "nat \<Rightarrow> string" where
  "digits n =
     (if n < 10 then [char_of (48 + n)]
      else digits (n div 10) @ [char_of (48 + n mod 10)])"

declare digits.simps [simp del]

definition str_int :: "int \<Rightarrow> string" where
  "str_int n = (if n < 0 then CHR ''-'' # digits (nat (- n)) else digits (nat n))"

text \<open>List indexing \<open>xs[i]\<close> with a non-negative index: \<open>None\<close> is Python's IndexError.\<close>

definition py_index :: "'a list \<Rightarrow> nat \<Rightarrow> 'a option" where
  "py_index xs i = (if i < length xs then Some (xs ! i) else None)"


section \<open>The host: shapes, slides and decks\<close>

text \<open>
  The presentation host is reached through COM. A shape has a name, possibly a text frame,
  possibly a table, and, when it is a group, its immediate children. A table cell exists
  when the table's map is defined at its (row, column), both counted from 1; writing any
  other cell makes the host raise.
\<close>

record item =
  Name :: string
  HasTextFrame :: bool
  Text :: string

record shape = item +
  HasTable :: bool
  Cells :: "(int \<times> int) \<rightharpoonup> string"
  GroupItems :: "item list option"

type_synonym slide = "shape list"
type_synonym deck = "slide list"

text \<open>A host collection is indexed from 1: \<open>Slides(k)\<close> outside 1..Count raises.\<close>

definition Item :: "'a list \<Rightarrow> int \<Rightarrow> 'a option" where
  "Item xs k = (if 1 \<le> k \<and> k \<le> int (length xs) then Some (xs ! nat (k - 1)) else None)"

datatype error =
    KeyError string
  | IndexError
  | ValueError string
  | AttributeError string
  | TypeError
  | com_error

text \<open>
  What the program does to the host is recorded as it happens: \<open>SetText s j t\<close> is the
  assignment \<open>shape.TextFrame.TextRange.Text = t\<close> on shape \<open>j\<close> of slide \<open>s\<close> of the open
  deck (both counted from 0), \<open>SetCell\<close> the same for a table cell, \<open>SetItemText\<close> for a
  child of a group.
\<close>

datatype event =
    SaveAs
  | Paste int
  | Save
  | SetText nat nat string
  | SetCell nat nat int int string
  | SetItemText nat nat nat string
  | Close
  | Quit

datatype 's outcome = Ok 's | Raise error 's

fun state_of :: "'s outcome \<Rightarrow> 's" where
  "state_of (Ok s) = s"
| "state_of (Raise e s) = s"

fun raised :: "'s outcome \<Rightarrow> error option" where
  "raised (Ok s) = None"
| "raised (Raise e s) = Some e"


section \<open>SlideBuilder\<close>

text \<open>
  The builder's fields, together with the two files it works on and the host session:
  \<open>library\<close> is the library deck, \<open>output_file\<close> the deck stored at the output path
  (\<open>None\<close>: no such file), \<open>presentation\<close> the open output deck, \<open>slide\<close> the active
  slide as its position in that deck (from 0), \<open>shape_cache\<close> the name index, whose
  values are positions in the active slide's shape collection.
\<close>

record builder =
  library :: deck
  output_file :: "deck option"
  powerpoint :: bool
  presentation :: "deck option"
  slide :: "nat option"
  shape_cache :: "string \<rightharpoonup> nat"
  events :: "event list"

definition emit :: "event \<Rightarrow> 'a builder_scheme \<Rightarrow> 'a builder_scheme" where
  "emit ev b = b\<lparr>events := events b @ [ev]\<rparr>"

text \<open>The shapes of the active slide, as the host enumerates them.\<close>

definition Shapes :: "'a builder_scheme \<Rightarrow> slide" where
  "Shapes b =
     (case (presentation b, slide b) of
        (Some d, Some s) \<Rightarrow> (if s < length d then d ! s else [])
      | _ \<Rightarrow> [])"

definition put_shape :: "nat \<Rightarrow> shape \<Rightarrow> 'a builder_scheme \<Rightarrow> 'a builder_scheme" where
  "put_shape j sh b =
     (case (presentation b, slide b) of
        (Some d, Some s) \<Rightarrow> b\<lparr>presentation := Some (d[s := (d ! s)[j := sh]])\<rparr>
      | _ \<Rightarrow> b)"


text \<open>\<open>get_powerpoint_instance\<close>: the session is started on first use.\<close>

definition get_powerpoint_instance :: "'a builder_scheme \<Rightarrow> 'a builder_scheme" where
  "get_powerpoint_instance b = b\<lparr>powerpoint := True\<rparr>"

text \<open>
  \<open>create_blank\<close>, called without a template path: the library is opened read-only, its
  slides are deleted one by one from the front, and what is left is saved under the
  output path.
\<close>

fun delete_all :: "deck \<Rightarrow> deck" where
  "delete_all [] = []"
| "delete_all (s # ss) = delete_all ss"

definition create_blank :: "'a builder_scheme \<Rightarrow> 'a builder_scheme" where
  "create_blank b =
     emit SaveAs ((get_powerpoint_instance b)\<lparr>output_file := Some (delete_all (library b))\<rparr>)"

text \<open>\<open>open_output\<close>: opening a file that does not exist makes the host raise.\<close>

definition open_output :: "'a builder_scheme \<Rightarrow> 'a builder_scheme outcome" where
  "open_output b =
     (case presentation b of
        Some d \<Rightarrow> Ok b
      | None \<Rightarrow>
          (case output_file b of
             None \<Rightarrow> Raise com_error (get_powerpoint_instance b)
           | Some d \<Rightarrow> Ok ((get_powerpoint_instance b)\<lparr>presentation := Some d\<rparr>)))"

definition close_output :: "'a builder_scheme \<Rightarrow> 'a builder_scheme" where
  "close_output b =
     (case presentation b of
        None \<Rightarrow> b
      | Some d \<Rightarrow> emit Close (b\<lparr>presentation := None\<rparr>))"

definition save_output :: "'a builder_scheme \<Rightarrow> 'a builder_scheme" where
  "save_output b =
     (case presentation b of
        None \<Rightarrow> b
      | Some d \<Rightarrow> emit Save (b\<lparr>output_file := Some d\<rparr>))"

definition quit_powerpoint :: "'a builder_scheme \<Rightarrow> 'a builder_scheme" where
  "quit_powerpoint b = (if powerpoint b then emit Quit (b\<lparr>powerpoint := False\<rparr>) else b)"

text \<open>
  \<open>copy_slides\<close>: each index is a position in the library counted from 0; the slide is
  copied and pasted behind the last slide of the output deck. \<open>Paste i\<close> records that the
  library slide at position \<open>i\<close> was appended. The list of new positions that the method
  returns is not used by its caller and is left out. The library is closed again on every
  path, which leaves no trace in this state.
\<close>

fun copy_loop :: "int list \<Rightarrow> 'a builder_scheme \<Rightarrow> 'a builder_scheme outcome" where
  "copy_loop [] b = Ok b"
| "copy_loop (slide_index # rest) b =
     (case Item (library b) (slide_index + 1) of
        None \<Rightarrow> Raise com_error b
      | Some slide_to_copy \<Rightarrow>
          (case presentation b of
             None \<Rightarrow> Raise (AttributeError ''Slides'') b
           | Some d \<Rightarrow>
               copy_loop rest
                 (emit (Paste slide_index) (b\<lparr>presentation := Some (d @ [slide_to_copy])\<rparr>))))"

definition copy_slides :: "int list \<Rightarrow> 'a builder_scheme \<Rightarrow> 'a builder_scheme outcome" where
  "copy_slides slide_indices b =
     (case open_output (get_powerpoint_instance b) of
        Raise e b1 \<Rightarrow> Raise e b1
      | Ok b1 \<Rightarrow>
          (case copy_loop slide_indices b1 of
             Raise e b2 \<Rightarrow> Raise e b2
           | Ok b2 \<Rightarrow> Ok (save_output b2)))"

text \<open>
  \<open>_build_shape_cache\<close>: the shapes of the active slide are visited in the host's order
  and each is stored under its lower-cased name. The stored handle is the shape's position
  in the slide.
\<close>

definition build_shape_cache :: "'a builder_scheme \<Rightarrow> 'a builder_scheme" where
  "build_shape_cache b =
     (case slide b of
        None \<Rightarrow> b
      | Some s \<Rightarrow>
          b\<lparr>shape_cache :=
              fold (\<lambda>(j, sh) cache. cache(lower (Name sh) \<mapsto> j))
                (enumerate 0 (Shapes b)) Map.empty\<rparr>)"

definition get_shape :: "string \<Rightarrow> 'a builder_scheme \<Rightarrow> nat option" where
  "get_shape name b = shape_cache b (lower name)"

text \<open>The shape behind a handle of the cache.\<close>

definition resolve :: "string \<Rightarrow> 'a builder_scheme \<Rightarrow> (nat \<times> shape) option" where
  "resolve name b =
     (case get_shape name b of
        None \<Rightarrow> None
      | Some j \<Rightarrow> (case py_index (Shapes b) j of None \<Rightarrow> None | Some sh \<Rightarrow> Some (j, sh)))"

definition set_text :: "string \<Rightarrow> string \<Rightarrow> 'a builder_scheme \<Rightarrow> 'a builder_scheme" where
  "set_text shape_name text b =
     (case resolve shape_name b of
        None \<Rightarrow> b
      | Some (j, sh) \<Rightarrow>
          if HasTextFrame sh
          then emit (SetText (the (slide b)) j text) (put_shape j (sh\<lparr>Text := text\<rparr>) b)
          else b)"

text \<open>\<open>_set_table_cell\<close>: the host's fault on a cell that does not exist is swallowed.\<close>

definition set_table_cell ::
  "string \<Rightarrow> int \<Rightarrow> int \<Rightarrow> string \<Rightarrow> 'a builder_scheme \<Rightarrow> 'a builder_scheme" where
  "set_table_cell shape_name row col text b =
     (case resolve shape_name b of
        None \<Rightarrow> b
      | Some (j, sh) \<Rightarrow>
          if HasTable sh \<and> Cells sh (row, col) \<noteq> None
          then emit (SetCell (the (slide b)) j row col text)
                 (put_shape j (sh\<lparr>Cells := (Cells sh)((row, col) \<mapsto> text)\<rparr>) b)
          else b)"

text \<open>
  \<open>_set_group_text\<close>: the group's children are scanned in order and the scan stops at
  the first whose lower-cased name matches.
\<close>

definition find_item :: "string \<Rightarrow> item list \<Rightarrow> nat option" where
  "find_item shape_name items =
     find (\<lambda>k. lower (Name (items ! k)) = lower shape_name) [0 ..< length items]"

definition set_group_text ::
  "string \<Rightarrow> string \<Rightarrow> string \<Rightarrow> 'a builder_scheme \<Rightarrow> 'a builder_scheme" where
  "set_group_text group_name shape_name text b =
     (case resolve group_name b of
        None \<Rightarrow> b
      | Some (j, grp) \<Rightarrow>
          (case GroupItems grp of
             None \<Rightarrow> b
           | Some items \<Rightarrow>
               (case find_item shape_name items of
                  None \<Rightarrow> b
                | Some k \<Rightarrow>
                    if HasTextFrame (items ! k)
                    then emit (SetItemText (the (slide b)) j k text)
                           (put_shape j
                              (grp\<lparr>GroupItems := Some (items[k := (items ! k)\<lparr>Text := text\<rparr>])\<rparr>) b)
                    else b)))"

section \<open>The statements of a filler\<close>

text \<open>
  A call of a \<open>fill_slide_type\<close> method runs in its own frame: the builder together with
  the method's local variables. A statement takes the frame to an outcome; an exception
  ends the method at once and leaves the frame as the statement found it.
\<close>

type_synonym content = "string \<rightharpoonup> string"

record frame = builder +
  msg :: string
  info_1 :: string
  info_2 :: string
  info_3 :: string
  info_4 :: string

type_synonym step = "frame \<Rightarrow> frame outcome"
type_synonym expr = "frame \<Rightarrow> error + string"

fun run :: "step list \<Rightarrow> step" where
  "run [] f = Ok f"
| "run (st # sts) f = (case st f of Ok f' \<Rightarrow> run sts f' | Raise e f' \<Rightarrow> Raise e f')"

definition enter :: "builder \<Rightarrow> frame" where
  "enter b =
     \<lparr>library = library b, output_file = output_file b, powerpoint = powerpoint b,
      presentation = presentation b, slide = slide b, shape_cache = shape_cache b,
      events = events b,
      msg = [], info_1 = [], info_2 = [], info_3 = [], info_4 = []\<rparr>"

definition leave :: "frame \<Rightarrow> builder" where
  "leave f =
     \<lparr>library = library f, output_file = output_file f, powerpoint = powerpoint f,
      presentation = presentation f, slide = slide f, shape_cache = shape_cache f,
      events = events f\<rparr>"

definition body_of :: "step list \<Rightarrow> builder \<Rightarrow> builder outcome" where
  "body_of body b =
     (case run body (enter b) of
        Ok f \<Rightarrow> Ok (leave f)
      | Raise e f \<Rightarrow> Raise e (leave f))"

text \<open>Expressions: a string constant, \<open>content[key]\<close>, a local variable, \<open>a + b\<close>.\<close>

definition lit :: "string \<Rightarrow> expr" where
  "lit s f = Inr s"

definition slot :: "content \<Rightarrow> string \<Rightarrow> expr" where
  "slot content key f = (case content key of None \<Rightarrow> Inl (KeyError key) | Some v \<Rightarrow> Inr v)"

definition local_var :: "(frame \<Rightarrow> string) \<Rightarrow> expr" where
  "local_var v f = Inr (v f)"

definition cat :: "expr \<Rightarrow> expr \<Rightarrow> expr" where
  "cat a b f =
     (case a f of
        Inl e \<Rightarrow> Inl e
      | Inr x \<Rightarrow> (case b f of Inl e \<Rightarrow> Inl e | Inr y \<Rightarrow> Inr (x @ y)))"

text \<open>\<open>self.slide = self.presentation.Slides(index)\<close>\<close>

definition select_slide :: "int \<Rightarrow> step" where
  "select_slide index f =
     (case presentation f of
        None \<Rightarrow> Raise (AttributeError ''Slides'') f
      | Some d \<Rightarrow>
          (case Item d index of
             None \<Rightarrow> Raise com_error f
           | Some s \<Rightarrow> Ok (f\<lparr>slide := Some (nat (index - 1))\<rparr>)))"

text \<open>
  A call of a method of the builder: without a string argument, and with a last argument
  that is an expression, which is evaluated before the call.
\<close>

definition call :: "(frame \<Rightarrow> frame) \<Rightarrow> step" where
  "call m f = Ok (m f)"

definition call1 :: "(string \<Rightarrow> frame \<Rightarrow> frame) \<Rightarrow> expr \<Rightarrow> step" where
  "call1 m e f = (case e f of Inl err \<Rightarrow> Raise err f | Inr v \<Rightarrow> Ok (m v f))"

text \<open>\<open>v = e\<close> and \<open>v += e\<close> on a local variable, given by its selector and its update.\<close>

definition assign :: "((string \<Rightarrow> string) \<Rightarrow> frame \<Rightarrow> frame) \<Rightarrow> expr \<Rightarrow> step" where
  "assign upd e f = (case e f of Inl err \<Rightarrow> Raise err f | Inr v \<Rightarrow> Ok (upd (\<lambda>_. v) f))"

definition aug ::
  "(frame \<Rightarrow> string) \<Rightarrow> ((string \<Rightarrow> string) \<Rightarrow> frame \<Rightarrow> frame) \<Rightarrow> expr \<Rightarrow> step" where
  "aug sel upd e f =
     (let old = sel f
      in case e f of Inl err \<Rightarrow> Raise err f | Inr v \<Rightarrow> Ok (upd (\<lambda>_. old @ v) f))"

text \<open>\<open>if k1 in content and k2 in content: ...\<close>\<close>

definition if_in :: "content \<Rightarrow> string list \<Rightarrow> step list \<Rightarrow> step" where
  "if_in content keys body f =
     (if list_all (\<lambda>k. content k \<noteq> None) keys then run body f else Ok f)"

text \<open>
  The fan-out loop of \<open>fill_slide_type_69\<close>:
  \<^verbatim>\<open>points = e.splitlines()\<close>, then
  \<^verbatim>\<open>for i in range(len(points)): self._set_text(zones[i], points[i])\<close>.
\<close>

definition for_range :: "nat \<Rightarrow> (nat \<Rightarrow> step) \<Rightarrow> step" where
  "for_range n body = run (map body [0 ..< n])"

definition set_text_at :: "string list \<Rightarrow> string list \<Rightarrow> nat \<Rightarrow> step" where
  "set_text_at zones points i f =
     (case py_index zones i of
        None \<Rightarrow> Raise IndexError f
      | Some z \<Rightarrow>
          (case py_index points i of
             None \<Rightarrow> Raise IndexError f
           | Some p \<Rightarrow> Ok (set_text z p f)))"

definition fan_out :: "string list \<Rightarrow> expr \<Rightarrow> step" where
  "fan_out zones e f =
     (case e f of
        Inl err \<Rightarrow> Raise err f
      | Inr v \<Rightarrow>
          (let points = splitlines v
           in for_range (length points) (set_text_at zones points) f))"


section \<open>The fillers\<close>

definition fill_slide_type_title :: "string \<Rightarrow> builder \<Rightarrow> builder outcome" where
  "fill_slide_type_title title = body_of
     [select_slide 1,
      call build_shape_cache,
      call1 (set_text ''Title 1'') (lit title)]"

definition fill_slide_type_4 :: "int \<Rightarrow> string \<Rightarrow> content \<Rightarrow> builder \<Rightarrow> builder outcome" where
  "fill_slide_type_4 index title content = body_of
     [select_slide index,
      call build_shape_cache,
      call1 (set_text ''Titre 1'') (lit title),
      if_in content [''source''] [call1 (set_text ''ZoneTexte 8'') (slot content ''source'')],
      if_in content [''description'']
        [call1 (set_text ''ZoneTexte 19'') (slot content ''description'')]]"

definition fill_slide_type_5 :: "int \<Rightarrow> string \<Rightarrow> content \<Rightarrow> builder \<Rightarrow> builder outcome" where
  "fill_slide_type_5 index title content = body_of
     [select_slide index,
      call build_shape_cache,
      call1 (set_text ''Titre 1'') (lit title),
      if_in content [''source''] [call1 (set_text ''ZoneTexte 8'') (slot content ''source'')],
      if_in content [''description'']
        [call1 (set_text ''ZoneTexte 19'') (slot content ''description'')]]"

definition fill_slide_type_6 :: "int \<Rightarrow> string \<Rightarrow> content \<Rightarrow> builder \<Rightarrow> builder outcome" where
  "fill_slide_type_6 index title content = body_of
     [select_slide index,
      call build_shape_cache,
      call1 (set_text ''Titre 1'') (lit title),
      if_in content [''source''] [call1 (set_text ''source'') (slot content ''source'')],
      if_in content [''description'']
        [call1 (set_text ''Rectangle 26'') (slot content ''description'')]]"

definition fill_slide_type_7 :: "int \<Rightarrow> string \<Rightarrow> content \<Rightarrow> builder \<Rightarrow> builder outcome" where
  "fill_slide_type_7 index title content = body_of
     [select_slide index,
      call build_shape_cache,
      call1 (set_text ''Titre 1'') (lit title)]"

definition fill_slide_type_8 :: "int \<Rightarrow> string \<Rightarrow> content \<Rightarrow> builder \<Rightarrow> builder outcome" where
  "fill_slide_type_8 index title content = body_of
     [select_slide index,
      call build_shape_cache,
      call1 (set_text ''Titre 1'') (lit title),
      if_in content [''summary_title_1'']
        [call1 (set_text ''ZoneTexte 4'') (slot content ''summary_title_1'')],
      if_in content [''summary_title_2'']
        [call1 (set_text ''ZoneTexte 6'') (slot content ''summary_title_2'')],
      if_in content [''zonetexte_8'']
        [call1 (set_text ''ZoneTexte 8'') (slot content ''zonetexte_8'')],
      if_in content [''source_1''] [call1 (set_text ''ZoneTexte 6'') (slot content ''source_1'')],
      if_in content [''source_2''] [call1 (set_text ''ZoneTexte 10'') (slot content ''source_2'')]]"

definition fill_slide_type_9 :: "int \<Rightarrow> string \<Rightarrow> content \<Rightarrow> builder \<Rightarrow> builder outcome" where
  "fill_slide_type_9 index title content = body_of
     [select_slide index,
      call build_shape_cache,
      call1 (set_text ''Titre 1'') (lit title),
      if_in content [''description'']
        [call1 (set_text ''Content Placeholder 3'') (slot content ''description'')],
      if_in content [''source''] [call1 (set_text ''ZoneTexte 10'') (slot content ''source'')]]"

definition fill_slide_type_10 :: "int \<Rightarrow> string \<Rightarrow> content \<Rightarrow> builder \<Rightarrow> builder outcome" where
  "fill_slide_type_10 index title content = body_of
     [select_slide index,
      call build_shape_cache,
      call1 (set_text ''Title 1'') (lit title),
      if_in content [''description'']
        [call1 (set_text ''Content Placeholder 3'') (slot content ''description'')],
      if_in content [''graph_title'']
        [call1 (set_text ''TextBox 2'') (slot content ''graph_title'')]]"

definition fill_slide_type_11 :: "int \<Rightarrow> string \<Rightarrow> content \<Rightarrow> builder \<Rightarrow> builder outcome" where
  "fill_slide_type_11 index title content = body_of
     [select_slide index,
      call build_shape_cache,
      call1 (set_text ''Titre 1'') (lit title),
      if_in content [''cause_1''] [call1 (set_text ''Rectangle 7'') (slot content ''cause_1'')],
      if_in content [''conclusion_1'']
        [call1 (set_text ''Rectangle 8'') (slot content ''conclusion_1'')],
      if_in content [''consequence_1'']
        [call1 (set_text ''ZoneTexte 32'') (slot content ''consequence_1'')],
      if_in content [''cause_2''] [call1 (set_text ''Rectangle 13'') (slot content ''cause_2'')],
      if_in content [''conclusion_2'']
        [call1 (set_text ''Rectangle 10'') (slot content ''conclusion_2'')],
      if_in content [''consequence_2'']
        [call1 (set_text ''ZoneTexte 32'') (slot content ''consequence_2'')],
      if_in content [''cause_3''] [call1 (set_text ''Rectangle 14'') (slot content ''cause_3'')],
      if_in content [''conclusion_3'']
        [call1 (set_text ''Rectangle 12'') (slot content ''conclusion_3'')],
      if_in content [''consequence_3'']
        [call1 (set_text ''ZoneTexte 32'') (slot content ''consequence_3'')],
      if_in content [''benefit''] [call1 (set_text ''Ellipse 17'') (slot content ''benefit'')]]"

definition fill_slide_type_12 :: "int \<Rightarrow> string \<Rightarrow> content \<Rightarrow> builder \<Rightarrow> builder outcome" where
  "fill_slide_type_12 index title content = body_of
     [select_slide index,
      call build_shape_cache,
      call1 (set_text ''Titre 1'') (lit title),
      if_in content [''criteria_1'']
        [call1 (set_table_cell ''Table 7'' 1 1) (slot content ''criteria_1'')],
      if_in content [''description_1'']
        [call1 (set_table_cell ''Table 7'' 1 2) (slot content ''description_1'')],
      if_in content [''criteria_2'']
        [call1 (set_table_cell ''Table 7'' 2 1) (slot content ''criteria_2'')],
      if_in content [''description_2'']
        [call1 (set_table_cell ''Table 7'' 2 2) (slot content ''description_2'')],
      if_in content [''criteria_3'']
        [call1 (set_table_cell ''Table 7'' 3 1) (slot content ''criteria_3'')],
      if_in content [''description_3'']
        [call1 (set_table_cell ''Table 7'' 3 2) (slot content ''description_3'')],
      if_in content [''criteria_4'']
        [call1 (set_table_cell ''Table 7'' 4 1) (slot content ''criteria_4'')],
      if_in content [''description_4'']
        [call1 (set_table_cell ''Table 7'' 4 2) (slot content ''description_4'')],
      if_in content [''key_consequences'']
        [call1 (set_text ''Google Shape;1738;p230'') (slot content ''key_consequences'')]]"

definition fill_slide_type_13 :: "int \<Rightarrow> string \<Rightarrow> content \<Rightarrow> builder \<Rightarrow> builder outcome" where
  "fill_slide_type_13 index title content = body_of
     [select_slide index,
      call build_shape_cache,
      call1 (set_text ''Titre 1'') (lit title),
      if_in content [''description'']
        [call1 (set_text ''ZoneTexte 18'') (slot content ''description'')],
      if_in content [''key_messages'']
        [call1 (set_text ''Google Shape;1738;p230'') (slot content ''key_messages'')]]"

definition fill_slide_type_15 :: "int \<Rightarrow> string \<Rightarrow> content \<Rightarrow> builder \<Rightarrow> builder outcome" where
  "fill_slide_type_15 index title content = body_of
     [select_slide index,
      call build_shape_cache,
      call1 (set_text ''Titre 7'') (lit title),
      if_in content [''company_description'']
        [call1 (set_text ''Rectangle 5'') (slot content ''company_description'')],
      if_in content [''our_role''] [call1 (set_text ''Rectangle 15'') (slot content ''our_role'')],
      if_in content [''results''] [call1 (set_text ''Rectangle 12'') (slot content ''results'')],
      if_in content [''quote''] [call1 (set_text ''Rectangle 18'') (slot content ''quote'')]]"

definition fill_slide_type_16 :: "int \<Rightarrow> string \<Rightarrow> content \<Rightarrow> builder \<Rightarrow> builder outcome" where
  "fill_slide_type_16 index title content = body_of
     [select_slide index,
      call build_shape_cache,
      call1 (set_text ''Title 3'') (lit title),
      if_in content [''reference_1'']
        [call1 (set_text ''Rectangle 29'') (slot content ''reference_1'')],
      if_in content [''info_1''] [call1 (set_text ''Rectangle 28'') (slot content ''info_1'')],
      if_in content [''reference_2'']
        [call1 (set_text ''Rectangle 32'') (slot content ''reference_2'')],
      if_in content [''info_2''] [call1 (set_text ''Rectangle 31'') (slot content ''info_2'')]]"

definition fill_slide_type_17 :: "int \<Rightarrow> string \<Rightarrow> content \<Rightarrow> builder \<Rightarrow> builder outcome" where
  "fill_slide_type_17 index title content = body_of
     [select_slide index,
      call build_shape_cache,
      call1 (set_text ''Title 3'') (lit title),
      if_in content [''reference_1'']
        [call1 (set_text ''Rectangle 29'') (slot content ''reference_1'')],
      if_in content [''info_1''] [call1 (set_text ''Rectangle 28'') (slot content ''info_1'')],
      if_in content [''reference_2'']
        [call1 (set_text ''Rectangle 18'') (slot content ''reference_2'')],
      if_in content [''info_2''] [call1 (set_text ''Rectangle 17'') (slot content ''info_2'')],
      if_in content [''reference_3'']
        [call1 (set_text ''Rectangle 24'') (slot content ''reference_3'')],
      if_in content [''info_3''] [call1 (set_text ''Rectangle 23'') (slot content ''info_3'')]]"

definition fill_slide_type_18 :: "int \<Rightarrow> string \<Rightarrow> content \<Rightarrow> builder \<Rightarrow> builder outcome" where
  "fill_slide_type_18 index title content = body_of
     [select_slide index,
      call build_shape_cache,
      call1 (set_text ''Title 3'') (lit title),
      if_in content [''reference_1'']
        [call1 (set_text ''Rectangle 42'') (slot content ''reference_1'')],
      if_in content [''info_1''] [call1 (set_text ''Rectangle 43'') (slot content ''info_1'')],
      if_in content [''reference_2'']
        [call1 (set_text ''Rectangle 28'') (slot content ''reference_2'')],
      if_in content [''info_2''] [call1 (set_text ''Rectangle 31'') (slot content ''info_2'')],
      if_in content [''reference_3'']
        [call1 (set_text ''Rectangle 34'') (slot content ''reference_3'')],
      if_in content [''info_3''] [call1 (set_text ''Rectangle 35'') (slot content ''info_3'')],
      if_in content [''reference_4'']
        [call1 (set_text ''Rectangle 38'') (slot content ''reference_4'')],
      if_in content [''info_4''] [call1 (set_text ''Rectangle 39'') (slot content ''info_4'')]]"

definition fill_slide_type_19 :: "int \<Rightarrow> string \<Rightarrow> content \<Rightarrow> builder \<Rightarrow> builder outcome" where
  "fill_slide_type_19 index title content = body_of
     [select_slide index,
      call build_shape_cache,
      call1 (set_text ''Title 1'') (lit title),
      if_in content [''roles_and_expertise'']
        [call1 (set_text ''Rectangle 7'') (slot content ''roles_and_expertise'')],
      if_in content [''education_and_languages'']
        [call1 (set_text ''Rectangle 4'') (slot content ''education_and_languages'')],
      if_in content [''selected_experience'']
        [call1 (set_text ''Rectangle 8'') (slot content ''selected_experience'')]]"

definition fill_slide_type_20 :: "int \<Rightarrow> string \<Rightarrow> content \<Rightarrow> builder \<Rightarrow> builder outcome" where
  "fill_slide_type_20 index title content = body_of
     [select_slide index,
      call build_shape_cache,
      call1 (set_text ''Title 1'') (lit title),
      if_in content [''key_message'']
        [call1 (set_text ''Content Placeholder 12'') (slot content ''key_message'')],
      if_in content [''name_1''] [call1 (set_text ''Rectangle 16'') (slot content ''name_1'')],
      if_in content [''role_1''] [call1 (set_text ''Rectangle 19'') (slot content ''role_1'')],
      if_in content [''name_2''] [call1 (set_text ''Rectangle 16-2'') (slot content ''name_2'')],
      if_in content [''role_2''] [call1 (set_text ''Rectangle 19-2'') (slot content ''role_2'')],
      if_in content [''name_3''] [call1 (set_text ''Rectangle 16-3'') (slot content ''name_3'')],
      if_in content [''role_3''] [call1 (set_text ''Rectangle 19-3'') (slot content ''role_3'')],
      if_in content [''name_4''] [call1 (set_text ''Rectangle 11'') (slot content ''name_4'')],
      if_in content [''role_4''] [call1 (set_text ''Rectangle 19-4'') (slot content ''role_4'')]]"

definition fill_slide_type_21 :: "int \<Rightarrow> string \<Rightarrow> content \<Rightarrow> builder \<Rightarrow> builder outcome" where
  "fill_slide_type_21 index title content = body_of
     [select_slide index,
      call build_shape_cache,
      call1 (set_text ''Title 1'') (lit title),
      if_in content [''key_message'']
        [call1 (set_text ''Content Placeholder 12'') (slot content ''key_message'')],
      if_in content [''name_1''] [call1 (set_text ''Rectangle 16'') (slot content ''name_1'')],
      if_in content [''role_1''] [call1 (set_text ''Rectangle 19'') (slot content ''role_1'')],
      if_in content [''name_2''] [call1 (set_text ''Rectangle 16-2'') (slot content ''name_2'')],
      if_in content [''role_2''] [call1 (set_text ''Rectangle 19-2'') (slot content ''role_2'')],
      if_in content [''name_3''] [call1 (set_text ''Rectangle 16-3'') (slot content ''name_3'')],
      if_in content [''role_3''] [call1 (set_text ''Rectangle 19-3'') (slot content ''role_3'')],
      if_in content [''name_4''] [call1 (set_text ''Rectangle 11'') (slot content ''name_4'')],
      if_in content [''role_4''] [call1 (set_text ''Rectangle 19-4'') (slot content ''role_4'')],
      if_in content [''name_5''] [call1 (set_text ''Rectangle 16-5'') (slot content ''name_5'')],
      if_in content [''role_5''] [call1 (set_text ''Rectangle 19-5'') (slot content ''rol5_4'')],
      if_in content [''name_6''] [call1 (set_text ''Rectangle 18'') (slot content ''name_6'')],
      if_in content [''role_6''] [call1 (set_text ''Rectangle 19-6'') (slot content ''role_6'')]]"

definition fill_slide_type_22 :: "int \<Rightarrow> string \<Rightarrow> content \<Rightarrow> builder \<Rightarrow> builder outcome" where
  "fill_slide_type_22 index title content = body_of
     [select_slide index,
      call build_shape_cache,
      call1 (set_text ''Titre 1'') (lit title),
      if_in content [''name_1''] [call1 (set_text ''Rectangle 11'') (slot content ''name_1'')],
      assign info_1_update (lit []),
      if_in content [''title_1''] [aug info_1 info_1_update (slot content ''title_1'')],
      if_in content [''role_1''] [aug info_1 info_1_update (slot content ''role_1'')],
      if_in content [''expertise_1''] [aug info_1 info_1_update (slot content ''expertise_1'')],
      call1 (set_text ''Rectangle 19'') (local_var info_1),
      if_in content [''name_2''] [call1 (set_text ''Rectangle 30'') (slot content ''name_2'')],
      assign info_2_update (lit []),
      if_in content [''title_2''] [aug info_2 info_2_update (slot content ''title_2'')],
      if_in content [''role_2''] [aug info_2 info_2_update (slot content ''role_2'')],
      if_in content [''expertise_2''] [aug info_2 info_2_update (slot content ''expertise_2'')],
      call1 (set_text ''Rectangle 19-2'') (local_var info_2),
      if_in content [''name_3''] [call1 (set_text ''Rectangle 31'') (slot content ''name_3'')],
      assign info_3_update (lit []),
      if_in content [''title_3''] [aug info_3 info_3_update (slot content ''title_3'')],
      if_in content [''role_3''] [aug info_3 info_3_update (slot content ''role_3'')],
      if_in content [''expertise_3''] [aug info_3 info_3_update (slot content ''expertise_3'')],
      call1 (set_text ''Rectangle 19-3'') (local_var info_3),
      if_in content [''name_4''] [call1 (set_text ''Rectangle 32'') (slot content ''name_4'')],
      assign info_4_update (lit []),
      if_in content [''title4''] [aug info_4 info_4_update (slot content ''title_4'')],
      if_in content [''role_4''] [aug info_4 info_4_update (slot content ''role_4'')],
      if_in content [''expertise_4''] [aug info_4 info_4_update (slot content ''expertise_4'')],
      call1 (set_text ''Rectangle 20'') (local_var info_4)]"

definition fill_slide_type_24 :: "int \<Rightarrow> string \<Rightarrow> content \<Rightarrow> builder \<Rightarrow> builder outcome" where
  "fill_slide_type_24 index title content = body_of
     [select_slide index,
      call build_shape_cache,
      call1 (set_text ''Titre 1'') (lit title),
      if_in content [''objective_1'']
        [call1 (set_table_cell ''Table 26'' 1 2) (slot content ''objective_1'')],
      if_in content [''objective_2'']
        [call1 (set_table_cell ''Table 26'' 2 2) (slot content ''objective_2'')],
      if_in content [''objective_3'']
        [call1 (set_table_cell ''Table 26'' 3 2) (slot content ''objective_3'')],
      if_in content [''objective_4'']
        [call1 (set_table_cell ''Table 26'' 4 2) (slot content ''objective_4'')]]"

definition fill_slide_type_25 :: "int \<Rightarrow> string \<Rightarrow> content \<Rightarrow> builder \<Rightarrow> builder outcome" where
  "fill_slide_type_25 index title content = body_of
     [select_slide index,
      call build_shape_cache,
      call1 (set_text ''Titre 1'') (lit title),
      if_in content [''principle_1'']
        [call1 (set_table_cell (''Espace r'' @ [CHR 0xE9] @ ''serv'' @ [CHR 0xE9] @ '' du contenu 4'') 1 1)
           (slot content ''principle_1'')],
      if_in content [''context_1'']
        [call1 (set_table_cell (''Espace r'' @ [CHR 0xE9] @ ''serv'' @ [CHR 0xE9] @ '' du contenu 4'') 1 2)
           (slot content ''context_1'')],
      if_in content [''principle_2'']
        [call1 (set_table_cell (''Espace r'' @ [CHR 0xE9] @ ''serv'' @ [CHR 0xE9] @ '' du contenu 4'') 2 1)
           (slot content ''principle_2'')],
      if_in content [''context_2'']
        [call1 (set_table_cell (''Espace r'' @ [CHR 0xE9] @ ''serv'' @ [CHR 0xE9] @ '' du contenu 4'') 2 2)
           (slot content ''context_2'')],
      if_in content [''principle_3'']
        [call1 (set_table_cell (''Espace r'' @ [CHR 0xE9] @ ''serv'' @ [CHR 0xE9] @ '' du contenu 4'') 3 1)
           (slot content ''principle_3'')],
      if_in content [''context_3'']
        [call1 (set_table_cell (''Espace r'' @ [CHR 0xE9] @ ''serv'' @ [CHR 0xE9] @ '' du contenu 4'') 3 2)
           (slot content ''context_3'')]]"

definition fill_slide_type_47 :: "int \<Rightarrow> string \<Rightarrow> content \<Rightarrow> builder \<Rightarrow> builder outcome" where
  "fill_slide_type_47 index title content = body_of
     [select_slide index,
      call build_shape_cache,
      call1 (set_text ''Titre 1'') (lit title),
      if_in content [''idea_1''] [call1 (set_text ''Rectangle 31'') (slot content ''idea_1'')],
      if_in content [''idea_2''] [call1 (set_text ''Rectangle 32'') (slot content ''idea_2'')]]"

definition fill_slide_type_48 :: "int \<Rightarrow> string \<Rightarrow> content \<Rightarrow> builder \<Rightarrow> builder outcome" where
  "fill_slide_type_48 index title content = body_of
     [select_slide index,
      call build_shape_cache,
      call1 (set_text ''Titre 1'') (lit title),
      if_in content [''idea_1''] [call1 (set_text ''Rectangle 31'') (slot content ''idea_1'')],
      if_in content [''idea_2''] [call1 (set_text ''Rectangle 32'') (slot content ''idea_2'')],
      if_in content [''idea_3''] [call1 (set_text ''Rectangle 33'') (slot content ''idea_3'')]]"

definition fill_slide_type_49 :: "int \<Rightarrow> string \<Rightarrow> content \<Rightarrow> builder \<Rightarrow> builder outcome" where
  "fill_slide_type_49 index title content = body_of
     [select_slide index,
      call build_shape_cache,
      call1 (set_text ''Titre 1'') (lit title),
      if_in content [''idea_1''] [call1 (set_text ''Rectangle 31'') (slot content ''idea_1'')],
      if_in content [''idea_2''] [call1 (set_text ''Rectangle 32'') (slot content ''idea_2'')],
      if_in content [''idea_3''] [call1 (set_text ''Rectangle 33'') (slot content ''idea_3'')],
      if_in content [''idea_4''] [call1 (set_text ''Rectangle 14'') (slot content ''idea_4'')]]"

definition fill_slide_type_50 :: "int \<Rightarrow> string \<Rightarrow> content \<Rightarrow> builder \<Rightarrow> builder outcome" where
  "fill_slide_type_50 index title content = body_of
     [select_slide index,
      call build_shape_cache,
      call1 (set_text ''Titre 1'') (lit title),
      if_in content [''idea_1'']
        [call1 (set_text (''Forme libre'' @ [CHR 0xA0] @ '': forme 6'')) (slot content ''idea_1'')],
      if_in content [''idea_2'']
        [call1 (set_text (''Forme libre'' @ [CHR 0xA0] @ '': forme 9'')) (slot content ''idea_2'')],
      if_in content [''idea_3'']
        [call1 (set_text (''Forme libre'' @ [CHR 0xA0] @ '': forme 11'')) (slot content ''idea_3'')]]"

definition fill_slide_type_51 :: "int \<Rightarrow> string \<Rightarrow> content \<Rightarrow> builder \<Rightarrow> builder outcome" where
  "fill_slide_type_51 index title content = body_of
     [select_slide index,
      call build_shape_cache,
      call1 (set_text ''Titre 1'') (lit title),
      if_in content [''idea_1'']
        [call1 (set_text (''Forme libre'' @ [CHR 0xA0] @ '': forme 6'')) (slot content ''idea_1'')],
      if_in content [''idea_2'']
        [call1 (set_text (''Forme libre'' @ [CHR 0xA0] @ '': forme 9'')) (slot content ''idea_2'')],
      if_in content [''idea_3'']
        [call1 (set_text (''Forme libre'' @ [CHR 0xA0] @ '': forme 11'')) (slot content ''idea_3'')],
      if_in content [''idea_4'']
        [call1 (set_text (''Forme libre'' @ [CHR 0xA0] @ '': forme 18'')) (slot content ''idea_4'')]]"

definition fill_slide_type_52 :: "int \<Rightarrow> string \<Rightarrow> content \<Rightarrow> builder \<Rightarrow> builder outcome" where
  "fill_slide_type_52 index title content = body_of
     [select_slide index,
      call build_shape_cache,
      call1 (set_text ''Titre 1'') (lit title),
      if_in content [''idea_1'']
        [call1 (set_text (''Forme libre'' @ [CHR 0xA0] @ '': forme 33'')) (slot content ''idea_1'')],
      if_in content [''idea_2'']
        [call1 (set_text (''Forme libre'' @ [CHR 0xA0] @ '': forme 34'')) (slot content ''idea_2'')],
      if_in content [''idea_3'']
        [call1 (set_text (''Forme libre'' @ [CHR 0xA0] @ '': forme 35'')) (slot content ''idea_3'')],
      if_in content [''idea_4'']
        [call1 (set_text (''Forme libre'' @ [CHR 0xA0] @ '': forme 42'')) (slot content ''idea_4'')],
      if_in content [''idea_5'']
        [call1 (set_text (''Forme libre'' @ [CHR 0xA0] @ '': forme 36'')) (slot content ''idea_5'')]]"

definition fill_slide_type_53 :: "int \<Rightarrow> string \<Rightarrow> content \<Rightarrow> builder \<Rightarrow> builder outcome" where
  "fill_slide_type_53 index title content = body_of
     [select_slide index,
      call build_shape_cache,
      call1 (set_text ''Title 4'') (lit title),
      if_in content [''topic_1''] [call1 (set_text ''ZoneTexte 22'') (slot content ''topic_1'')],
      if_in content [''detail_1''] [call1 (set_text ''ZoneTexte 58'') (slot content ''detail_1'')],
      if_in content [''topic_2''] [call1 (set_text ''ZoneTexte 51'') (slot content ''topic_2'')],
      if_in content [''detail_2''] [call1 (set_text ''ZoneTexte 16'') (slot content ''detail_2'')],
      if_in content [''topic_3''] [call1 (set_text ''ZoneTexte 52'') (slot content ''topic_3'')],
      if_in content [''detail_3''] [call1 (set_text ''ZoneTexte 17'') (slot content ''detail_3'')]]"

definition fill_slide_type_54 :: "int \<Rightarrow> string \<Rightarrow> content \<Rightarrow> builder \<Rightarrow> builder outcome" where
  "fill_slide_type_54 index title content = body_of
     [select_slide index,
      call build_shape_cache,
      call1 (set_text ''Title 4'') (lit title),
      if_in content [''topic_1''] [call1 (set_text ''ZoneTexte 22'') (slot content ''topic_1'')],
      if_in content [''detail_1''] [call1 (set_text ''ZoneTexte 58'') (slot content ''detail_1'')],
      if_in content [''topic_2''] [call1 (set_text ''ZoneTexte 51'') (slot content ''topic_2'')],
      if_in content [''detail_2''] [call1 (set_text ''ZoneTexte 18'') (slot content ''detail_2'')],
      if_in content [''topic_3''] [call1 (set_text ''ZoneTexte 52'') (slot content ''topic_3'')],
      if_in content [''detail_3''] [call1 (set_text ''ZoneTexte 23'') (slot content ''detail_3'')],
      if_in content [''topic_4''] [call1 (set_text ''ZoneTexte 53'') (slot content ''topic_4'')],
      if_in content [''detail_4''] [call1 (set_text ''ZoneTexte 24'') (slot content ''detail_4'')]]"

definition fill_slide_type_55 :: "int \<Rightarrow> string \<Rightarrow> content \<Rightarrow> builder \<Rightarrow> builder outcome" where
  "fill_slide_type_55 index title content = body_of
     [select_slide index,
      call build_shape_cache,
      call1 (set_text ''Title 5'') (lit title),
      if_in content [''topic_1''] [call1 (set_text ''Rectangle 28'') (slot content ''topic_1'')],
      if_in content [''detail_1''] [call1 (set_text ''Rectangle 29'') (slot content ''detail_1'')],
      if_in content [''topic_2''] [call1 (set_text ''Rectangle 30'') (slot content ''topic_2'')],
      if_in content [''detail_2''] [call1 (set_text ''Rectangle 51'') (slot content ''detail_2'')]]"

definition fill_slide_type_56 :: "int \<Rightarrow> string \<Rightarrow> content \<Rightarrow> builder \<Rightarrow> builder outcome" where
  "fill_slide_type_56 index title content = body_of
     [select_slide index,
      call build_shape_cache,
      call1 (set_text ''Title 5'') (lit title),
      if_in content [''topic_1''] [call1 (set_text ''Rectangle 28'') (slot content ''topic_1'')],
      if_in content [''detail_1''] [call1 (set_text ''Rectangle 29'') (slot content ''detail_1'')],
      if_in content [''topic_2''] [call1 (set_text ''Rectangle 30'') (slot content ''topic_2'')],
      if_in content [''detail_2''] [call1 (set_text ''Rectangle 51'') (slot content ''detail_2'')],
      if_in content [''topic_3''] [call1 (set_text ''Rectangle 31'') (slot content ''topic_3'')],
      if_in content [''detail_3''] [call1 (set_text ''Rectangle 53'') (slot content ''detail_3'')]]"

definition fill_slide_type_57 :: "int \<Rightarrow> string \<Rightarrow> content \<Rightarrow> builder \<Rightarrow> builder outcome" where
  "fill_slide_type_57 index title content = body_of
     [select_slide index,
      call build_shape_cache,
      call1 (set_text ''Title 5'') (lit title),
      if_in content [''topic_1''] [call1 (set_text ''Rectangle 28'') (slot content ''topic_1'')],
      if_in content [''detail_1''] [call1 (set_text ''Rectangle 29'') (slot content ''detail_1'')],
      if_in content [''topic_2''] [call1 (set_text ''Rectangle 54'') (slot content ''topic_2'')],
      if_in content [''detail_2''] [call1 (set_text ''Rectangle 50'') (slot content ''detail_2'')],
      if_in content [''topic_3''] [call1 (set_text ''Rectangle 59'') (slot content ''topic_3'')],
      if_in content [''detail_3''] [call1 (set_text ''Rectangle 57'') (slot content ''detail_3'')],
      if_in content [''topic_4''] [call1 (set_text ''Rectangle 64'') (slot content ''topic_4'')],
      if_in content [''detail_4''] [call1 (set_text ''Rectangle 62'') (slot content ''detail_4'')]]"

definition fill_slide_type_58 :: "int \<Rightarrow> string \<Rightarrow> content \<Rightarrow> builder \<Rightarrow> builder outcome" where
  "fill_slide_type_58 index title content = body_of
     [select_slide index,
      call build_shape_cache,
      call1 (set_text ''Title 1'') (lit title),
      assign msg_update (lit []),
      if_in content [''idea_1'']
        [aug msg msg_update (slot content ''idea_1''),
         aug msg msg_update (lit ''\<newline>'')],
      if_in content [''detail_1''] [aug msg msg_update (slot content ''detail_1'')],
      call1 (set_text ''Rectangle 37'') (local_var msg),
      assign msg_update (lit []),
      if_in content [''idea_2'']
        [aug msg msg_update (slot content ''idea_2''),
         aug msg msg_update (lit ''\<newline>'')],
      if_in content [''detail_2''] [aug msg msg_update (slot content ''detail_2'')],
      call1 (set_text ''Rectangle 39'') (local_var msg),
      assign msg_update (lit []),
      if_in content [''idea_3'']
        [aug msg msg_update (slot content ''idea_3''),
         aug msg msg_update (lit ''\<newline>'')],
      if_in content [''detail_3''] [aug msg msg_update (slot content ''detail_3'')],
      call1 (set_text ''Rectangle 38'') (local_var msg)]"

definition fill_slide_type_59 :: "int \<Rightarrow> string \<Rightarrow> content \<Rightarrow> builder \<Rightarrow> builder outcome" where
  "fill_slide_type_59 index title content = body_of
     [select_slide index,
      call build_shape_cache,
      call1 (set_text ''Title 1'') (lit title),
      assign msg_update (lit []),
      if_in content [''idea_1'']
        [aug msg msg_update (slot content ''idea_1''),
         aug msg msg_update (lit ''\<newline>'')],
      if_in content [''detail_1''] [aug msg msg_update (slot content ''detail_1'')],
      call1 (set_text ''Rectangle 12'') (local_var msg),
      assign msg_update (lit []),
      if_in content [''idea_2'']
        [aug msg msg_update (slot content ''idea_2''),
         aug msg msg_update (lit ''\<newline>'')],
      if_in content [''detail_2''] [aug msg msg_update (slot content ''detail_2'')],
      call1 (set_text ''Rectangle 14'') (local_var msg),
      assign msg_update (lit []),
      if_in content [''idea_3'']
        [aug msg msg_update (slot content ''idea_3''),
         aug msg msg_update (lit ''\<newline>'')],
      if_in content [''detail_3''] [aug msg msg_update (slot content ''detail_3'')],
      call1 (set_text ''Rectangle 13'') (local_var msg),
      assign msg_update (lit []),
      if_in content [''idea_4'']
        [aug msg msg_update (slot content ''idea_4''),
         aug msg msg_update (lit ''\<newline>'')],
      if_in content [''detail_4''] [aug msg msg_update (slot content ''detail_4'')],
      call1 (set_text ''Rectangle 40'') (local_var msg)]"

definition fill_slide_type_60 :: "int \<Rightarrow> string \<Rightarrow> content \<Rightarrow> builder \<Rightarrow> builder outcome" where
  "fill_slide_type_60 index title content = body_of
     [select_slide index,
      call build_shape_cache,
      call1 (set_text ''Title 1'') (lit title),
      assign msg_update (lit []),
      if_in content [''idea_1'']
        [aug msg msg_update (slot content ''idea_1''),
         aug msg msg_update (lit ''\<newline>'')],
      if_in content [''detail_1''] [aug msg msg_update (slot content ''detail_1'')],
      call1 (set_text ''Rectangle 37'') (local_var msg),
      assign msg_update (lit []),
      if_in content [''idea_2'']
        [aug msg msg_update (slot content ''idea_2''),
         aug msg msg_update (lit ''\<newline>'')],
      if_in content [''detail_2''] [aug msg msg_update (slot content ''detail_2'')],
      call1 (set_text ''Rectangle 22'') (local_var msg),
      assign msg_update (lit []),
      if_in content [''idea_3'']
        [aug msg msg_update (slot content ''idea_3''),
         aug msg msg_update (lit ''\<newline>'')],
      if_in content [''detail_3''] [aug msg msg_update (slot content ''detail_3'')],
      call1 (set_text ''Rectangle 26'') (local_var msg),
      assign msg_update (lit []),
      if_in content [''idea_4'']
        [aug msg msg_update (slot content ''idea_4''),
         aug msg msg_update (lit ''\<newline>'')],
      if_in content [''detail_4''] [aug msg msg_update (slot content ''detail_4'')],
      call1 (set_text ''Rectangle 38'') (local_var msg),
      assign msg_update (lit []),
      if_in content [''idea_5'']
        [aug msg msg_update (slot content ''idea_5''),
         aug msg msg_update (lit ''\<newline>'')],
      if_in content [''detail_5''] [aug msg msg_update (slot content ''detail_5'')],
      call1 (set_text ''Rectangle 23'') (local_var msg)]"

definition fill_slide_type_61 :: "int \<Rightarrow> string \<Rightarrow> content \<Rightarrow> builder \<Rightarrow> builder outcome" where
  "fill_slide_type_61 index title content = body_of
     [select_slide index,
      call build_shape_cache,
      call1 (set_text ''Title 1'') (lit title),
      assign msg_update (lit []),
      if_in content [''idea_1'']
        [aug msg msg_update (slot content ''idea_1''),
         aug msg msg_update (lit ''\<newline>'')],
      if_in content [''detail_1''] [aug msg msg_update (slot content ''detail_1'')],
      call1 (set_text ''Rectangle 16'') (local_var msg),
      assign msg_update (lit []),
      if_in content [''idea_2'']
        [aug msg msg_update (slot content ''idea_2''),
         aug msg msg_update (lit ''\<newline>'')],
      if_in content [''detail_2''] [aug msg msg_update (slot content ''detail_2'')],
      call1 (set_text ''Rectangle 18'') (local_var msg),
      assign msg_update (lit []),
      if_in content [''idea_3'']
        [aug msg msg_update (slot content ''idea_3''),
         aug msg msg_update (lit ''\<newline>'')],
      if_in content [''detail_3''] [aug msg msg_update (slot content ''detail_3'')],
      call1 (set_text ''Rectangle 28'') (local_var msg),
      assign msg_update (lit []),
      if_in content [''idea_4'']
        [aug msg msg_update (slot content ''idea_4''),
         aug msg msg_update (lit ''\<newline>'')],
      if_in content [''detail_4''] [aug msg msg_update (slot content ''detail_4'')],
      call1 (set_text ''Rectangle 17'') (local_var msg),
      assign msg_update (lit []),
      if_in content [''idea_5'']
        [aug msg msg_update (slot content ''idea_5''),
         aug msg msg_update (lit ''\<newline>'')],
      if_in content [''detail_5''] [aug msg msg_update (slot content ''detail_5'')],
      call1 (set_text ''Rectangle 19'') (local_var msg),
      assign msg_update (lit []),
      if_in content [''idea_6'']
        [aug msg msg_update (slot content ''idea_6''),
         aug msg msg_update (lit ''\<newline>'')],
      if_in content [''detail_6''] [aug msg msg_update (slot content ''detail_6'')],
      call1 (set_text ''Rectangle 29'') (local_var msg)]"

definition fill_slide_type_62 :: "int \<Rightarrow> string \<Rightarrow> content \<Rightarrow> builder \<Rightarrow> builder outcome" where
  "fill_slide_type_62 index title content = body_of
     [select_slide index,
      call build_shape_cache,
      call1 (set_text ''Title 1'') (lit title),
      if_in content [''idea_1''] [call1 (set_text ''ZoneTexte 5'') (slot content ''idea_1'')],
      if_in content [''detail_1''] [call1 (set_text ''ZoneTexte 6'') (slot content ''detail_1'')],
      if_in content [''idea_2''] [call1 (set_text ''ZoneTexte 7'') (slot content ''idea_2'')],
      if_in content [''detail_2''] [call1 (set_text ''ZoneTexte 9'') (slot content ''detail_2'')]]"

definition fill_slide_type_63 :: "int \<Rightarrow> string \<Rightarrow> content \<Rightarrow> builder \<Rightarrow> builder outcome" where
  "fill_slide_type_63 index title content = body_of
     [select_slide index,
      call build_shape_cache,
      call1 (set_text ''Title 1'') (lit title),
      if_in content [''idea_1''] [call1 (set_text ''ZoneTexte 5'') (slot content ''idea_1'')],
      if_in content [''detail_1''] [call1 (set_text ''ZoneTexte 6'') (slot content ''detail_1'')],
      if_in content [''idea_2''] [call1 (set_text ''ZoneTexte 7'') (slot content ''idea_2'')],
      if_in content [''detail_2''] [call1 (set_text ''ZoneTexte 9'') (slot content ''detail_2'')],
      if_in content [''idea_3''] [call1 (set_text ''ZoneTexte 15'') (slot content ''idea_3'')],
      if_in content [''detail_3''] [call1 (set_text ''ZoneTexte 16'') (slot content ''detail_3'')]]"

definition fill_slide_type_64 :: "int \<Rightarrow> string \<Rightarrow> content \<Rightarrow> builder \<Rightarrow> builder outcome" where
  "fill_slide_type_64 index title content = body_of
     [select_slide index,
      call build_shape_cache,
      call1 (set_text ''Title 1'') (lit title),
      if_in content [''criteria_1''] [call1 (set_text ''TextBox 53'') (slot content ''criteria_1'')],
      if_in content [''criteria_2''] [call1 (set_text ''TextBox 54'') (slot content ''criteria_2'')],
      if_in content [''quadrant_1''] [call1 (set_text ''Freeform 5'') (slot content ''quadrant_1'')],
      if_in content [''description_1'']
        [call1 (set_text ''TextBox 19'') (slot content ''description_1'')],
      if_in content [''quadrant_2''] [call1 (set_text ''Freeform 6'') (slot content ''quadrant_2'')],
      if_in content [''description_2'']
        [call1 (set_text ''TextBox 24'') (slot content ''description_2'')],
      if_in content [''quadrant_3''] [call1 (set_text ''Freeform 8'') (slot content ''quadrant_3'')],
      if_in content [''description_3'']
        [call1 (set_text ''TextBox 42'') (slot content ''description_3'')],
      if_in content [''quadrant_4''] [call1 (set_text ''Freeform 7'') (slot content ''quadrant_4'')],
      if_in content [''description_4'']
        [call1 (set_text ''TextBox 46'') (slot content ''description_4'')]]"

definition fill_slide_type_65 :: "int \<Rightarrow> string \<Rightarrow> content \<Rightarrow> builder \<Rightarrow> builder outcome" where
  "fill_slide_type_65 index title content = body_of
     [select_slide index,
      call build_shape_cache,
      call1 (set_text ''Title 1'') (lit title),
      if_in content [''stake''] [call1 (set_text ''Oval 40'') (slot content ''stake'')],
      if_in content [''quadrant_1'']
        [call1 (set_table_cell ''Tableau 46'' 1 1) (slot content ''quadrant_1'')],
      if_in content [''description_1'']
        [call1 (set_table_cell ''Tableau 46'' 2 1) (slot content ''description_1'')],
      if_in content [''quadrant_2'']
        [call1 (set_table_cell ''Tableau 46-2'' 1 1) (slot content ''quadrant_2'')],
      if_in content [''description_2'']
        [call1 (set_table_cell ''Tableau 46-2'' 2 1) (slot content ''description_2'')],
      if_in content [''quadrant_3'']
        [call1 (set_table_cell ''Tableau 46-3'' 1 1) (slot content ''quadrant_3'')],
      if_in content [''description_3'']
        [call1 (set_table_cell ''Tableau 46-3'' 2 1) (slot content ''description_3'')],
      if_in content [''quadrant_4'']
        [call1 (set_table_cell ''Tableau 46-4'' 1 1) (slot content ''quadrant_4'')],
      if_in content [''description_4'']
        [call1 (set_table_cell ''Tableau 46-4'' 2 1) (slot content ''description_4'')]]"

definition fill_slide_type_66 :: "int \<Rightarrow> string \<Rightarrow> content \<Rightarrow> builder \<Rightarrow> builder outcome" where
  "fill_slide_type_66 index title content = body_of
     [select_slide index,
      call build_shape_cache,
      call1 (set_text ''Title 1'') (lit title),
      if_in content [''cause_1'']
        [call1 (set_text ''Content Placeholder 4-1c'') (slot content ''cause_1'')],
      if_in content [''result_1'']
        [call1 (set_text ''Content Placeholder 4-1r'') (slot content ''result_1'')],
      if_in content [''cause_2'']
        [call1 (set_text ''Content Placeholder 4-2c'') (slot content ''cause_1'')],
      if_in content [''result_2'']
        [call1 (set_text ''Content Placeholder 4-2r'') (slot content ''result_2'')],
      if_in content [''cause_3'']
        [call1 (set_text ''Content Placeholder 4-3c'') (slot content ''cause_3'')],
      if_in content [''result_3'']
        [call1 (set_text ''Content Placeholder 4-3r'') (slot content ''result_3'')],
      if_in content [''cause_4'']
        [call1 (set_text ''Content Placeholder 4-4c'') (slot content ''cause_4'')],
      if_in content [''result_4'']
        [call1 (set_text ''Content Placeholder 4-4r'') (slot content ''result_4'')]]"

definition fill_slide_type_67 :: "int \<Rightarrow> string \<Rightarrow> content \<Rightarrow> builder \<Rightarrow> builder outcome" where
  "fill_slide_type_67 index title content = body_of
     [select_slide index,
      call build_shape_cache,
      call1 (set_text ''Title 1'') (lit title),
      if_in content [''cause_1'']
        [call1 (set_text ''Content Placeholder 4-1c'') (slot content ''cause_1'')],
      if_in content [''result_1'']
        [call1 (set_text ''Content Placeholder 4-1r'') (slot content ''result_1'')],
      if_in content [''cause_2'']
        [call1 (set_text ''Content Placeholder 4-2c'') (slot content ''cause_1'')],
      if_in content [''result_2'']
        [call1 (set_text ''Content Placeholder 4-2r'') (slot content ''result_2'')],
      if_in content [''cause_3'']
        [call1 (set_text ''Content Placeholder 4-3c'') (slot content ''cause_3'')],
      if_in content [''result_3'']
        [call1 (set_text ''Content Placeholder 4-3r'') (slot content ''result_3'')]]"

definition fill_slide_type_68 :: "int \<Rightarrow> string \<Rightarrow> content \<Rightarrow> builder \<Rightarrow> builder outcome" where
  "fill_slide_type_68 index title content = body_of
     [select_slide index,
      call build_shape_cache,
      call1 (set_text ''Title 1'') (lit title),
      if_in content [''cause_1'']
        [call1 (set_text ''Content Placeholder 4-1c'') (slot content ''cause_1'')],
      if_in content [''result_1'']
        [call1 (set_text ''Content Placeholder 4-1r'') (slot content ''result_1'')],
      if_in content [''cause_2'']
        [call1 (set_text ''Content Placeholder 4-2c'') (slot content ''cause_1'')],
      if_in content [''result_2'']
        [call1 (set_text ''Content Placeholder 4-2r'') (slot content ''result_2'')]]"

definition fill_slide_type_69 :: "int \<Rightarrow> string \<Rightarrow> content \<Rightarrow> builder \<Rightarrow> builder outcome" where
  "fill_slide_type_69 index title content = body_of
     [select_slide index,
      call build_shape_cache,
      call1 (set_text ''Title 5'') (lit title),
      if_in content [''pro''] [call1 (set_text ''ZoneTexte 71'') (slot content ''pro'')],
      if_in content [''con''] [call1 (set_text ''ZoneTexte 72'') (slot content ''con'')],
      if_in content [''detail_1'']
        [fan_out [''ZoneTexte 77'', ''ZoneTexte 78'', ''ZoneTexte 80'', ''ZoneTexte 86'',
                  ''ZoneTexte 86-2''] (slot content ''detail_1'')],
      if_in content [''detail_2'']
        [fan_out [''ZoneTexte 47'', ''ZoneTexte 48'', ''ZoneTexte 49'', ''ZoneTexte 50'',
                  ''ZoneTexte 50-2''] (slot content ''detail_2'')]]"

definition fill_slide_type_71 :: "int \<Rightarrow> string \<Rightarrow> content \<Rightarrow> builder \<Rightarrow> builder outcome" where
  "fill_slide_type_71 index title content = body_of
     [select_slide index,
      call build_shape_cache,
      call1 (set_text ''Title 1'') (lit title),
      if_in content [''idea_1''] [call1 (set_text ''Freeform 17'') (slot content ''idea_1'')],
      if_in content [''idea_2''] [call1 (set_text ''Freeform 12'') (slot content ''idea_2'')],
      if_in content [''idea_3''] [call1 (set_text ''Freeform 8'') (slot content ''idea_3'')],
      if_in content [''idea_4''] [call1 (set_text ''Freeform 13'') (slot content ''idea_4'')],
      if_in content [''idea_5''] [call1 (set_text ''Freeform 15'') (slot content ''idea_5'')],
      if_in content [''idea_6''] [call1 (set_text ''Freeform 14'') (slot content ''idea_6'')],
      if_in content [''idea_7''] [call1 (set_text ''Freeform 16'') (slot content ''idea_7'')],
      if_in content [''idea_8''] [call1 (set_text ''Freeform 11'') (slot content ''idea_8'')],
      if_in content [''idea_9''] [call1 (set_text ''Freeform 10'') (slot content ''idea_9'')],
      if_in content [''idea_10''] [call1 (set_text ''Freeform 18'') (slot content ''idea_10'')]]"

definition fill_slide_type_72 :: "int \<Rightarrow> string \<Rightarrow> content \<Rightarrow> builder \<Rightarrow> builder outcome" where
  "fill_slide_type_72 index title content = body_of
     [select_slide index,
      call build_shape_cache,
      call1 (set_text ''Title 1'') (lit title),
      if_in content [''title''] [call1 (set_text ''Freeform 14'') (slot content ''title'')],
      if_in content [''key_1''] [call1 (set_text ''Freeform 15'') (slot content ''key_1'')],
      if_in content [''detail_1'']
        [call1 (set_text (''Espace r'' @ [CHR 0xE9] @ ''serv'' @ [CHR 0xE9] @ '' du contenu 5''))
           (slot content ''detail_1'')],
      if_in content [''key_2''] [call1 (set_text ''Freeform 16'') (slot content ''key_2'')],
      if_in content [''detail_2'']
        [call1 (set_text (''Espace r'' @ [CHR 0xE9] @ ''serv'' @ [CHR 0xE9] @ '' du contenu 5-2''))
           (slot content ''detail_2'')],
      if_in content [''key_3''] [call1 (set_text ''Freeform 10'') (slot content ''key_3'')],
      if_in content [''detail_3'']
        [call1 (set_text (''Espace r'' @ [CHR 0xE9] @ ''serv'' @ [CHR 0xE9] @ '' du contenu 5-3''))
           (slot content ''detail_3'')],
      if_in content [''key_4''] [call1 (set_text ''Freeform 18'') (slot content ''key_4'')],
      if_in content [''detail_4'']
        [call1 (set_text (''Espace r'' @ [CHR 0xE9] @ ''serv'' @ [CHR 0xE9] @ '' du contenu 5-4''))
           (slot content ''detail_4'')],
      if_in content [''key_5''] [call1 (set_text ''Freeform 8'') (slot content ''key_5'')],
      if_in content [''detail_5'']
        [call1 (set_text (''Espace r'' @ [CHR 0xE9] @ ''serv'' @ [CHR 0xE9] @ '' du contenu 5-5''))
           (slot content ''detail_5'')],
      if_in content [''key_6''] [call1 (set_text ''Freeform 13'') (slot content ''key_6'')],
      if_in content [''detail_6'']
        [call1 (set_text (''Espace r'' @ [CHR 0xE9] @ ''serv'' @ [CHR 0xE9] @ '' du contenu 5-6''))
           (slot content ''detail_6'')]]"

definition fill_slide_type_73 :: "int \<Rightarrow> string \<Rightarrow> content \<Rightarrow> builder \<Rightarrow> builder outcome" where
  "fill_slide_type_73 index title content = body_of
     [select_slide index,
      call build_shape_cache,
      call1 (set_text ''Title 1'') (lit title),
      if_in content [''idea_1''] [call1 (set_text ''ZoneTexte 15'') (slot content ''idea_1'')],
      if_in content [''idea_2''] [call1 (set_text ''ZoneTexte 632'') (slot content ''idea_2'')],
      if_in content [''idea_3''] [call1 (set_text ''ZoneTexte 634'') (slot content ''idea_3'')],
      if_in content [''idea_4''] [call1 (set_text ''ZoneTexte 635'') (slot content ''idea_4'')],
      if_in content [''idea_5''] [call1 (set_text ''ZoneTexte 633'') (slot content ''idea_5'')]]"

definition fill_slide_type_74 :: "int \<Rightarrow> string \<Rightarrow> content \<Rightarrow> builder \<Rightarrow> builder outcome" where
  "fill_slide_type_74 index title content = body_of
     [select_slide index,
      call build_shape_cache,
      call1 (set_text ''Title 1'') (lit title),
      if_in content [''idea_1'']
        [call1 (set_group_text ''Groupe 115'' ''ZoneTexte 109'') (slot content ''idea_1'')],
      if_in content [''detail_1''] [call1 (set_text ''TextBox 91'') (slot content ''detail_1'')],
      if_in content [''idea_2'']
        [call1 (set_group_text ''Groupe 115'' ''ZoneTexte 111'') (slot content ''idea_2'')],
      if_in content [''detail_2''] [call1 (set_text ''TextBox 91-2'') (slot content ''detail_2'')],
      if_in content [''idea_3'']
        [call1 (set_group_text ''Groupe 115'' ''ZoneTexte 112'') (slot content ''idea_3'')],
      if_in content [''detail_3''] [call1 (set_text ''TextBox 91-3'') (slot content ''detail_3'')],
      if_in content [''idea_4'']
        [call1 (set_group_text ''Groupe 115'' ''ZoneTexte 113'') (slot content ''idea_4'')],
      if_in content [''detail_4''] [call1 (set_text ''TextBox 91-4'') (slot content ''detail_4'')]]"

definition fill_slide_type_75 :: "int \<Rightarrow> string \<Rightarrow> content \<Rightarrow> builder \<Rightarrow> builder outcome" where
  "fill_slide_type_75 index title content = body_of
     [select_slide index,
      call build_shape_cache,
      call1 (set_text ''Titre 1'') (lit title),
      if_in content [''objective_1'']
        [call1 (set_text ''Rectangle 25'') (slot content ''objective_1'')],
      if_in content [''objective_2'']
        [call1 (set_text ''Rectangle 26'') (slot content ''objective_2'')],
      if_in content [''objective_3'']
        [call1 (set_text ''Rectangle 27'') (slot content ''objective_3'')]]"

definition fill_slide_type_76 :: "int \<Rightarrow> string \<Rightarrow> content \<Rightarrow> builder \<Rightarrow> builder outcome" where
  "fill_slide_type_76 index title content = body_of
     [select_slide index,
      call build_shape_cache,
      call1 (set_text ''Titre 1'') (lit title),
      if_in content [''objective_1'']
        [call1 (set_text ''Rectangle 14'') (slot content ''objective_1'')],
      if_in content [''objective_2'']
        [call1 (set_text ''Rectangle 15'') (slot content ''objective_2'')],
      if_in content [''objective_3'']
        [call1 (set_text ''Rectangle 16'') (slot content ''objective_3'')],
      if_in content [''objective_4'']
        [call1 (set_text ''Rectangle 17'') (slot content ''objective_4'')]]"

definition fill_slide_type_77 :: "int \<Rightarrow> string \<Rightarrow> content \<Rightarrow> builder \<Rightarrow> builder outcome" where
  "fill_slide_type_77 index title content = body_of
     [select_slide index,
      call build_shape_cache,
      call1 (set_text ''Titre 1'') (lit title),
      if_in content [''key_1''] [call1 (set_table_cell ''Table 7'' 1 1) (slot content ''key_1'')],
      if_in content [''detail_1'']
        [call1 (set_table_cell ''Table 7'' 1 2) (slot content ''detail_1'')],
      if_in content [''key_2''] [call1 (set_table_cell ''Table 7'' 2 1) (slot content ''key_2'')],
      if_in content [''detail_2'']
        [call1 (set_table_cell ''Table 7'' 2 2) (slot content ''detail_2'')],
      if_in content [''key_3''] [call1 (set_table_cell ''Table 7'' 3 1) (slot content ''key_3'')],
      if_in content [''detail_3'']
        [call1 (set_table_cell ''Table 7'' 3 2) (slot content ''detail_3'')],
      if_in content [''key_4''] [call1 (set_table_cell ''Table 7'' 4 1) (slot content ''key_4'')],
      if_in content [''detail_4'']
        [call1 (set_table_cell ''Table 7'' 4 2) (slot content ''detail_4'')],
      assign msg_update (lit []),
      if_in content [''summary'']
        [aug msg msg_update
           (cat (cat (lit ''Summary:\<newline>'') (slot content ''summary'')) (lit ''\<newline>''))],
      if_in content [''next_steps'']
        [aug msg msg_update
           (cat (cat (lit ''Next Steps:\<newline>'') (slot content ''next_steps'')) (lit ''\<newline>''))],
      call1 (set_table_cell ''Table 7'' 1 3) (local_var msg)]"

definition fill_slide_type_78 :: "int \<Rightarrow> string \<Rightarrow> content \<Rightarrow> builder \<Rightarrow> builder outcome" where
  "fill_slide_type_78 index title content = body_of
     [select_slide index,
      call build_shape_cache,
      call1 (set_text ''Titre 1'') (lit title),
      if_in content [''objective''] [call1 (set_text ''Heptagone 3'') (slot content ''objective'')],
      assign msg_update (lit []),
      if_in content [''criteria_1'']
        [aug msg msg_update (cat (slot content ''criteria_1'') (lit ''\<newline>''))],
      if_in content [''description_1''] [aug msg msg_update (slot content ''description_1'')],
      call1 (set_text (''Espace r'' @ [CHR 0xE9] @ ''serv'' @ [CHR 0xE9] @ '' du contenu 5''))
        (local_var msg),
      assign msg_update (lit []),
      if_in content [''criteria_2'']
        [aug msg msg_update (cat (slot content ''criteria_2'') (lit ''\<newline>''))],
      if_in content [''description_2''] [aug msg msg_update (slot content ''description_2'')],
      call1 (set_text (''Espace r'' @ [CHR 0xE9] @ ''serv'' @ [CHR 0xE9] @ '' du contenu 5-2''))
        (local_var msg),
      assign msg_update (lit []),
      if_in content [''criteria_3'']
        [aug msg msg_update (cat (slot content ''criteria_3'') (lit ''\<newline>''))],
      if_in content [''description_3''] [aug msg msg_update (slot content ''description_3'')],
      call1 (set_text (''Espace r'' @ [CHR 0xE9] @ ''serv'' @ [CHR 0xE9] @ '' du contenu 5-3''))
        (local_var msg),
      assign msg_update (lit []),
      if_in content [''criteria_4'']
        [aug msg msg_update (cat (slot content ''criteria_4'') (lit ''\<newline>''))],
      if_in content [''description_4''] [aug msg msg_update (slot content ''description_4'')],
      call1 (set_text (''Espace r'' @ [CHR 0xE9] @ ''serv'' @ [CHR 0xE9] @ '' du contenu 5-4''))
        (local_var msg),
      assign msg_update (lit []),
      if_in content [''criteria_5'']
        [aug msg msg_update (cat (slot content ''criteria_5'') (lit ''\<newline>''))],
      if_in content [''description_5''] [aug msg msg_update (slot content ''description_5'')],
      call1 (set_text (''Espace r'' @ [CHR 0xE9] @ ''serv'' @ [CHR 0xE9] @ '' du contenu 5-5''))
        (local_var msg),
      assign msg_update (lit []),
      if_in content [''criteria_6'']
        [aug msg msg_update (cat (slot content ''criteria_6'') (lit ''\<newline>''))],
      if_in content [''description_6''] [aug msg msg_update (slot content ''description_6'')],
      call1 (set_text (''Espace r'' @ [CHR 0xE9] @ ''serv'' @ [CHR 0xE9] @ '' du contenu 5-6''))
        (local_var msg),
      assign msg_update (lit []),
      if_in content [''criteria_7'']
        [aug msg msg_update (cat (slot content ''criteria_7'') (lit ''\<newline>''))],
      if_in content [''description_7''] [aug msg msg_update (slot content ''description_7'')],
      call1 (set_text (''Espace r'' @ [CHR 0xE9] @ ''serv'' @ [CHR 0xE9] @ '' du contenu 5-7''))
        (local_var msg)]"

definition fill_slide_type_79 :: "int \<Rightarrow> string \<Rightarrow> content \<Rightarrow> builder \<Rightarrow> builder outcome" where
  "fill_slide_type_79 index title content = body_of
     [select_slide index,
      call build_shape_cache,
      call1 (set_text ''Titre 1'') (lit title),
      if_in content [''objective''] [call1 (set_text ''Ellipse 2'') (slot content ''objective'')],
      assign msg_update (lit []),
      if_in content [''criteria_1'']
        [aug msg msg_update (cat (slot content ''criteria_1'') (lit ''\<newline>''))],
      if_in content [''description_1''] [aug msg msg_update (slot content ''description_1'')],
      call1 (set_text (''Espace r'' @ [CHR 0xE9] @ ''serv'' @ [CHR 0xE9] @ '' du contenu 5''))
        (local_var msg),
      assign msg_update (lit []),
      if_in content [''criteria_2'']
        [aug msg msg_update (cat (slot content ''criteria_2'') (lit ''\<newline>''))],
      if_in content [''description_2''] [aug msg msg_update (slot content ''description_2'')],
      call1 (set_text (''Espace r'' @ [CHR 0xE9] @ ''serv'' @ [CHR 0xE9] @ '' du contenu 5-2''))
        (local_var msg),
      assign msg_update (lit []),
      if_in content [''criteria_3'']
        [aug msg msg_update (cat (slot content ''criteria_3'') (lit ''\<newline>''))],
      if_in content [''description_3''] [aug msg msg_update (slot content ''description_3'')],
      call1 (set_text (''Espace r'' @ [CHR 0xE9] @ ''serv'' @ [CHR 0xE9] @ '' du contenu 5-3''))
        (local_var msg),
      assign msg_update (lit []),
      if_in content [''criteria_4'']
        [aug msg msg_update (cat (slot content ''criteria_4'') (lit ''\<newline>''))],
      if_in content [''description_4''] [aug msg msg_update (slot content ''description_4'')],
      call1 (set_text (''Espace r'' @ [CHR 0xE9] @ ''serv'' @ [CHR 0xE9] @ '' du contenu 5-4''))
        (local_var msg),
      assign msg_update (lit []),
      if_in content [''criteria_5'']
        [aug msg msg_update (cat (slot content ''criteria_5'') (lit ''\<newline>''))],
      if_in content [''description_5''] [aug msg msg_update (slot content ''description_5'')],
      call1 (set_text (''Espace r'' @ [CHR 0xE9] @ ''serv'' @ [CHR 0xE9] @ '' du contenu 5-5''))
        (local_var msg),
      assign msg_update (lit []),
      if_in content [''criteria_6'']
        [aug msg msg_update (cat (slot content ''criteria_6'') (lit ''\<newline>''))],
      if_in content [''description_6''] [aug msg msg_update (slot content ''description_6'')],
      call1 (set_text (''Espace r'' @ [CHR 0xE9] @ ''serv'' @ [CHR 0xE9] @ '' du contenu 5-6''))
        (local_var msg),
      assign msg_update (lit []),
      if_in content [''criteria_7'']
        [aug msg msg_update (cat (slot content ''criteria_7'') (lit ''\<newline>''))],
      if_in content [''description_7''] [aug msg msg_update (slot content ''description_7'')],
      call1 (set_text (''Espace r'' @ [CHR 0xE9] @ ''serv'' @ [CHR 0xE9] @ '' du contenu 5-7''))
        (local_var msg)]"

definition fill_slide_type_80 :: "int \<Rightarrow> string \<Rightarrow> content \<Rightarrow> builder \<Rightarrow> builder outcome" where
  "fill_slide_type_80 index title content = body_of
     [select_slide index,
      call build_shape_cache,
      call1 (set_text ''Titre 1'') (lit title),
      assign msg_update (lit []),
      if_in content [''principle_1'']
        [aug msg msg_update (cat (slot content ''principle_1'') (lit ''\<newline>''))],
      if_in content [''description_1''] [aug msg msg_update (slot content ''description_1'')],
      call1 (set_text ''Rectangle 12'') (local_var msg),
      assign msg_update (lit []),
      if_in content [''principle_2'']
        [aug msg msg_update (cat (slot content ''principle_2'') (lit ''\<newline>''))],
      if_in content [''description_2''] [aug msg msg_update (slot content ''description_2'')],
      call1 (set_text ''Rectangle 13'') (local_var msg),
      assign msg_update (lit []),
      if_in content [''principle_3'']
        [aug msg msg_update (cat (slot content ''principle_3'') (lit ''\<newline>''))],
      if_in content [''description_3''] [aug msg msg_update (slot content ''description_3'')],
      call1 (set_text ''Rectangle 14'') (local_var msg),
      assign msg_update (lit []),
      if_in content [''principle_4'']
        [aug msg msg_update (cat (slot content ''principle_4'') (lit ''\<newline>''))],
      if_in content [''description_4''] [aug msg msg_update (slot content ''description_4'')],
      call1 (set_text ''Rectangle 15'') (local_var msg)]"

definition fill_slide_type_81 :: "int \<Rightarrow> string \<Rightarrow> content \<Rightarrow> builder \<Rightarrow> builder outcome" where
  "fill_slide_type_81 index title content = body_of
     [select_slide index,
      call build_shape_cache,
      call1 (set_text ''Titre 1'') (lit title),
      assign msg_update (lit []),
      if_in content [''step_1'']
        [aug msg msg_update (cat (slot content ''step_1'') (lit ''\<newline>''))],
      if_in content [''description_1''] [aug msg msg_update (slot content ''description_1'')],
      call1 (set_text ''Rectangle 35'') (local_var msg),
      assign msg_update (lit []),
      if_in content [''step_2'']
        [aug msg msg_update (cat (slot content ''step_2'') (lit ''\<newline>''))],
      if_in content [''description_2''] [aug msg msg_update (slot content ''description_2'')],
      call1 (set_text ''Rectangle 36'') (local_var msg),
      assign msg_update (lit []),
      if_in content [''step_3'']
        [aug msg msg_update (cat (slot content ''step_3'') (lit ''\<newline>''))],
      if_in content [''description_3''] [aug msg msg_update (slot content ''description_3'')],
      call1 (set_text ''Rectangle 37'') (local_var msg),
      assign msg_update (lit []),
      if_in content [''step_4'']
        [aug msg msg_update (cat (slot content ''step_4'') (lit ''\<newline>''))],
      if_in content [''description_4''] [aug msg msg_update (slot content ''description_4'')],
      call1 (set_text ''Rectangle 38'') (local_var msg),
      assign msg_update (lit []),
      if_in content [''step_4'']
        [aug msg msg_update (cat (slot content ''step_4'') (lit ''\<newline>''))],
      if_in content [''description_4''] [aug msg msg_update (slot content ''description_4'')],
      call1 (set_text ''Rectangle 39'') (local_var msg)]"

definition fill_slide_type_83 :: "int \<Rightarrow> string \<Rightarrow> content \<Rightarrow> builder \<Rightarrow> builder outcome" where
  "fill_slide_type_83 index title content = body_of
     [select_slide index,
      call build_shape_cache,
      call1 (set_text ''Title 1'') (lit title),
      if_in content [''scenario_1'']
        [call1 (set_text ''Rectangle 7'') (slot content ''scenario_1'')],
      if_in content [''detail_1''] [call1 (set_text ''TextBox 13'') (slot content ''detail_1'')],
      if_in content [''scenario_2'']
        [call1 (set_text ''Rectangle 8'') (slot content ''scenario_2'')],
      if_in content [''detail_2''] [call1 (set_text ''TextBox 13-2'') (slot content ''detail_2'')]]"

definition fill_slide_type_84 :: "int \<Rightarrow> string \<Rightarrow> content \<Rightarrow> builder \<Rightarrow> builder outcome" where
  "fill_slide_type_84 index title content = body_of
     [select_slide index,
      call build_shape_cache,
      call1 (set_text ''Title 1'') (lit title),
      assign msg_update (lit []),
      if_in content [''scenario_1'']
        [aug msg msg_update (cat (slot content ''scenario_1'') (lit ''\<newline>''))],
      if_in content [''detail_1''] [aug msg msg_update (slot content ''detail_1'')],
      call1 (set_text ''Rectangle 3'') (local_var msg),
      assign msg_update (lit []),
      if_in content [''scenario_2'']
        [aug msg msg_update (cat (slot content ''scenario_2'') (lit ''\<newline>''))],
      if_in content [''detail_2''] [aug msg msg_update (slot content ''detail_2'')],
      call1 (set_text ''Rectangle 4'') (local_var msg)]"

definition fill_slide_type_85 :: "int \<Rightarrow> string \<Rightarrow> content \<Rightarrow> builder \<Rightarrow> builder outcome" where
  "fill_slide_type_85 index title content = body_of
     [select_slide index,
      call build_shape_cache,
      call1 (set_text ''Title 1'') (lit title),
      if_in content [''scenario_1'']
        [call1 (set_text ''Rectangle 7'') (slot content ''scenario_1'')],
      if_in content [''detail_1''] [call1 (set_text ''TextBox 13'') (slot content ''detail_1'')],
      if_in content [''scenario_2'']
        [call1 (set_text ''Rectangle 8'') (slot content ''scenario_2'')],
      if_in content [''detail_2''] [call1 (set_text ''TextBox 13-2'') (slot content ''detail_2'')],
      if_in content [''scenario_3'']
        [call1 (set_text ''Rectangle 9'') (slot content ''scenario_3'')],
      if_in content [''detail_3''] [call1 (set_text ''TextBox 13-3'') (slot content ''detail_3'')]]"

definition fill_slide_type_86 :: "int \<Rightarrow> string \<Rightarrow> content \<Rightarrow> builder \<Rightarrow> builder outcome" where
  "fill_slide_type_86 index title content = body_of
     [select_slide index,
      call build_shape_cache,
      call1 (set_text ''Title 1'') (lit title),
      assign msg_update (lit []),
      if_in content [''scenario_1'']
        [aug msg msg_update (cat (slot content ''scenario_1'') (lit ''\<newline>''))],
      if_in content [''detail_1''] [aug msg msg_update (slot content ''detail_1'')],
      call1 (set_text ''Rectangle 3'') (local_var msg),
      assign msg_update (lit []),
      if_in content [''scenario_2'']
        [aug msg msg_update (cat (slot content ''scenario_2'') (lit ''\<newline>''))],
      if_in content [''detail_2''] [aug msg msg_update (slot content ''detail_2'')],
      call1 (set_text ''Rectangle 4'') (local_var msg),
      assign msg_update (lit []),
      if_in content [''scenario_3'']
        [aug msg msg_update (cat (slot content ''scenario_3'') (lit ''\<newline>''))],
      if_in content [''detail_3''] [aug msg msg_update (slot content ''detail_3'')],
      call1 (set_text ''Rectangle 5'') (local_var msg)]"

definition fill_slide_type_87 :: "int \<Rightarrow> string \<Rightarrow> content \<Rightarrow> builder \<Rightarrow> builder outcome" where
  "fill_slide_type_87 index title content = body_of
     [select_slide index,
      call build_shape_cache,
      call1 (set_text ''Title 1'') (lit title),
      if_in content [''scenario_1'']
        [call1 (set_text ''Rectangle 7'') (slot content ''scenario_1'')],
      if_in content [''detail_1''] [call1 (set_text ''TextBox 13'') (slot content ''detail_1'')],
      if_in content [''scenario_2'']
        [call1 (set_text ''Rectangle 8'') (slot content ''scenario_2'')],
      if_in content [''detail_2''] [call1 (set_text ''TextBox 13-2'') (slot content ''detail_2'')],
      if_in content [''scenario_3'']
        [call1 (set_text ''Rectangle 9'') (slot content ''scenario_3'')],
      if_in content [''detail_3''] [call1 (set_text ''TextBox 13-3'') (slot content ''detail_3'')],
      if_in content [''scenario_4'']
        [call1 (set_text ''Rectangle 17'') (slot content ''scenario_4'')],
      if_in content [''detail_4''] [call1 (set_text ''TextBox 13-4'') (slot content ''detail_4'')]]"

definition fill_slide_type_88 :: "int \<Rightarrow> string \<Rightarrow> content \<Rightarrow> builder \<Rightarrow> builder outcome" where
  "fill_slide_type_88 index title content = body_of
     [select_slide index,
      call build_shape_cache,
      call1 (set_text ''Title 1'') (lit title),
      assign msg_update (lit []),
      if_in content [''scenario_1'']
        [aug msg msg_update (cat (slot content ''scenario_1'') (lit ''\<newline>''))],
      if_in content [''detail_1''] [aug msg msg_update (slot content ''detail_1'')],
      call1 (set_text ''Rectangle 3'') (local_var msg),
      assign msg_update (lit []),
      if_in content [''scenario_2'']
        [aug msg msg_update (cat (slot content ''scenario_2'') (lit ''\<newline>''))],
      if_in content [''detail_2''] [aug msg msg_update (slot content ''detail_2'')],
      call1 (set_text ''Rectangle 4'') (local_var msg),
      assign msg_update (lit []),
      if_in content [''scenario_3'']
        [aug msg msg_update (cat (slot content ''scenario_3'') (lit ''\<newline>''))],
      if_in content [''detail_3''] [aug msg msg_update (slot content ''detail_3'')],
      call1 (set_text ''Rectangle 5'') (local_var msg),
      assign msg_update (lit []),
      if_in content [''scenario_4'']
        [aug msg msg_update (cat (slot content ''scenario_4'') (lit ''\<newline>''))],
      if_in content [''detail_4''] [aug msg msg_update (slot content ''detail_4'')],
      call1 (set_text ''Rectangle 16'') (local_var msg)]"

definition fill_slide_type_89 :: "int \<Rightarrow> string \<Rightarrow> content \<Rightarrow> builder \<Rightarrow> builder outcome" where
  "fill_slide_type_89 index title content = body_of
     [select_slide index,
      call build_shape_cache,
      call1 (set_text ''Title 8'') (lit title),
      assign msg_update (lit []),
      if_in content [''scenario_1'']
        [aug msg msg_update (cat (slot content ''scenario_1'') (lit ''\<newline>''))],
      if_in content [''detail_1''] [aug msg msg_update (slot content ''detail_1'')],
      call1 (set_text ''Rectangle 3'') (local_var msg),
      assign msg_update (lit []),
      if_in content [''scenario_2'']
        [aug msg msg_update (cat (slot content ''scenario_2'') (lit ''\<newline>''))],
      if_in content [''detail_2''] [aug msg msg_update (slot content ''detail_2'')],
      call1 (set_text ''Rectangle 4'') (local_var msg),
      assign msg_update (lit []),
      if_in content [''scenario_3'']
        [aug msg msg_update (cat (slot content ''scenario_3'') (lit ''\<newline>''))],
      if_in content [''detail_3''] [aug msg msg_update (slot content ''detail_3'')],
      call1 (set_text ''Rectangle 5'') (local_var msg),
      assign msg_update (lit []),
      if_in content [''scenario_4'']
        [aug msg msg_update (cat (slot content ''scenario_4'') (lit ''\<newline>''))],
      if_in content [''detail_4''] [aug msg msg_update (slot content ''detail_4'')],
      call1 (set_text ''Rectangle 6'') (local_var msg),
      assign msg_update (lit []),
      if_in content [''scenario_5'']
        [aug msg msg_update (cat (slot content ''scenario_5'') (lit ''\<newline>''))],
      if_in content [''detail_5''] [aug msg msg_update (slot content ''detail_5'')],
      call1 (set_text ''Rectangle 34'') (local_var msg)]"

definition fill_slide_type_90 :: "int \<Rightarrow> string \<Rightarrow> content \<Rightarrow> builder \<Rightarrow> builder outcome" where
  "fill_slide_type_90 index title content = body_of
     [select_slide index,
      call build_shape_cache,
      call1 (set_text ''Title 8'') (lit title),
      assign msg_update (lit []),
      if_in content [''scenario_1'']
        [aug msg msg_update (cat (slot content ''scenario_1'') (lit ''\<newline>''))],
      if_in content [''detail_1''] [aug msg msg_update (slot content ''detail_1'')],
      call1 (set_text ''Rectangle 3'') (local_var msg),
      assign msg_update (lit []),
      if_in content [''scenario_2'']
        [aug msg msg_update (cat (slot content ''scenario_2'') (lit ''\<newline>''))],
      if_in content [''detail_2''] [aug msg msg_update (slot content ''detail_2'')],
      call1 (set_text ''Rectangle 4'') (local_var msg),
      assign msg_update (lit []),
      if_in content [''scenario_3'']
        [aug msg msg_update (cat (slot content ''scenario_3'') (lit ''\<newline>''))],
      if_in content [''detail_3''] [aug msg msg_update (slot content ''detail_3'')],
      call1 (set_text ''Rectangle 5'') (local_var msg),
      assign msg_update (lit []),
      if_in content [''scenario_4'']
        [aug msg msg_update (cat (slot content ''scenario_4'') (lit ''\<newline>''))],
      if_in content [''detail_4''] [aug msg msg_update (slot content ''detail_4'')],
      call1 (set_text ''Rectangle 6'') (local_var msg),
      assign msg_update (lit []),
      if_in content [''scenario_5'']
        [aug msg msg_update (cat (slot content ''scenario_5'') (lit ''\<newline>''))],
      if_in content [''detail_5''] [aug msg msg_update (slot content ''detail_5'')],
      call1 (set_text ''Rectangle 34'') (local_var msg)]"

definition fill_slide_type_91 :: "int \<Rightarrow> string \<Rightarrow> content \<Rightarrow> builder \<Rightarrow> builder outcome" where
  "fill_slide_type_91 index title content = body_of
     [select_slide index,
      call build_shape_cache,
      call1 (set_text ''Title 6'') (lit title),
      assign msg_update (lit []),
      if_in content [''scenario_1'']
        [aug msg msg_update (cat (slot content ''scenario_1'') (lit ''\<newline>''))],
      if_in content [''detail_1''] [aug msg msg_update (slot content ''detail_1'')],
      call1 (set_text ''Rectangle 3'') (local_var msg),
      assign msg_update (lit []),
      if_in content [''scenario_2'']
        [aug msg msg_update (cat (slot content ''scenario_2'') (lit ''\<newline>''))],
      if_in content [''detail_2''] [aug msg msg_update (slot content ''detail_2'')],
      call1 (set_text ''Rectangle 4'') (local_var msg),
      assign msg_update (lit []),
      if_in content [''scenario_3'']
        [aug msg msg_update (cat (slot content ''scenario_3'') (lit ''\<newline>''))],
      if_in content [''detail_3''] [aug msg msg_update (slot content ''detail_3'')],
      call1 (set_text ''Rectangle 5'') (local_var msg),
      assign msg_update (lit []),
      if_in content [''scenario_4'']
        [aug msg msg_update (cat (slot content ''scenario_4'') (lit ''\<newline>''))],
      if_in content [''detail_4''] [aug msg msg_update (slot content ''detail_4'')],
      call1 (set_text ''Rectangle 7'') (local_var msg),
      assign msg_update (lit []),
      if_in content [''scenario_5'']
        [aug msg msg_update (cat (slot content ''scenario_5'') (lit ''\<newline>''))],
      if_in content [''detail_5''] [aug msg msg_update (slot content ''detail_5'')],
      call1 (set_text ''Rectangle 8'') (local_var msg),
      assign msg_update (lit []),
      if_in content [''scenario_6'']
        [aug msg msg_update (cat (slot content ''scenario_6'') (lit ''\<newline>''))],
      if_in content [''detail_6''] [aug msg msg_update (slot content ''detail_6'')],
      call1 (set_text ''Rectangle 9'') (local_var msg)]"

definition fill_slide_type_92 :: "int \<Rightarrow> string \<Rightarrow> content \<Rightarrow> builder \<Rightarrow> builder outcome" where
  "fill_slide_type_92 index title content = body_of
     [select_slide index,
      call build_shape_cache,
      call1 (set_text ''Title 3'') (lit title),
      if_in content [''scenario_1'']
        [call1 (set_text ''ZoneTexte 11'') (slot content ''scenario_1'')],
      if_in content [''detail_1''] [call1 (set_text ''TextBox 7'') (slot content ''detail_1'')],
      if_in content [''scenario_2'']
        [call1 (set_text ''Rectangle 11-2'') (slot content ''scenario_2'')],
      if_in content [''detail_2''] [call1 (set_text ''TextBox 8'') (slot content ''detail_2'')],
      if_in content [''scenario_3'']
        [call1 (set_text ''Rectangle 11-3'') (slot content ''scenario_3'')],
      if_in content [''detail_3''] [call1 (set_text ''TextBox 9'') (slot content ''detail_3'')]]"

definition fill_slide_type_93 :: "int \<Rightarrow> string \<Rightarrow> content \<Rightarrow> builder \<Rightarrow> builder outcome" where
  "fill_slide_type_93 index title content = body_of
     [select_slide index,
      call build_shape_cache,
      call1 (set_text ''Title 3'') (lit title),
      if_in content [''scenario_1'']
        [call1 (set_text ''ZoneTexte 11'') (slot content ''scenario_1'')],
      if_in content [''detail_1''] [call1 (set_text ''TextBox 7'') (slot content ''detail_1'')],
      if_in content [''scenario_2'']
        [call1 (set_text ''Rectangle 11-2'') (slot content ''scenario_2'')],
      if_in content [''detail_2''] [call1 (set_text ''TextBox 8'') (slot content ''detail_2'')],
      if_in content [''scenario_3'']
        [call1 (set_text ''Rectangle 11-3'') (slot content ''scenario_3'')],
      if_in content [''detail_3''] [call1 (set_text ''TextBox 9'') (slot content ''detail_3'')],
      if_in content [''scenario_4'']
        [call1 (set_text ''Rectangle 11-4'') (slot content ''scenario_4'')],
      if_in content [''detail_4''] [call1 (set_text ''TextBox 13'') (slot content ''detail_4'')]]"

definition fill_slide_type_95 :: "int \<Rightarrow> string \<Rightarrow> content \<Rightarrow> builder \<Rightarrow> builder outcome" where
  "fill_slide_type_95 index title content = body_of
     [select_slide index,
      call build_shape_cache,
      call1 (set_text ''Title 3'') (lit title),
      if_in content [''scenario_1'']
        [call1 (set_table_cell ''Table 2'' 1 1) (slot content ''scenario_1'')],
      if_in content [''scenario_2'']
        [call1 (set_table_cell ''Table 2'' 1 2) (slot content ''scenario_2'')],
      if_in content [''characteristic_1'']
        [call1 (set_table_cell ''Table 2'' 2 1) (slot content ''characteristic_1'')],
      if_in content [''detail_1'']
        [call1 (set_table_cell ''Table 2'' 3 1) (slot content ''detail_1'')],
      if_in content [''detail_2'']
        [call1 (set_table_cell ''Table 2'' 3 2) (slot content ''detail_2'')],
      if_in content [''characteristic_2'']
        [call1 (set_table_cell ''Table 2'' 4 1) (slot content ''characteristic_2'')],
      if_in content [''detail_3'']
        [call1 (set_table_cell ''Table 2'' 5 1) (slot content ''detail_3'')],
      if_in content [''detail_4'']
        [call1 (set_table_cell ''Table 2'' 5 2) (slot content ''detail_4'')],
      if_in content [''characteristic_3'']
        [call1 (set_table_cell ''Table 2'' 6 1) (slot content ''characteristic_3'')],
      if_in content [''detail_5'']
        [call1 (set_table_cell ''Table 2'' 7 1) (slot content ''detail_5'')],
      if_in content [''detail_6'']
        [call1 (set_table_cell ''Table 2'' 7 2) (slot content ''detail_6'')],
      if_in content [''comments'']
        [call1 (set_text ''Content Placeholder 4'') (slot content ''comments'')]]"

definition fill_slide_type_96 :: "int \<Rightarrow> string \<Rightarrow> content \<Rightarrow> builder \<Rightarrow> builder outcome" where
  "fill_slide_type_96 index title content = body_of
     [select_slide index,
      call build_shape_cache,
      call1 (set_text ''Title 3'') (lit title),
      if_in content [''scenario_1'']
        [call1 (set_table_cell ''Table 2'' 1 1) (slot content ''scenario_1'')],
      if_in content [''scenario_2'']
        [call1 (set_table_cell ''Table 2'' 1 2) (slot content ''scenario_2'')],
      if_in content [''scenario_3'']
        [call1 (set_table_cell ''Table 2'' 1 3) (slot content ''scenario_3'')],
      if_in content [''characteristic_1'']
        [call1 (set_table_cell ''Table 2'' 2 1) (slot content ''characteristic_1'')],
      if_in content [''detail_1'']
        [call1 (set_table_cell ''Table 2'' 3 1) (slot content ''detail_1'')],
      if_in content [''detail_2'']
        [call1 (set_table_cell ''Table 2'' 3 2) (slot content ''detail_2'')],
      if_in content [''detail_3'']
        [call1 (set_table_cell ''Table 2'' 3 3) (slot content ''detail_3'')],
      if_in content [''characteristic_2'']
        [call1 (set_table_cell ''Table 2'' 4 1) (slot content ''characteristic_2'')],
      if_in content [''detail_4'']
        [call1 (set_table_cell ''Table 2'' 5 1) (slot content ''detail_4'')],
      if_in content [''detail_5'']
        [call1 (set_table_cell ''Table 2'' 5 2) (slot content ''detail_5'')],
      if_in content [''detail_6'']
        [call1 (set_table_cell ''Table 2'' 5 3) (slot content ''detail_6'')],
      if_in content [''characteristic_3'']
        [call1 (set_table_cell ''Table 2'' 6 1) (slot content ''characteristic_3'')],
      if_in content [''detail_7'']
        [call1 (set_table_cell ''Table 2'' 7 1) (slot content ''detail_7'')],
      if_in content [''detail_8'']
        [call1 (set_table_cell ''Table 2'' 7 2) (slot content ''detail_8'')],
      if_in content [''detail_9'']
        [call1 (set_table_cell ''Table 2'' 7 3) (slot content ''detail_9'')],
      if_in content [''comments'']
        [call1 (set_text ''Content Placeholder 4'') (slot content ''comments'')]]"

definition fill_slide_type_100 :: "int \<Rightarrow> string \<Rightarrow> content \<Rightarrow> builder \<Rightarrow> builder outcome" where
  "fill_slide_type_100 index title content = body_of
     [select_slide index,
      call build_shape_cache,
      call1 (set_text ''Title 2'') (lit title),
      if_in content [''comments'']
        [call1 (set_text ''Content Placeholder 13'') (slot content ''comments'')],
      if_in content [''in_scope'']
        [call1 (set_table_cell ''Table 1'' 2 1) (slot content ''in_scope'')],
      if_in content [''in_scope'']
        [call1 (set_table_cell ''Table 1'' 2 2) (slot content ''in_scope'')]]"

definition fill_slide_type_101 :: "int \<Rightarrow> string \<Rightarrow> content \<Rightarrow> builder \<Rightarrow> builder outcome" where
  "fill_slide_type_101 index title content = body_of
     [select_slide index,
      call build_shape_cache,
      call1 (set_text ''Titre 1'') (lit title),
      if_in content [''theme_1'']
        [call1 (set_table_cell ''Table 5'' 2 1) (slot content ''theme_1'')],
      if_in content [''theme_2'']
        [call1 (set_table_cell ''Table 5'' 3 1) (slot content ''theme_2'')],
      if_in content [''criteria_1'']
        [call1 (set_table_cell ''Table 5'' 1 2) (slot content ''criteria_1'')],
      if_in content [''criteria_2'']
        [call1 (set_table_cell ''Table 5'' 1 3) (slot content ''criteria_2'')],
      if_in content [''detail_1'']
        [call1 (set_table_cell ''Table 5'' 2 2) (slot content ''detail_1'')],
      if_in content [''detail_2'']
        [call1 (set_table_cell ''Table 5'' 2 3) (slot content ''detail_2'')],
      if_in content [''detail_3'']
        [call1 (set_table_cell ''Table 5'' 3 2) (slot content ''detail_3'')],
      if_in content [''detail_4'']
        [call1 (set_table_cell ''Table 5'' 3 3) (slot content ''detail_4'')]]"

definition fill_slide_type_102 :: "int \<Rightarrow> string \<Rightarrow> content \<Rightarrow> builder \<Rightarrow> builder outcome" where
  "fill_slide_type_102 index title content = body_of
     [select_slide index,
      call build_shape_cache,
      call1 (set_text ''Titre 1'') (lit title),
      if_in content [''theme_1'']
        [call1 (set_table_cell ''Table 5'' 2 1) (slot content ''theme_1'')],
      if_in content [''theme_2'']
        [call1 (set_table_cell ''Table 5'' 3 1) (slot content ''theme_2'')],
      if_in content [''theme_3'']
        [call1 (set_table_cell ''Table 5'' 4 1) (slot content ''theme_3'')],
      if_in content [''criteria_1'']
        [call1 (set_table_cell ''Table 5'' 1 2) (slot content ''criteria_1'')],
      if_in content [''criteria_2'']
        [call1 (set_table_cell ''Table 5'' 1 3) (slot content ''criteria_2'')],
      if_in content [''detail_1'']
        [call1 (set_table_cell ''Table 5'' 2 2) (slot content ''detail_1'')],
      if_in content [''detail_2'']
        [call1 (set_table_cell ''Table 5'' 2 3) (slot content ''detail_2'')],
      if_in content [''detail_3'']
        [call1 (set_table_cell ''Table 5'' 3 2) (slot content ''detail_3'')],
      if_in content [''detail_4'']
        [call1 (set_table_cell ''Table 5'' 3 3) (slot content ''detail_4'')],
      if_in content [''detail_5'']
        [call1 (set_table_cell ''Table 5'' 4 2) (slot content ''detail_5'')],
      if_in content [''detail_6'']
        [call1 (set_table_cell ''Table 5'' 4 3) (slot content ''detail_6'')]]"

definition fill_slide_type_103 :: "int \<Rightarrow> string \<Rightarrow> content \<Rightarrow> builder \<Rightarrow> builder outcome" where
  "fill_slide_type_103 index title content = body_of
     [select_slide index,
      call build_shape_cache,
      call1 (set_text ''Titre 1'') (lit title),
      if_in content [''theme_1'']
        [call1 (set_table_cell ''Table 5'' 2 1) (slot content ''theme_1'')],
      if_in content [''theme_2'']
        [call1 (set_table_cell ''Table 5'' 3 1) (slot content ''theme_2'')],
      if_in content [''theme_3'']
        [call1 (set_table_cell ''Table 5'' 4 1) (slot content ''theme_3'')],
      if_in content [''theme_4'']
        [call1 (set_table_cell ''Table 5'' 5 1) (slot content ''theme_4'')],
      if_in content [''criteria_1'']
        [call1 (set_table_cell ''Table 5'' 1 2) (slot content ''criteria_1'')],
      if_in content [''criteria_2'']
        [call1 (set_table_cell ''Table 5'' 1 3) (slot content ''criteria_2'')],
      if_in content [''detail_1'']
        [call1 (set_table_cell ''Table 5'' 2 2) (slot content ''detail_1'')],
      if_in content [''detail_2'']
        [call1 (set_table_cell ''Table 5'' 2 3) (slot content ''detail_2'')],
      if_in content [''detail_3'']
        [call1 (set_table_cell ''Table 5'' 3 2) (slot content ''detail_3'')],
      if_in content [''detail_4'']
        [call1 (set_table_cell ''Table 5'' 3 3) (slot content ''detail_4'')],
      if_in content [''detail_5'']
        [call1 (set_table_cell ''Table 5'' 4 2) (slot content ''detail_5'')],
      if_in content [''detail_6'']
        [call1 (set_table_cell ''Table 5'' 4 3) (slot content ''detail_6'')],
      if_in content [''detail_7'']
        [call1 (set_table_cell ''Table 5'' 5 2) (slot content ''detail_7'')],
      if_in content [''detail_8'']
        [call1 (set_table_cell ''Table 5'' 5 3) (slot content ''detail_8'')]]"

definition fill_slide_type_104 :: "int \<Rightarrow> string \<Rightarrow> content \<Rightarrow> builder \<Rightarrow> builder outcome" where
  "fill_slide_type_104 index title content = body_of
     [select_slide index,
      call build_shape_cache,
      call1 (set_text ''Titre 1'') (lit title),
      if_in content [''theme_1'']
        [call1 (set_table_cell ''Table 5'' 2 1) (slot content ''theme_1'')],
      if_in content [''theme_2'']
        [call1 (set_table_cell ''Table 5'' 3 1) (slot content ''theme_2'')],
      if_in content [''criteria_1'']
        [call1 (set_table_cell ''Table 5'' 1 2) (slot content ''criteria_1'')],
      if_in content [''criteria_2'']
        [call1 (set_table_cell ''Table 5'' 1 3) (slot content ''criteria_2'')],
      if_in content [''criteria_3'']
        [call1 (set_table_cell ''Table 5'' 1 4) (slot content ''criteria_3'')],
      if_in content [''detail_1'']
        [call1 (set_table_cell ''Table 5'' 2 2) (slot content ''detail_1'')],
      if_in content [''detail_2'']
        [call1 (set_table_cell ''Table 5'' 2 3) (slot content ''detail_2'')],
      if_in content [''detail_3'']
        [call1 (set_table_cell ''Table 5'' 2 4) (slot content ''detail_3'')],
      if_in content [''detail_4'']
        [call1 (set_table_cell ''Table 5'' 3 2) (slot content ''detail_4'')],
      if_in content [''detail_5'']
        [call1 (set_table_cell ''Table 5'' 3 3) (slot content ''detail_5'')],
      if_in content [''detail_6'']
        [call1 (set_table_cell ''Table 5'' 3 4) (slot content ''detail_6'')]]"

definition fill_slide_type_105 :: "int \<Rightarrow> string \<Rightarrow> content \<Rightarrow> builder \<Rightarrow> builder outcome" where
  "fill_slide_type_105 index title content = body_of
     [select_slide index,
      call build_shape_cache,
      call1 (set_text ''Titre 1'') (lit title),
      if_in content [''theme_1'']
        [call1 (set_table_cell ''Table 5'' 2 1) (slot content ''theme_1'')],
      if_in content [''theme_2'']
        [call1 (set_table_cell ''Table 5'' 3 1) (slot content ''theme_2'')],
      if_in content [''theme_3'']
        [call1 (set_table_cell ''Table 5'' 4 1) (slot content ''theme_3'')],
      if_in content [''criteria_1'']
        [call1 (set_table_cell ''Table 5'' 1 2) (slot content ''criteria_1'')],
      if_in content [''criteria_2'']
        [call1 (set_table_cell ''Table 5'' 1 3) (slot content ''criteria_2'')],
      if_in content [''criteria_3'']
        [call1 (set_table_cell ''Table 5'' 1 4) (slot content ''criteria_3'')],
      if_in content [''detail_1'']
        [call1 (set_table_cell ''Table 5'' 2 2) (slot content ''detail_1'')],
      if_in content [''detail_2'']
        [call1 (set_table_cell ''Table 5'' 2 3) (slot content ''detail_2'')],
      if_in content [''detail_3'']
        [call1 (set_table_cell ''Table 5'' 2 4) (slot content ''detail_3'')],
      if_in content [''detail_4'']
        [call1 (set_table_cell ''Table 5'' 3 2) (slot content ''detail_4'')],
      if_in content [''detail_5'']
        [call1 (set_table_cell ''Table 5'' 3 3) (slot content ''detail_5'')],
      if_in content [''detail_6'']
        [call1 (set_table_cell ''Table 5'' 3 4) (slot content ''detail_6'')],
      if_in content [''detail_7'']
        [call1 (set_table_cell ''Table 5'' 4 2) (slot content ''detail_7'')],
      if_in content [''detail_8'']
        [call1 (set_table_cell ''Table 5'' 4 3) (slot content ''detail_8'')],
      if_in content [''detail_9'']
        [call1 (set_table_cell ''Table 5'' 4 4) (slot content ''detail_9'')]]"

definition fill_slide_type_106 :: "int \<Rightarrow> string \<Rightarrow> content \<Rightarrow> builder \<Rightarrow> builder outcome" where
  "fill_slide_type_106 index title content = body_of
     [select_slide index,
      call build_shape_cache,
      call1 (set_text ''Titre 1'') (lit title),
      if_in content [''theme_1'']
        [call1 (set_table_cell ''Table 5'' 2 1) (slot content ''theme_1'')],
      if_in content [''theme_2'']
        [call1 (set_table_cell ''Table 5'' 3 1) (slot content ''theme_2'')],
      if_in content [''theme_3'']
        [call1 (set_table_cell ''Table 5'' 4 1) (slot content ''theme_3'')],
      if_in content [''theme_4'']
        [call1 (set_table_cell ''Table 5'' 5 1) (slot content ''theme_4'')],
      if_in content [''criteria_1'']
        [call1 (set_table_cell ''Table 5'' 1 2) (slot content ''criteria_1'')],
      if_in content [''criteria_2'']
        [call1 (set_table_cell ''Table 5'' 1 3) (slot content ''criteria_2'')],
      if_in content [''criteria_3'']
        [call1 (set_table_cell ''Table 5'' 1 4) (slot content ''criteria_3'')],
      if_in content [''detail_1'']
        [call1 (set_table_cell ''Table 5'' 2 2) (slot content ''detail_1'')],
      if_in content [''detail_2'']
        [call1 (set_table_cell ''Table 5'' 2 3) (slot content ''detail_2'')],
      if_in content [''detail_3'']
        [call1 (set_table_cell ''Table 5'' 2 4) (slot content ''detail_3'')],
      if_in content [''detail_4'']
        [call1 (set_table_cell ''Table 5'' 3 2) (slot content ''detail_4'')],
      if_in content [''detail_5'']
        [call1 (set_table_cell ''Table 5'' 3 3) (slot content ''detail_5'')],
      if_in content [''detail_6'']
        [call1 (set_table_cell ''Table 5'' 3 4) (slot content ''detail_6'')],
      if_in content [''detail_7'']
        [call1 (set_table_cell ''Table 5'' 4 2) (slot content ''detail_7'')],
      if_in content [''detail_8'']
        [call1 (set_table_cell ''Table 5'' 4 3) (slot content ''detail_8'')],
      if_in content [''detail_9'']
        [call1 (set_table_cell ''Table 5'' 4 4) (slot content ''detail_9'')],
      if_in content [''detail_10'']
        [call1 (set_table_cell ''Table 5'' 5 2) (slot content ''detail_10'')],
      if_in content [''detail_11'']
        [call1 (set_table_cell ''Table 5'' 5 3) (slot content ''detail_11'')],
      if_in content [''detail_12'']
        [call1 (set_table_cell ''Table 5'' 5 4) (slot content ''detail_12'')]]"

definition fill_slide_type_107 :: "int \<Rightarrow> string \<Rightarrow> content \<Rightarrow> builder \<Rightarrow> builder outcome" where
  "fill_slide_type_107 index title content = body_of
     [select_slide index,
      call build_shape_cache,
      call1 (set_text ''Titre 1'') (lit title),
      assign msg_update (lit []),
      if_in content [''idea_1'']
        [aug msg msg_update (cat (cat (lit ''1. '') (slot content ''idea_1'')) (lit ''\<newline>''))],
      if_in content [''description_1''] [aug msg msg_update (slot content ''description_1'')],
      call1 (set_table_cell ''Tableau 18'' 2 1) (local_var msg),
      assign msg_update (lit []),
      if_in content [''idea_2'']
        [aug msg msg_update (cat (cat (lit ''2. '') (slot content ''idea_2'')) (lit ''\<newline>''))],
      if_in content [''description_2''] [aug msg msg_update (slot content ''description_2'')],
      call1 (set_table_cell ''Tableau 18'' 3 1) (local_var msg),
      if_in content [''pro_1''] [call1 (set_table_cell ''Tableau 18'' 2 2) (slot content ''pro_1'')],
      if_in content [''con_1''] [call1 (set_table_cell ''Tableau 18'' 2 3) (slot content ''con_1'')],
      if_in content [''pro_2''] [call1 (set_table_cell ''Tableau 18'' 3 2) (slot content ''pro_2'')],
      if_in content [''con_2''] [call1 (set_table_cell ''Tableau 18'' 3 3) (slot content ''con_2'')]]"

definition fill_slide_type_108 :: "int \<Rightarrow> string \<Rightarrow> content \<Rightarrow> builder \<Rightarrow> builder outcome" where
  "fill_slide_type_108 index title content = body_of
     [select_slide index,
      call build_shape_cache,
      call1 (set_text ''Titre 1'') (lit title),
      assign msg_update (lit []),
      if_in content [''idea_1'']
        [aug msg msg_update (cat (cat (lit ''1. '') (slot content ''idea_1'')) (lit ''\<newline>''))],
      if_in content [''description_1''] [aug msg msg_update (slot content ''description_1'')],
      call1 (set_table_cell ''Tableau 18'' 2 1) (local_var msg),
      assign msg_update (lit []),
      if_in content [''idea_2'']
        [aug msg msg_update (cat (cat (lit ''2. '') (slot content ''idea_2'')) (lit ''\<newline>''))],
      if_in content [''description_2''] [aug msg msg_update (slot content ''description_2'')],
      call1 (set_table_cell ''Tableau 18'' 3 1) (local_var msg),
      assign msg_update (lit []),
      if_in content [''idea_3'']
        [aug msg msg_update (cat (cat (lit ''3. '') (slot content ''idea_3'')) (lit ''\<newline>''))],
      if_in content [''description_3''] [aug msg msg_update (slot content ''description_3'')],
      call1 (set_table_cell ''Tableau 18'' 4 1) (local_var msg),
      if_in content [''pro_1''] [call1 (set_table_cell ''Tableau 18'' 2 2) (slot content ''pro_1'')],
      if_in content [''con_1''] [call1 (set_table_cell ''Tableau 18'' 2 3) (slot content ''con_1'')],
      if_in content [''pro_2''] [call1 (set_table_cell ''Tableau 18'' 3 2) (slot content ''pro_2'')],
      if_in content [''con_2''] [call1 (set_table_cell ''Tableau 18'' 3 3) (slot content ''con_2'')],
      if_in content [''pro_3''] [call1 (set_table_cell ''Tableau 18'' 4 2) (slot content ''pro_3'')],
      if_in content [''con_3''] [call1 (set_table_cell ''Tableau 18'' 4 3) (slot content ''con_3'')]]"

definition fill_slide_type_109 :: "int \<Rightarrow> string \<Rightarrow> content \<Rightarrow> builder \<Rightarrow> builder outcome" where
  "fill_slide_type_109 index title content = body_of
     [select_slide index,
      call build_shape_cache,
      call1 (set_text ''Titre 1'') (lit title),
      assign msg_update (lit []),
      if_in content [''idea_1'']
        [aug msg msg_update (cat (cat (lit ''1. '') (slot content ''idea_1'')) (lit ''\<newline>''))],
      if_in content [''description_1''] [aug msg msg_update (slot content ''description_1'')],
      call1 (set_table_cell ''Tableau 18'' 2 1) (local_var msg),
      assign msg_update (lit []),
      if_in content [''idea_2'']
        [aug msg msg_update (cat (cat (lit ''2. '') (slot content ''idea_2'')) (lit ''\<newline>''))],
      if_in content [''description_2''] [aug msg msg_update (slot content ''description_2'')],
      call1 (set_table_cell ''Tableau 18'' 3 1) (local_var msg),
      assign msg_update (lit []),
      if_in content [''idea_3'']
        [aug msg msg_update (cat (cat (lit ''3. '') (slot content ''idea_3'')) (lit ''\<newline>''))],
      if_in content [''description_3''] [aug msg msg_update (slot content ''description_3'')],
      call1 (set_table_cell ''Tableau 18'' 4 1) (local_var msg),
      assign msg_update (lit []),
      if_in content [''idea_4'']
        [aug msg msg_update (cat (cat (lit ''4. '') (slot content ''idea_4'')) (lit ''\<newline>''))],
      if_in content [''description_4''] [aug msg msg_update (slot content ''description_4'')],
      call1 (set_table_cell ''Tableau 18'' 5 1) (local_var msg),
      if_in content [''pro_1''] [call1 (set_table_cell ''Tableau 18'' 2 2) (slot content ''pro_1'')],
      if_in content [''con_1''] [call1 (set_table_cell ''Tableau 18'' 2 3) (slot content ''con_1'')],
      if_in content [''pro_2''] [call1 (set_table_cell ''Tableau 18'' 3 2) (slot content ''pro_2'')],
      if_in content [''con_2''] [call1 (set_table_cell ''Tableau 18'' 3 3) (slot content ''con_2'')],
      if_in content [''pro_3''] [call1 (set_table_cell ''Tableau 18'' 4 2) (slot content ''pro_3'')],
      if_in content [''con_3''] [call1 (set_table_cell ''Tableau 18'' 4 3) (slot content ''con_3'')],
      if_in content [''pro_4''] [call1 (set_table_cell ''Tableau 18'' 5 2) (slot content ''pro_4'')],
      if_in content [''con_4''] [call1 (set_table_cell ''Tableau 18'' 5 3) (slot content ''con_4'')]]"

definition fill_slide_type_110 :: "int \<Rightarrow> string \<Rightarrow> content \<Rightarrow> builder \<Rightarrow> builder outcome" where
  "fill_slide_type_110 index title content = body_of
     [select_slide index,
      call build_shape_cache,
      call1 (set_text ''Titre 1'') (lit title),
      if_in content [''theme_1'']
        [call1 (set_table_cell ''Tableau 5'' 1 1) (slot content ''theme_1'')],
      if_in content [''theme_2'']
        [call1 (set_table_cell ''Tableau 5'' 1 2) (slot content ''theme_2'')],
      if_in content [''detail_1'']
        [call1 (set_table_cell ''Tableau 5'' 2 1) (slot content ''detail_1'')],
      if_in content [''detail_2'']
        [call1 (set_table_cell ''Tableau 5'' 2 2) (slot content ''detail_2'')],
      if_in content [''detail_3'']
        [call1 (set_table_cell ''Tableau 5'' 3 1) (slot content ''detail_3'')],
      if_in content [''detail_4'']
        [call1 (set_table_cell ''Tableau 5'' 3 2) (slot content ''detail_4'')],
      if_in content [''detail_5'']
        [call1 (set_table_cell ''Tableau 5'' 4 1) (slot content ''detail_5'')],
      if_in content [''detail_6'']
        [call1 (set_table_cell ''Tableau 5'' 4 2) (slot content ''detail_6'')]]"

definition fill_slide_type_112 :: "int \<Rightarrow> string \<Rightarrow> content \<Rightarrow> builder \<Rightarrow> builder outcome" where
  "fill_slide_type_112 index title content = body_of
     [select_slide index,
      call build_shape_cache,
      call1 (set_text ''Titre 1'') (lit title),
      if_in content [''kpi_1'', ''kpi_1_unit'']
        [call1 (set_table_cell ''Table 7'' 1 3)
           (cat (cat (slot content ''kpi_1'') (lit ''\<newline>'')) (slot content ''kpi_1_unit''))],
      if_in content [''kpi_2'', ''kpi_2_unit'']
        [call1 (set_table_cell ''Table 7'' 1 4)
           (cat (cat (slot content ''kpi_2'') (lit ''\<newline>'')) (slot content ''kpi_2_unit''))],
      if_in content [''scenario_1'']
        [call1 (set_table_cell ''Table 7'' 2 1) (slot content ''scenario_1'')],
      if_in content [''scenario_2'']
        [call1 (set_table_cell ''Table 7'' 3 2) (slot content ''scenario_2'')],
      if_in content [''scenario_3'']
        [call1 (set_table_cell ''Table 7'' 4 2) (slot content ''scenario_3'')]]"

definition fill_slide_type_113 :: "int \<Rightarrow> string \<Rightarrow> content \<Rightarrow> builder \<Rightarrow> builder outcome" where
  "fill_slide_type_113 index title content = body_of
     [select_slide index,
      call build_shape_cache,
      call1 (set_text ''Titre 1'') (lit title),
      if_in content [''kpi_1'', ''kpi_1_unit'']
        [call1 (set_table_cell ''Table 7'' 1 3)
           (cat (cat (slot content ''kpi_1'') (lit ''\<newline>'')) (slot content ''kpi_1_unit''))],
      if_in content [''kpi_2'', ''kpi_2_unit'']
        [call1 (set_table_cell ''Table 7'' 1 4)
           (cat (cat (slot content ''kpi_2'') (lit ''\<newline>'')) (slot content ''kpi_2_unit''))],
      if_in content [''scenario_1'']
        [call1 (set_table_cell ''Table 7'' 2 1) (slot content ''scenario_1'')],
      if_in content [''scenario_2'']
        [call1 (set_table_cell ''Table 7'' 3 2) (slot content ''scenario_2'')],
      if_in content [''scenario_3'']
        [call1 (set_table_cell ''Table 7'' 4 2) (slot content ''scenario_3'')],
      if_in content [''scenario_4'']
        [call1 (set_table_cell ''Table 7'' 5 2) (slot content ''scenario_4'')]]"

definition fill_slide_type_115 :: "int \<Rightarrow> string \<Rightarrow> content \<Rightarrow> builder \<Rightarrow> builder outcome" where
  "fill_slide_type_115 index title content = body_of
     [select_slide index,
      call build_shape_cache,
      call1 (set_text ''Title 1'') (lit title),
      if_in content [''phase_1''] [call1 (set_text ''Rectangle 9'') (slot content ''phase_1'')],
      if_in content [''phase_2''] [call1 (set_text ''Rectangle 23'') (slot content ''phase_2'')],
      if_in content [''phase_3''] [call1 (set_text ''Rectangle 25'') (slot content ''phase_3'')],
      if_in content [''phase_4''] [call1 (set_text ''Rectangle 27'') (slot content ''phase_4'')]]"

definition fill_slide_type_116 :: "int \<Rightarrow> string \<Rightarrow> content \<Rightarrow> builder \<Rightarrow> builder outcome" where
  "fill_slide_type_116 index title content = body_of
     [select_slide index,
      call build_shape_cache,
      call1 (set_text ''Title 8'') (lit title),
      assign msg_update (lit []),
      if_in content [''phase_1'']
        [aug msg msg_update (cat (slot content ''phase_1'') (lit ''\<newline>''))],
      if_in content [''detail_1''] [aug msg msg_update (slot content ''detail_1'')],
      call1 (set_text ''Rectangle 19'') (local_var msg),
      assign msg_update (lit []),
      if_in content [''phase_2'']
        [aug msg msg_update (cat (slot content ''phase_2'') (lit ''\<newline>''))],
      if_in content [''detail_2''] [aug msg msg_update (slot content ''detail_2'')],
      call1 (set_text ''Rectangle 10'') (local_var msg),
      assign msg_update (lit []),
      if_in content [''phase_3'']
        [aug msg msg_update (cat (slot content ''phase_3'') (lit ''\<newline>''))],
      if_in content [''detail_3''] [aug msg msg_update (slot content ''detail_3'')],
      call1 (set_text ''Rectangle 11'') (local_var msg),
      assign msg_update (lit []),
      if_in content [''phase_4'']
        [aug msg msg_update (cat (slot content ''phase_4'') (lit ''\<newline>''))],
      if_in content [''detail_4''] [aug msg msg_update (slot content ''detail_4'')],
      call1 (set_text ''Rectangle 68'') (local_var msg)]"

definition fill_slide_type_117 :: "int \<Rightarrow> string \<Rightarrow> content \<Rightarrow> builder \<Rightarrow> builder outcome" where
  "fill_slide_type_117 index title content = body_of
     [select_slide index,
      call build_shape_cache,
      call1 (set_text ''Title 8'') (lit title),
      assign msg_update (lit []),
      if_in content [''phase_1'']
        [aug msg msg_update (cat (slot content ''phase_1'') (lit ''\<newline>''))],
      if_in content [''detail_1''] [aug msg msg_update (slot content ''detail_1'')],
      call1 (set_text ''Rectangle 20'') (local_var msg),
      assign msg_update (lit []),
      if_in content [''phase_2'']
        [aug msg msg_update (cat (slot content ''phase_2'') (lit ''\<newline>''))],
      if_in content [''detail_2''] [aug msg msg_update (slot content ''detail_2'')],
      call1 (set_text ''Rectangle 10'') (local_var msg),
      assign msg_update (lit []),
      if_in content [''phase_3'']
        [aug msg msg_update (cat (slot content ''phase_3'') (lit ''\<newline>''))],
      if_in content [''detail_3''] [aug msg msg_update (slot content ''detail_3'')],
      call1 (set_text ''Rectangle 11'') (local_var msg),
      assign msg_update (lit []),
      if_in content [''phase_4'']
        [aug msg msg_update (cat (slot content ''phase_4'') (lit ''\<newline>''))],
      if_in content [''detail_4''] [aug msg msg_update (slot content ''detail_4'')],
      call1 (set_text ''Rectangle 68'') (local_var msg),
      assign msg_update (lit []),
      if_in content [''phase_5'']
        [aug msg msg_update (cat (slot content ''phase_5'') (lit ''\<newline>''))],
      if_in content [''detail_5''] [aug msg msg_update (slot content ''detail_5'')],
      call1 (set_text ''Rectangle 27'') (local_var msg)]"

definition fill_slide_type_118 :: "int \<Rightarrow> string \<Rightarrow> content \<Rightarrow> builder \<Rightarrow> builder outcome" where
  "fill_slide_type_118 index title content = body_of
     [select_slide index,
      call build_shape_cache,
      call1 (set_text ''Title 8'') (lit title),
      assign msg_update (lit []),
      if_in content [''phase_1'']
        [aug msg msg_update (cat (slot content ''phase_1'') (lit ''\<newline>''))],
      if_in content [''detail_1''] [aug msg msg_update (slot content ''detail_1'')],
      call1 (set_text ''Rectangle 26'') (local_var msg),
      assign msg_update (lit []),
      if_in content [''phase_2'']
        [aug msg msg_update (cat (slot content ''phase_2'') (lit ''\<newline>''))],
      if_in content [''detail_2''] [aug msg msg_update (slot content ''detail_2'')],
      call1 (set_text ''Rectangle 10'') (local_var msg),
      assign msg_update (lit []),
      if_in content [''phase_3'']
        [aug msg msg_update (cat (slot content ''phase_3'') (lit ''\<newline>''))],
      if_in content [''detail_3''] [aug msg msg_update (slot content ''detail_3'')],
      call1 (set_text ''Rectangle 11'') (local_var msg),
      assign msg_update (lit []),
      if_in content [''phase_4'']
        [aug msg msg_update (cat (slot content ''phase_4'') (lit ''\<newline>''))],
      if_in content [''detail_4''] [aug msg msg_update (slot content ''detail_4'')],
      call1 (set_text ''Rectangle 68'') (local_var msg),
      assign msg_update (lit []),
      if_in content [''phase_5'']
        [aug msg msg_update (cat (slot content ''phase_5'') (lit ''\<newline>''))],
      if_in content [''detail_5''] [aug msg msg_update (slot content ''detail_5'')],
      call1 (set_text ''Rectangle 21'') (local_var msg),
      assign msg_update (lit []),
      if_in content [''phase_6'']
        [aug msg msg_update (cat (slot content ''phase_6'') (lit ''\<newline>''))],
      if_in content [''detail_6''] [aug msg msg_update (slot content ''detail_6'')],
      call1 (set_text ''Rectangle 23'') (local_var msg)]"

definition fill_slide_type_119 :: "int \<Rightarrow> string \<Rightarrow> content \<Rightarrow> builder \<Rightarrow> builder outcome" where
  "fill_slide_type_119 index title content = body_of
     [select_slide index,
      call build_shape_cache,
      call1 (set_text ''Title 9'') (lit title),
      if_in content [''step_1''] [call1 (set_text ''Rectangle 32'') (slot content ''step_1'')],
      if_in content [''deliverable_1'']
        [call1 (set_text ''Rectangle 24'') (slot content ''deliverable_1'')],
      if_in content [''step_2''] [call1 (set_text ''Rectangle 35'') (slot content ''step_2'')],
      if_in content [''deliverable_2'']
        [call1 (set_text ''Rectangle 34'') (slot content ''deliverable_2'')],
      if_in content [''step_3''] [call1 (set_text ''Rectangle 36'') (slot content ''step_3'')],
      if_in content [''deliverable_3'']
        [call1 (set_text ''Rectangle 44'') (slot content ''deliverable_3'')]]"

definition fill_slide_type_120 :: "int \<Rightarrow> string \<Rightarrow> content \<Rightarrow> builder \<Rightarrow> builder outcome" where
  "fill_slide_type_120 index title content = body_of
     [select_slide index,
      call build_shape_cache,
      call1 (set_text ''Title 12'') (lit title),
      if_in content [''step_1''] [call1 (set_text ''Rectangle 42'') (slot content ''step_1'')],
      if_in content [''deliverable_1'']
        [call1 (set_text ''Rectangle 41'') (slot content ''deliverable_1'')],
      if_in content [''step_2''] [call1 (set_text ''Rectangle 43'') (slot content ''step_2'')],
      if_in content [''deliverable_2'']
        [call1 (set_text ''Rectangle 46'') (slot content ''deliverable_2'')],
      if_in content [''step_3''] [call1 (set_text ''Rectangle 45'') (slot content ''step_3'')],
      if_in content [''deliverable_3'']
        [call1 (set_text ''Rectangle 48'') (slot content ''deliverable_3'')],
      if_in content [''step_4''] [call1 (set_text ''Rectangle 55'') (slot content ''step_4'')],
      if_in content [''deliverable_4'']
        [call1 (set_text ''Rectangle 56'') (slot content ''deliverable_4'')]]"

definition fill_slide_type_121 :: "int \<Rightarrow> string \<Rightarrow> content \<Rightarrow> builder \<Rightarrow> builder outcome" where
  "fill_slide_type_121 index title content = body_of
     [select_slide index,
      call build_shape_cache,
      call1 (set_text ''Title 4'') (lit title),
      if_in content [''step_1'']
        [call1 (set_text ''TextBox 9'') (cat (lit ''Step 1\<newline>'') (slot content ''step_1''))],
      if_in content [''step_2'']
        [call1 (set_text ''TextBox 12'') (cat (lit ''Step 2\<newline>'') (slot content ''step_2''))],
      if_in content [''step_3'']
        [call1 (set_text ''TextBox 10'') (cat (lit ''Step 3\<newline>'') (slot content ''step_3''))],
      if_in content [''step_4'']
        [call1 (set_text ''TextBox 11'') (cat (lit ''Step 4\<newline>'') (slot content ''step_4''))]]"

definition fill_slide_type_122 :: "int \<Rightarrow> string \<Rightarrow> content \<Rightarrow> builder \<Rightarrow> builder outcome" where
  "fill_slide_type_122 index title content = body_of
     [select_slide index,
      call build_shape_cache,
      call1 (set_text ''Title 12'') (lit title),
      if_in content [''step_1''] [call1 (set_text ''Rectangle 51'') (slot content ''step_1'')],
      if_in content [''step_2''] [call1 (set_text ''Rectangle 56'') (slot content ''step_2'')],
      if_in content [''step_3''] [call1 (set_text ''Rectangle 57'') (slot content ''step_3'')]]"

definition fill_slide_type_123 :: "int \<Rightarrow> string \<Rightarrow> content \<Rightarrow> builder \<Rightarrow> builder outcome" where
  "fill_slide_type_123 index title content = body_of
     [select_slide index,
      call build_shape_cache,
      call1 (set_text ''Title 12'') (lit title),
      if_in content [''step_1''] [call1 (set_text ''Rectangle 51'') (slot content ''step_1'')],
      if_in content [''step_2''] [call1 (set_text ''Rectangle 56'') (slot content ''step_2'')],
      if_in content [''step_3''] [call1 (set_text ''Rectangle 57'') (slot content ''step_3'')]]"

definition fill_slide_type_124 :: "int \<Rightarrow> string \<Rightarrow> content \<Rightarrow> builder \<Rightarrow> builder outcome" where
  "fill_slide_type_124 index title content = body_of
     [select_slide index,
      call build_shape_cache,
      call1 (set_text ''Title 12'') (lit title),
      if_in content [''step_1''] [call1 (set_text ''Rectangle 51'') (slot content ''step_1'')],
      if_in content [''step_2''] [call1 (set_text ''Rectangle 56'') (slot content ''step_2'')],
      if_in content [''step_3''] [call1 (set_text ''Rectangle 57'') (slot content ''step_3'')],
      if_in content [''step_4''] [call1 (set_text ''Rectangle 58'') (slot content ''step_4'')]]"

definition fill_slide_type_125 :: "int \<Rightarrow> string \<Rightarrow> content \<Rightarrow> builder \<Rightarrow> builder outcome" where
  "fill_slide_type_125 index title content = body_of
     [select_slide index,
      call build_shape_cache,
      call1 (set_text ''Title 12'') (lit title),
      if_in content [''step_1''] [call1 (set_text ''Rectangle 51'') (slot content ''step_1'')],
      if_in content [''step_2''] [call1 (set_text ''Rectangle 56'') (slot content ''step_2'')],
      if_in content [''step_3''] [call1 (set_text ''Rectangle 57'') (slot content ''step_3'')],
      if_in content [''step_4''] [call1 (set_text ''Rectangle 58'') (slot content ''step_4'')]]"

definition fill_slide_type_126 :: "int \<Rightarrow> string \<Rightarrow> content \<Rightarrow> builder \<Rightarrow> builder outcome" where
  "fill_slide_type_126 index title content = body_of
     [select_slide index,
      call build_shape_cache,
      call1 (set_text ''Title 12'') (lit title),
      if_in content [''step_1''] [call1 (set_text ''Rectangle 51'') (slot content ''step_1'')],
      if_in content [''step_2''] [call1 (set_text ''Rectangle 56'') (slot content ''step_2'')],
      if_in content [''step_3''] [call1 (set_text ''Rectangle 57'') (slot content ''step_3'')],
      if_in content [''step_4''] [call1 (set_text ''Rectangle 58'') (slot content ''step_4'')],
      if_in content [''step_5''] [call1 (set_text ''Rectangle 59'') (slot content ''step_5'')]]"

definition fill_slide_type_127 :: "int \<Rightarrow> string \<Rightarrow> content \<Rightarrow> builder \<Rightarrow> builder outcome" where
  "fill_slide_type_127 index title content = body_of
     [select_slide index,
      call build_shape_cache,
      call1 (set_text ''Title 4'') (lit title),
      assign msg_update (lit []),
      if_in content [''step_1'']
        [aug msg msg_update (cat (slot content ''step_1'') (lit ''\<newline>''))],
      if_in content [''deliverable_1''] [aug msg msg_update (slot content ''deliverable_1'')],
      call1 (set_text ''TextBox 66'') (local_var msg),
      assign msg_update (lit []),
      if_in content [''step_2'']
        [aug msg msg_update (cat (slot content ''step_2'') (lit ''\<newline>''))],
      if_in content [''deliverable_2''] [aug msg msg_update (slot content ''deliverable_2'')],
      call1 (set_text ''TextBox 68'') (local_var msg),
      assign msg_update (lit []),
      if_in content [''step_3'']
        [aug msg msg_update (cat (slot content ''step_3'') (lit ''\<newline>''))],
      if_in content [''deliverable_3''] [aug msg msg_update (slot content ''deliverable_3'')],
      call1 (set_text ''TextBox 65'') (local_var msg),
      assign msg_update (lit []),
      if_in content [''step_4'']
        [aug msg msg_update (cat (slot content ''step_4'') (lit ''\<newline>''))],
      if_in content [''deliverable_4''] [aug msg msg_update (slot content ''deliverable_4'')],
      call1 (set_text ''TextBox 67'') (local_var msg),
      assign msg_update (lit []),
      if_in content [''step_5'']
        [aug msg msg_update (cat (slot content ''step_5'') (lit ''\<newline>''))],
      if_in content [''deliverable_5''] [aug msg msg_update (slot content ''deliverable_5'')],
      call1 (set_text ''TextBox 63'') (local_var msg)]"

definition fill_slide_type_128 :: "int \<Rightarrow> string \<Rightarrow> content \<Rightarrow> builder \<Rightarrow> builder outcome" where
  "fill_slide_type_128 index title content = body_of
     [select_slide index,
      call build_shape_cache,
      call1 (set_text ''Title 71'') (lit title),
      if_in content [''step_1'']
        [call1 (set_group_text ''Groupe 21'' ''TextBox 65'') (slot content ''step_1'')],
      if_in content [''description_1'']
        [call1 (set_text ''TextBox 59-1'') (slot content ''description_1'')],
      if_in content [''step_2'']
        [call1 (set_group_text ''Groupe 21'' ''TextBox 68'') (slot content ''step_2'')],
      if_in content [''description_2'']
        [call1 (set_text ''TextBox 59-2'') (slot content ''description_2'')],
      if_in content [''step_3'']
        [call1 (set_group_text ''Groupe 21'' ''TextBox 66'') (slot content ''step_3'')],
      if_in content [''description_3'']
        [call1 (set_text ''TextBox 59-3'') (slot content ''description_3'')],
      if_in content [''step_4'']
        [call1 (set_group_text ''Groupe 21'' ''TextBox 69'') (slot content ''step_4'')],
      if_in content [''description_4'']
        [call1 (set_text ''TextBox 59-4'') (slot content ''description_4'')],
      if_in content [''step_5'']
        [call1 (set_group_text ''Groupe 21'' ''TextBox 67'') (slot content ''step_5'')],
      if_in content [''description_5'']
        [call1 (set_text ''TextBox 59-5'') (slot content ''description_5'')],
      if_in content [''step_6'']
        [call1 (set_group_text ''Groupe 21'' ''TextBox 70'') (slot content ''step_6'')],
      if_in content [''description_6'']
        [call1 (set_text ''TextBox 59-6'') (slot content ''description_6'')]]"

definition fill_slide_type_129 :: "int \<Rightarrow> string \<Rightarrow> content \<Rightarrow> builder \<Rightarrow> builder outcome" where
  "fill_slide_type_129 index title content = body_of
     [select_slide index,
      call build_shape_cache,
      call1 (set_text ''Title 71'') (lit title),
      if_in content [''step_1'']
        [call1 (set_group_text ''Groupe 21'' ''TextBox 65'') (slot content ''step_1'')],
      if_in content [''description_1'']
        [call1 (set_text ''TextBox 59-1'') (slot content ''description_1'')],
      if_in content [''step_2'']
        [call1 (set_group_text ''Groupe 21'' ''TextBox 68'') (slot content ''step_2'')],
      if_in content [''description_2'']
        [call1 (set_text ''TextBox 59-2'') (slot content ''description_2'')],
      if_in content [''step_3'']
        [call1 (set_group_text ''Groupe 21'' ''TextBox 66'') (slot content ''step_3'')],
      if_in content [''description_3'']
        [call1 (set_text ''TextBox 59-3'') (slot content ''description_3'')]]"

definition fill_slide_type_130 :: "int \<Rightarrow> string \<Rightarrow> content \<Rightarrow> builder \<Rightarrow> builder outcome" where
  "fill_slide_type_130 index title content = body_of
     [select_slide index,
      call build_shape_cache,
      call1 (set_text ''Title 71'') (lit title),
      if_in content [''step_1'']
        [call1 (set_group_text ''Groupe 21'' ''TextBox 65'') (slot content ''step_1'')],
      if_in content [''description_1'']
        [call1 (set_text ''TextBox 59-1'') (slot content ''description_1'')],
      if_in content [''step_2'']
        [call1 (set_group_text ''Groupe 21'' ''TextBox 68'') (slot content ''step_2'')],
      if_in content [''description_2'']
        [call1 (set_text ''TextBox 59-2'') (slot content ''description_2'')],
      if_in content [''step_3'']
        [call1 (set_group_text ''Groupe 21'' ''TextBox 66'') (slot content ''step_3'')],
      if_in content [''description_3'']
        [call1 (set_text ''TextBox 59-3'') (slot content ''description_3'')],
      if_in content [''step_4'']
        [call1 (set_group_text ''Groupe 21'' ''TextBox 69'') (slot content ''step_4'')],
      if_in content [''description_4'']
        [call1 (set_text ''TextBox 59-4'') (slot content ''description_4'')]]"

definition fill_slide_type_131 :: "int \<Rightarrow> string \<Rightarrow> content \<Rightarrow> builder \<Rightarrow> builder outcome" where
  "fill_slide_type_131 index title content = body_of
     [select_slide index,
      call build_shape_cache,
      call1 (set_text ''Title 71'') (lit title),
      if_in content [''step_1''] [call1 (set_text ''TextBox 65'') (slot content ''step_1'')],
      if_in content [''description_1'']
        [call1 (set_text ''TextBox 59-1'') (slot content ''description_1'')],
      if_in content [''step_2''] [call1 (set_text ''TextBox 68'') (slot content ''step_2'')],
      if_in content [''description_2'']
        [call1 (set_text ''TextBox 59-2'') (slot content ''description_2'')],
      if_in content [''step_3''] [call1 (set_text ''TextBox 66'') (slot content ''step_3'')],
      if_in content [''description_3'']
        [call1 (set_text ''TextBox 59-3'') (slot content ''description_3'')],
      if_in content [''step_4''] [call1 (set_text ''TextBox 69'') (slot content ''step_4'')],
      if_in content [''description_4'']
        [call1 (set_text ''TextBox 59-4'') (slot content ''description_4'')],
      if_in content [''step_5''] [call1 (set_text ''TextBox 67'') (slot content ''step_5'')],
      if_in content [''description_5'']
        [call1 (set_text ''TextBox 59-5'') (slot content ''description_5'')]]"

definition fill_slide_type_135 :: "int \<Rightarrow> string \<Rightarrow> content \<Rightarrow> builder \<Rightarrow> builder outcome" where
  "fill_slide_type_135 index title content = body_of
     [select_slide index,
      call build_shape_cache,
      call1 (set_text ''Titre 1'') (lit title),
      if_in content [''step_1'']
        [call1 (set_text (''Fl'' @ [CHR 0xE8] @ ''che'' @ [CHR 0xA0] @ '': pentagone 3''))
           (slot content ''step_1'')],
      assign msg_update (lit []),
      if_in content [''deliverable_1'']
        [aug msg msg_update (cat (slot content ''deliverable_1'') (lit ''\<newline>''))],
      if_in content [''detail_1''] [aug msg msg_update (slot content ''detail_1'')],
      call1 (set_text ''ZoneTexte 24'') (local_var msg),
      assign msg_update (lit []),
      if_in content [''deliverable_2'']
        [aug msg msg_update (cat (slot content ''deliverable_2'') (lit ''\<newline>''))],
      if_in content [''detail_2''] [aug msg msg_update (slot content ''detail_2'')],
      call1 (set_text ''ZoneTexte 28'') (local_var msg),
      if_in content [''step_2'']
        [call1 (set_text (''Fl'' @ [CHR 0xE8] @ ''che'' @ [CHR 0xA0] @ '': chevron 4''))
           (slot content ''step_2'')],
      assign msg_update (lit []),
      if_in content [''deliverable_3'']
        [aug msg msg_update (cat (slot content ''deliverable_3'') (lit ''\<newline>''))],
      if_in content [''detail_3''] [aug msg msg_update (slot content ''detail_3'')],
      call1 (set_text ''ZoneTexte 29'') (local_var msg),
      assign msg_update (lit []),
      if_in content [''deliverable_4'']
        [aug msg msg_update (cat (slot content ''deliverable_4'') (lit ''\<newline>''))],
      if_in content [''detail_4''] [aug msg msg_update (slot content ''detail_4'')],
      call1 (set_text ''ZoneTexte 30'') (local_var msg),
      if_in content [''step_3'']
        [call1 (set_text (''Fl'' @ [CHR 0xE8] @ ''che'' @ [CHR 0xA0] @ '': chevron 5''))
           (slot content ''step_3'')],
      assign msg_update (lit []),
      if_in content [''deliverable_5'']
        [aug msg msg_update (cat (slot content ''deliverable_5'') (lit ''\<newline>''))],
      if_in content [''detail_5''] [aug msg msg_update (slot content ''detail_5'')],
      call1 (set_text ''ZoneTexte 33'') (local_var msg),
      assign msg_update (lit []),
      if_in content [''deliverable_6'']
        [aug msg msg_update (cat (slot content ''deliverable_6'') (lit ''\<newline>''))],
      if_in content [''detail_6''] [aug msg msg_update (slot content ''detail_6'')],
      call1 (set_text ''ZoneTexte 34'') (local_var msg)]"

definition fill_slide_type_136 :: "int \<Rightarrow> string \<Rightarrow> content \<Rightarrow> builder \<Rightarrow> builder outcome" where
  "fill_slide_type_136 index title content = body_of
     [select_slide index,
      call build_shape_cache,
      call1 (set_text ''Titre 1'') (lit title),
      if_in content [''step_1'']
        [call1 (set_text (''Fl'' @ [CHR 0xE8] @ ''che'' @ [CHR 0xA0] @ '': pentagone 3''))
           (slot content ''step_1'')],
      assign msg_update (lit []),
      if_in content [''deliverable_1'']
        [aug msg msg_update (cat (slot content ''deliverable_1'') (lit ''\<newline>''))],
      if_in content [''detail_1''] [aug msg msg_update (slot content ''detail_1'')],
      call1 (set_text ''ZoneTexte 24'') (local_var msg),
      assign msg_update (lit []),
      if_in content [''deliverable_2'']
        [aug msg msg_update (cat (slot content ''deliverable_2'') (lit ''\<newline>''))],
      if_in content [''detail_2''] [aug msg msg_update (slot content ''detail_2'')],
      call1 (set_text ''ZoneTexte 28'') (local_var msg),
      if_in content [''step_2'']
        [call1 (set_text (''Fl'' @ [CHR 0xE8] @ ''che'' @ [CHR 0xA0] @ '': chevron 4''))
           (slot content ''step_2'')],
      assign msg_update (lit []),
      if_in content [''deliverable_3'']
        [aug msg msg_update (cat (slot content ''deliverable_3'') (lit ''\<newline>''))],
      if_in content [''detail_3''] [aug msg msg_update (slot content ''detail_3'')],
      call1 (set_text ''ZoneTexte 80'') (local_var msg),
      assign msg_update (lit []),
      if_in content [''deliverable_4'']
        [aug msg msg_update (cat (slot content ''deliverable_4'') (lit ''\<newline>''))],
      if_in content [''detail_4''] [aug msg msg_update (slot content ''detail_4'')],
      call1 (set_text ''ZoneTexte 81'') (local_var msg),
      if_in content [''step_3'']
        [call1 (set_text (''Fl'' @ [CHR 0xE8] @ ''che'' @ [CHR 0xA0] @ '': chevron 5''))
           (slot content ''step_3'')],
      assign msg_update (lit []),
      if_in content [''deliverable_5'']
        [aug msg msg_update (cat (slot content ''deliverable_5'') (lit ''\<newline>''))],
      if_in content [''detail_5''] [aug msg msg_update (slot content ''detail_5'')],
      call1 (set_text ''ZoneTexte 82'') (local_var msg),
      assign msg_update (lit []),
      if_in content [''deliverable_6'']
        [aug msg msg_update (cat (slot content ''deliverable_6'') (lit ''\<newline>''))],
      if_in content [''detail_6''] [aug msg msg_update (slot content ''detail_6'')],
      call1 (set_text ''ZoneTexte 83'') (local_var msg),
      if_in content [''step_4'']
        [call1 (set_text (''Fl'' @ [CHR 0xE8] @ ''che'' @ [CHR 0xA0] @ '': chevron 65''))
           (slot content ''step_4'')],
      assign msg_update (lit []),
      if_in content [''deliverable_7'']
        [aug msg msg_update (cat (slot content ''deliverable_7'') (lit ''\<newline>''))],
      if_in content [''detail_7''] [aug msg msg_update (slot content ''detail_7'')],
      call1 (set_text ''ZoneTexte 84'') (local_var msg),
      assign msg_update (lit []),
      if_in content [''deliverable_8'']
        [aug msg msg_update (cat (slot content ''deliverable_8'') (lit ''\<newline>''))],
      if_in content [''detail_8''] [aug msg msg_update (slot content ''detail_8'')],
      call1 (set_text ''ZoneTexte 85'') (local_var msg)]"

definition fill_slide_type_137 :: "int \<Rightarrow> string \<Rightarrow> content \<Rightarrow> builder \<Rightarrow> builder outcome" where
  "fill_slide_type_137 index title content = body_of
     [select_slide index,
      call build_shape_cache,
      call1 (set_text ''Title 1'') (lit title),
      if_in content [''phase_1''] [call1 (set_text ''Pentagone 17'') (slot content ''phase_1'')],
      if_in content [''phase_2''] [call1 (set_text ''Chevron 10'') (slot content ''phase_2'')],
      if_in content [''phase_3''] [call1 (set_text ''Chevron 24'') (slot content ''phase_3'')],
      if_in content [''characteristic_1'']
        [call1 (set_table_cell ''Content Placeholder 3'' 1 1) (slot content ''characteristic_1'')],
      if_in content [''characteristic_2'']
        [call1 (set_table_cell ''Content Placeholder 3'' 3 1) (slot content ''characteristic_2'')],
      if_in content [''characteristic_3'']
        [call1 (set_table_cell ''Content Placeholder 3'' 5 1) (slot content ''characteristic_3'')],
      if_in content [''description_1'']
        [call1 (set_table_cell ''Content Placeholder 3'' 2 1) (slot content ''description_1'')],
      if_in content [''description_2'']
        [call1 (set_table_cell ''Content Placeholder 3'' 2 2) (slot content ''description_2'')],
      if_in content [''description_3'']
        [call1 (set_table_cell ''Content Placeholder 3'' 2 3) (slot content ''description_3'')],
      if_in content [''detail_1'']
        [call1 (set_table_cell ''Content Placeholder 3'' 4 1) (slot content ''detail_1'')],
      if_in content [''detail_2'']
        [call1 (set_table_cell ''Content Placeholder 3'' 4 2) (slot content ''detail_2'')],
      if_in content [''detail_3'']
        [call1 (set_table_cell ''Content Placeholder 3'' 4 3) (slot content ''detail_3'')],
      if_in content [''detail_4'']
        [call1 (set_table_cell ''Content Placeholder 3'' 6 1) (slot content ''detail_4'')],
      if_in content [''detail_5'']
        [call1 (set_table_cell ''Content Placeholder 3'' 6 2) (slot content ''detail_5'')],
      if_in content [''detail_6'']
        [call1 (set_table_cell ''Content Placeholder 3'' 6 3) (slot content ''detail_6'')]]"

definition fill_slide_type_138 :: "int \<Rightarrow> string \<Rightarrow> content \<Rightarrow> builder \<Rightarrow> builder outcome" where
  "fill_slide_type_138 index title content = body_of
     [select_slide index,
      call build_shape_cache,
      call1 (set_text ''Title 1'') (lit title),
      if_in content [''phase_1''] [call1 (set_text ''Pentagone 17'') (slot content ''phase_1'')],
      if_in content [''phase_2''] [call1 (set_text ''Chevron 10'') (slot content ''phase_2'')],
      if_in content [''phase_3''] [call1 (set_text ''Chevron 24'') (slot content ''phase_3'')],
      if_in content [''phase_4''] [call1 (set_text ''Chevron 24-2'') (slot content ''phase_4'')],
      if_in content [''characteristic_1'']
        [call1 (set_table_cell ''Content Placeholder 3'' 1 1) (slot content ''characteristic_1'')],
      if_in content [''characteristic_2'']
        [call1 (set_table_cell ''Content Placeholder 3'' 3 1) (slot content ''characteristic_2'')],
      if_in content [''characteristic_3'']
        [call1 (set_table_cell ''Content Placeholder 3'' 5 1) (slot content ''characteristic_3'')],
      if_in content [''description_1'']
        [call1 (set_table_cell ''Content Placeholder 3'' 2 1) (slot content ''description_1'')],
      if_in content [''description_2'']
        [call1 (set_table_cell ''Content Placeholder 3'' 2 2) (slot content ''description_2'')],
      if_in content [''description_3'']
        [call1 (set_table_cell ''Content Placeholder 3'' 2 3) (slot content ''description_3'')],
      if_in content [''description_4'']
        [call1 (set_table_cell ''Content Placeholder 3'' 2 4) (slot content ''description_4'')],
      if_in content [''detail_1'']
        [call1 (set_table_cell ''Content Placeholder 3'' 4 1) (slot content ''detail_1'')],
      if_in content [''detail_2'']
        [call1 (set_table_cell ''Content Placeholder 3'' 4 2) (slot content ''detail_2'')],
      if_in content [''detail_3'']
        [call1 (set_table_cell ''Content Placeholder 3'' 4 3) (slot content ''detail_3'')],
      if_in content [''detail_4'']
        [call1 (set_table_cell ''Content Placeholder 3'' 4 4) (slot content ''detail_4'')],
      if_in content [''detail_5'']
        [call1 (set_table_cell ''Content Placeholder 3'' 6 1) (slot content ''detail_5'')],
      if_in content [''detail_6'']
        [call1 (set_table_cell ''Content Placeholder 3'' 6 2) (slot content ''detail_6'')],
      if_in content [''detail_7'']
        [call1 (set_table_cell ''Content Placeholder 3'' 6 3) (slot content ''detail_7'')],
      if_in content [''detail_8'']
        [call1 (set_table_cell ''Content Placeholder 3'' 6 4) (slot content ''detail_8'')]]"

definition fill_slide_type_139 :: "int \<Rightarrow> string \<Rightarrow> content \<Rightarrow> builder \<Rightarrow> builder outcome" where
  "fill_slide_type_139 index title content = body_of
     [select_slide index,
      call build_shape_cache,
      call1 (set_text ''Title 3'') (lit title),
      if_in content [''phase_1''] [call1 (set_text ''Rectangle 89'') (slot content ''phase_1'')],
      if_in content [''phase_2''] [call1 (set_text ''Rectangle 68'') (slot content ''phase_2'')],
      if_in content [''phase_3''] [call1 (set_text ''Rectangle 61'') (slot content ''phase_3'')],
      if_in content [''characteristic_1'']
        [call1 (set_text ''ZoneTexte 32'') (slot content ''characteristic_1'')],
      if_in content [''characteristic_2'']
        [call1 (set_text ''ZoneTexte 33'') (slot content ''characteristic_2'')],
      if_in content [''characteristic_3'']
        [call1 (set_text ''ZoneTexte 36'') (slot content ''characteristic_3'')],
      if_in content [''detail_1''] [call1 (set_text ''ZoneTexte 43'') (slot content ''detail_1'')],
      if_in content [''detail_2''] [call1 (set_text ''ZoneTexte 44'') (slot content ''detail_2'')],
      if_in content [''detail_3''] [call1 (set_text ''ZoneTexte 45'') (slot content ''detail_3'')],
      if_in content [''detail_4''] [call1 (set_text ''ZoneTexte 40'') (slot content ''detail_4'')],
      if_in content [''detail_5''] [call1 (set_text ''ZoneTexte 41'') (slot content ''detail_5'')],
      if_in content [''detail_6''] [call1 (set_text ''ZoneTexte 42'') (slot content ''detail_6'')],
      if_in content [''detail_7''] [call1 (set_text ''ZoneTexte 49'') (slot content ''detail_7'')],
      if_in content [''detail_8''] [call1 (set_text ''ZoneTexte 47'') (slot content ''detail_8'')],
      if_in content [''detail_9''] [call1 (set_text ''ZoneTexte 46'') (slot content ''detail_9'')]]"

definition fill_slide_type_143 :: "int \<Rightarrow> string \<Rightarrow> content \<Rightarrow> builder \<Rightarrow> builder outcome" where
  "fill_slide_type_143 index title content = body_of
     [select_slide index,
      call build_shape_cache,
      call1 (set_text ''Titre 1'') (lit title),
      if_in content [''step_number'']
        [call1 (set_text ''Google Shape;2350;p252'')
           (cat (lit ''Step #'') (slot content ''step_number''))],
      if_in content [''step_title'']
        [call1 (set_text ''Google Shape;2352;p252'') (slot content ''step_title'')],
      if_in content [''step_description'']
        [call1 (set_text ''Content Placeholder 5'') (slot content ''step_description'')],
      if_in content [''ksf_1_title'', ''ksf_1_description'']
        [call1 (set_text ''Google Shape;2359;p252'')
           (cat (cat (slot content ''ksf_1_title'') (lit ''\<newline>'')) (slot content ''ksf_1_description''))],
      if_in content [''ksf_2_title'', ''ksf_2_description'']
        [call1 (set_text ''Google Shape;2359;p252-2'')
           (cat (cat (slot content ''ksf_2_title'') (lit ''\<newline>'')) (slot content ''ksf_2_description''))],
      if_in content [''ksf_3_title'', ''ksf_3_description'']
        [call1 (set_text ''Google Shape;2359;p252-3'')
           (cat (cat (slot content ''ksf_3_title'') (lit ''\<newline>'')) (slot content ''ksf_3_description''))],
      if_in content [''ksf_4_title'', ''ksf_4_description'']
        [call1 (set_text ''Google Shape;2359;p252-4'')
           (cat (cat (slot content ''ksf_4_title'') (lit ''\<newline>'')) (slot content ''ksf_4_description''))]]"

definition fill_slide_type_144 :: "int \<Rightarrow> string \<Rightarrow> content \<Rightarrow> builder \<Rightarrow> builder outcome" where
  "fill_slide_type_144 index title content = body_of
     [select_slide index,
      call build_shape_cache,
      call1 (set_text ''Titre 1'') (lit title),
      if_in content [''step_1'']
        [call1 (set_text ''Google Shape;2260;p246-1'')
           (cat (lit ''1\<newline>'') (slot content ''step_1''))],
      if_in content [''step_2'']
        [call1 (set_text ''Google Shape;2260;p246-2'')
           (cat (lit ''2\<newline>'') (slot content ''step_2''))],
      if_in content [''step_3'']
        [call1 (set_text ''Google Shape;2260;p246-3'')
           (cat (lit ''3\<newline>'') (slot content ''step_3''))],
      if_in content [''step_subtitle'', ''step_description'']
        [call1 (set_text ''Google Shape;2262;p246'')
           (cat (cat (slot content ''step_subtitle'') (lit ''\<newline>\<newline>'')) (slot content ''step_description''))]]"

definition fill_slide_type_145 :: "int \<Rightarrow> string \<Rightarrow> content \<Rightarrow> builder \<Rightarrow> builder outcome" where
  "fill_slide_type_145 index title content = body_of
     [select_slide index,
      call build_shape_cache,
      call1 (set_text ''Titre 1'') (lit title),
      if_in content [''step_1'']
        [call1 (set_text ''Google Shape;2260;p246-1'')
           (cat (lit ''1\<newline>'') (slot content ''step_1''))],
      if_in content [''step_2'']
        [call1 (set_text ''Google Shape;2260;p246-2'')
           (cat (lit ''2\<newline>'') (slot content ''step_2''))],
      if_in content [''step_3'']
        [call1 (set_text ''Google Shape;2260;p246-3'')
           (cat (lit ''3\<newline>'') (slot content ''step_3''))],
      if_in content [''step_subtitle'', ''step_description'']
        [call1 (set_text ''Google Shape;2262;p246'')
           (cat (cat (slot content ''step_subtitle'') (lit ''\<newline>\<newline>'')) (slot content ''step_description''))]]"

definition fill_slide_type_146 :: "int \<Rightarrow> string \<Rightarrow> content \<Rightarrow> builder \<Rightarrow> builder outcome" where
  "fill_slide_type_146 index title content = body_of
     [select_slide index,
      call build_shape_cache,
      call1 (set_text ''Titre 1'') (lit title),
      if_in content [''step_1'']
        [call1 (set_text ''Google Shape;2260;p246-1'')
           (cat (lit ''1\<newline>'') (slot content ''step_1''))],
      if_in content [''step_2'']
        [call1 (set_text ''Google Shape;2260;p246-2'')
           (cat (lit ''2\<newline>'') (slot content ''step_2''))],
      if_in content [''step_3'']
        [call1 (set_text ''Google Shape;2260;p246-3'')
           (cat (lit ''3\<newline>'') (slot content ''step_3''))],
      if_in content [''step_subtitle'', ''step_description'']
        [call1 (set_text ''Google Shape;2262;p246'')
           (cat (cat (slot content ''step_subtitle'') (lit ''\<newline>\<newline>'')) (slot content ''step_description''))]]"

definition fill_slide_type_147 :: "int \<Rightarrow> string \<Rightarrow> content \<Rightarrow> builder \<Rightarrow> builder outcome" where
  "fill_slide_type_147 index title content = body_of
     [select_slide index,
      call build_shape_cache,
      call1 (set_text ''Title 12'') (lit title),
      if_in content [''description_1'']
        [call1 (set_text ''Rectangle 13'') (slot content ''description_1'')],
      if_in content [''description_2'']
        [call1 (set_text ''Rectangle 68'') (slot content ''description_2'')],
      if_in content [''description_3'']
        [call1 (set_text ''Rectangle 72'') (slot content ''description_3'')],
      if_in content [''description_4'']
        [call1 (set_text ''Rectangle 84'') (slot content ''description_4'')]]"

definition fill_slide_type_148 :: "int \<Rightarrow> string \<Rightarrow> content \<Rightarrow> builder \<Rightarrow> builder outcome" where
  "fill_slide_type_148 index title content = body_of
     [select_slide index,
      call build_shape_cache,
      call1 (set_text ''Title 12'') (lit title),
      if_in content [''description_1'']
        [call1 (set_text ''Rectangle 13'') (slot content ''description_1'')],
      if_in content [''description_2'']
        [call1 (set_text ''Rectangle 68'') (slot content ''description_2'')],
      if_in content [''description_3'']
        [call1 (set_text ''Rectangle 72'') (slot content ''description_3'')],
      if_in content [''description_4'']
        [call1 (set_text ''Rectangle 76'') (slot content ''description_4'')],
      if_in content [''description_5'']
        [call1 (set_text ''Rectangle 84'') (slot content ''description_5'')]]"

definition fill_slide_type_149 :: "int \<Rightarrow> string \<Rightarrow> content \<Rightarrow> builder \<Rightarrow> builder outcome" where
  "fill_slide_type_149 index title content = body_of
     [select_slide index,
      call build_shape_cache,
      call1 (set_text ''Title 12'') (lit title),
      if_in content [''description_1'']
        [call1 (set_text ''Rectangle 13'') (slot content ''description_1'')],
      if_in content [''description_2'']
        [call1 (set_text ''Rectangle 68'') (slot content ''description_2'')],
      if_in content [''description_3'']
        [call1 (set_text ''Rectangle 72'') (slot content ''description_3'')],
      if_in content [''description_4'']
        [call1 (set_text ''Rectangle 76'') (slot content ''description_4'')],
      if_in content [''description_5'']
        [call1 (set_text ''Rectangle 80'') (slot content ''description_5'')],
      if_in content [''description_6'']
        [call1 (set_text ''Rectangle 84'') (slot content ''description_6'')]]"

definition fill_slide_type_150 :: "int \<Rightarrow> string \<Rightarrow> content \<Rightarrow> builder \<Rightarrow> builder outcome" where
  "fill_slide_type_150 index title content = body_of
     [select_slide index,
      call build_shape_cache,
      call1 (set_text ''Titre 1'') (lit title),
      if_in content [''week_1_content'']
        [call1 (set_text ''Rectangle 9'') (slot content ''week_1_content'')],
      if_in content [''week_2_content'']
        [call1 (set_text ''Rectangle 8'') (slot content ''week_2_content'')],
      if_in content [''week_3_content'']
        [call1 (set_text ''Rectangle 6'') (slot content ''week_3_content'')],
      if_in content [''final_day_content'']
        [call1 (set_text ''Rectangle 5'') (slot content ''final_day_content'')]]"

definition fill_slide_type_151 :: "int \<Rightarrow> string \<Rightarrow> content \<Rightarrow> builder \<Rightarrow> builder outcome" where
  "fill_slide_type_151 index title content = body_of
     [select_slide index,
      call build_shape_cache,
      call1 (set_text ''Titre 1'') (lit title),
      if_in content [''week_1_content'']
        [call1 (set_text ''Rectangle 10'') (slot content ''week_1_content'')],
      if_in content [''week_2_content'']
        [call1 (set_text ''Rectangle 9'') (slot content ''week_2_content'')],
      if_in content [''week_3_content'']
        [call1 (set_text ''Rectangle 8'') (slot content ''week_3_content'')],
      if_in content [''week_4_content'']
        [call1 (set_text ''Rectangle 6'') (slot content ''week_4_content'')],
      if_in content [''final_day_content'']
        [call1 (set_text ''Rectangle 5'') (slot content ''final_day_content'')]]"

definition fill_slide_type_152 :: "int \<Rightarrow> string \<Rightarrow> content \<Rightarrow> builder \<Rightarrow> builder outcome" where
  "fill_slide_type_152 index title content = body_of
     [select_slide index,
      call build_shape_cache,
      call1 (set_text ''Titre 1'') (lit title),
      if_in content [''success_key_1'', ''description_1'']
        [call1 (set_text ''Rectangle 24'')
           (cat (cat (slot content ''success_key_1'') (lit ''\<newline>'')) (slot content ''description_1''))],
      if_in content [''success_key_2'', ''description_2'']
        [call1 (set_text ''Rectangle 25'')
           (cat (cat (slot content ''success_key_1'') (lit ''\<newline>'')) (slot content ''description_2''))],
      if_in content [''success_key_3'', ''description_3'']
        [call1 (set_text ''Rectangle 26'')
           (cat (cat (slot content ''success_key_3'') (lit ''\<newline>'')) (slot content ''description_3''))],
      if_in content [''success_key_4'', ''description_4'']
        [call1 (set_text ''Rectangle 27'')
           (cat (cat (slot content ''success_key_4'') (lit ''\<newline>'')) (slot content ''description_4''))]]"

section \<open>Reference notions for the properties\<close>

text \<open>
  The positions of the shapes of a slide whose lower-cased name is that of \<open>name\<close>, in
  the host's order, and the first and the last of them.
\<close>

definition matches :: "string \<Rightarrow> slide \<Rightarrow> nat list" where
  "matches name shapes =
     filter (\<lambda>j. lower (Name (shapes ! j)) = lower name) [0 ..< length shapes]"

definition first_match :: "string \<Rightarrow> slide \<Rightarrow> nat option" where
  "first_match name shapes = (case matches name shapes of [] \<Rightarrow> None | j # js \<Rightarrow> Some j)"

definition last_match :: "string \<Rightarrow> slide \<Rightarrow> nat option" where
  "last_match name shapes = (case rev (matches name shapes) of [] \<Rightarrow> None | j # js \<Rightarrow> Some j)"

text \<open>The name index that \<open>_build_shape_cache\<close> computes for a slide.\<close>

definition cache_of :: "slide \<Rightarrow> string \<rightharpoonup> nat" where
  "cache_of shapes =
     fold (\<lambda>(j, sh) cache. cache(lower (Name sh) \<mapsto> j)) (enumerate 0 shapes) Map.empty"

text \<open>Shapes and builders for concrete runs.\<close>

definition text_shape :: "string \<Rightarrow> string \<Rightarrow> shape" where
  "text_shape n t =
     \<lparr>Name = n, HasTextFrame = True, Text = t, HasTable = False, Cells = Map.empty,
      GroupItems = None\<rparr>"

definition table_shape :: "string \<Rightarrow> ((int \<times> int) \<rightharpoonup> string) \<Rightarrow> shape" where
  "table_shape n cells =
     \<lparr>Name = n, HasTextFrame = False, Text = [], HasTable = True, Cells = cells,
      GroupItems = None\<rparr>"

definition open_builder :: "deck \<Rightarrow> builder" where
  "open_builder d =
     \<lparr>library = [], output_file = Some d, powerpoint = True, presentation = Some d,
      slide = None, shape_cache = Map.empty, events = []\<rparr>"

definition two_boxes :: builder where
  "two_boxes = (open_builder [[text_shape ''Box'' ''first'', text_shape ''box'' ''second'']])
     \<lparr>slide := Some 0\<rparr>"

definition target_text :: "'a builder_scheme \<Rightarrow> string \<Rightarrow> nat option" where
  "target_text f n =
     (case resolve n f of Some (j, sh) \<Rightarrow> if HasTextFrame sh then Some j else None | None \<Rightarrow> None)"

definition target_cell :: "'a builder_scheme \<Rightarrow> string \<Rightarrow> int \<Rightarrow> int \<Rightarrow> nat option" where
  "target_cell f n r c =
     (case resolve n f of
        Some (j, sh) \<Rightarrow> if HasTable sh \<and> Cells sh (r, c) \<noteq> None then Some j else None
      | None \<Rightarrow> None)"

definition six_lines :: content where
  "six_lines = [''detail_1'' \<mapsto> ''A\<newline>B\<newline>C\<newline>D\<newline>E\<newline>F'']"

definition six_lines_builder :: builder where
  "six_lines_builder = open_builder [[text_shape ''Title 5'' ''t'']]"

definition text_target :: "string \<Rightarrow> slide \<Rightarrow> nat option" where
  "text_target n sl =
     (case last_match n sl of None \<Rightarrow> None | Some j \<Rightarrow> if HasTextFrame (sl ! j) then Some j else None)"

definition cell_target :: "string \<Rightarrow> int \<Rightarrow> int \<Rightarrow> slide \<Rightarrow> nat option" where
  "cell_target n r c sl =
     (case last_match n sl of
        None \<Rightarrow> None
      | Some j \<Rightarrow> if HasTable (sl ! j) \<and> Cells (sl ! j) (r, c) \<noteq> None then Some j else None)"

definition cell_writes :: "nat \<Rightarrow> nat \<Rightarrow> int \<Rightarrow> int \<Rightarrow> event list \<Rightarrow> string list" where
  "cell_writes s j r c evs =
     concat (map (\<lambda>ev. case ev of
                          SetCell s' j' r' c' t \<Rightarrow>
                            if s' = s \<and> j' = j \<and> r' = r \<and> c' = c then [t] else []
                        | _ \<Rightarrow> []) evs)"

definition text_writes :: "nat \<Rightarrow> nat \<Rightarrow> event list \<Rightarrow> string list" where
  "text_writes s j evs =
     concat (map (\<lambda>ev. case ev of
                          SetText s' j' t \<Rightarrow> if s' = s \<and> j' = j then [t] else []
                        | _ \<Rightarrow> []) evs)"

text \<open>The frame after the two opening statements of a filler.\<close>

definition opened :: "builder \<Rightarrow> int \<Rightarrow> frame" where
  "opened b index = build_shape_cache ((enter b)\<lparr>slide := Some (nat (index - 1))\<rparr>)"

definition reduce_cost :: content where
  "reduce_cost = [''idea_1'' \<mapsto> ''Reduce cost'', ''description_1'' \<mapsto> ''via automation'']"

definition ideas_slide :: slide where
  "ideas_slide =
     [text_shape ''Titre 1'' ''Title'',
      table_shape ''Tableau 18''
        [(2, 1) \<mapsto> ''Idea A'', (3, 1) \<mapsto> ''Idea B'', (2, 2) \<mapsto> ''Pro A'', (2, 3) \<mapsto> ''Con A'',
         (3, 2) \<mapsto> ''Pro B'', (3, 3) \<mapsto> ''Con B'']]"

definition preserves :: "(frame \<Rightarrow> 'x) \<Rightarrow> step \<Rightarrow> bool" where
  "preserves obs st = (\<forall>f. obs (state_of (st f)) = obs f)"

definition never_raises :: "step \<Rightarrow> bool" where
  "never_raises st = (\<forall>f. raised (st f) = None)"

definition evaluates :: "expr \<Rightarrow> bool" where
  "evaluates e = (\<forall>f. \<exists>v. e f = Inr v)"




definition keeps :: "(frame \<Rightarrow> bool) \<Rightarrow> (frame \<Rightarrow> 'x) \<Rightarrow> step \<Rightarrow> bool" where
  "keeps I obs st = (\<forall>f. I f \<longrightarrow> I (state_of (st f)) \<and> obs (state_of (st f)) = obs f)"

text \<open>The frame after the first \<open>k\<close> rounds of a fan-out loop.\<close>

definition rounds :: "string list \<Rightarrow> string list \<Rightarrow> nat \<Rightarrow> frame \<Rightarrow> frame" where
  "rounds zones points k f = fold (\<lambda>i. set_text (zones ! i) (points ! i)) [0 ..< k] f"

definition three_lines :: content where
  "three_lines = [''detail_1'' \<mapsto> ''A\<newline>B\<newline>C'']"

definition zones_slide :: slide where
  "zones_slide =
     [text_shape ''Title 5'' ''Title'',
      text_shape ''ZoneTexte 77'' ''one'', text_shape ''ZoneTexte 78'' ''two'',
      text_shape ''ZoneTexte 80'' ''three'', text_shape ''ZoneTexte 86'' ''four'',
      text_shape ''ZoneTexte 86-2'' ''five'']"

definition detail_1_zones :: "string list" where
  "detail_1_zones =
     [''ZoneTexte 77'', ''ZoneTexte 78'', ''ZoneTexte 80'', ''ZoneTexte 86'', ''ZoneTexte 86-2'']"

definition detail_2_zones :: "string list" where
  "detail_2_zones =
     [''ZoneTexte 47'', ''ZoneTexte 48'', ''ZoneTexte 49'', ''ZoneTexte 50'', ''ZoneTexte 50-2'']"

section \<open>The controller\<close>

text \<open>
  The attributes of a builder whose name starts with \<open>fill_slide_type_\<close>, as
  \<open>hasattr\<close> and \<open>getattr\<close> find them: the slide fillers, which take a position, a title
  and a slot map, and the filler of the title slide, which takes the title only.
\<close>

datatype attr =
    Filler "int \<Rightarrow> string \<Rightarrow> content \<Rightarrow> builder \<Rightarrow> builder outcome"
  | TitleFiller "string \<Rightarrow> builder \<Rightarrow> builder outcome"

definition fill_methods :: "(string \<times> attr) list" where
  "fill_methods =
     [(''fill_slide_type_title'', TitleFiller fill_slide_type_title), (''fill_slide_type_4'', Filler fill_slide_type_4),
      (''fill_slide_type_5'', Filler fill_slide_type_5), (''fill_slide_type_6'', Filler fill_slide_type_6),
      (''fill_slide_type_7'', Filler fill_slide_type_7), (''fill_slide_type_8'', Filler fill_slide_type_8),
      (''fill_slide_type_9'', Filler fill_slide_type_9), (''fill_slide_type_10'', Filler fill_slide_type_10),
      (''fill_slide_type_11'', Filler fill_slide_type_11), (''fill_slide_type_12'', Filler fill_slide_type_12),
      (''fill_slide_type_13'', Filler fill_slide_type_13), (''fill_slide_type_15'', Filler fill_slide_type_15),
      (''fill_slide_type_16'', Filler fill_slide_type_16), (''fill_slide_type_17'', Filler fill_slide_type_17),
      (''fill_slide_type_18'', Filler fill_slide_type_18), (''fill_slide_type_19'', Filler fill_slide_type_19),
      (''fill_slide_type_20'', Filler fill_slide_type_20), (''fill_slide_type_21'', Filler fill_slide_type_21),
      (''fill_slide_type_22'', Filler fill_slide_type_22), (''fill_slide_type_24'', Filler fill_slide_type_24),
      (''fill_slide_type_25'', Filler fill_slide_type_25), (''fill_slide_type_47'', Filler fill_slide_type_47),
      (''fill_slide_type_48'', Filler fill_slide_type_48), (''fill_slide_type_49'', Filler fill_slide_type_49),
      (''fill_slide_type_50'', Filler fill_slide_type_50), (''fill_slide_type_51'', Filler fill_slide_type_51),
      (''fill_slide_type_52'', Filler fill_slide_type_52), (''fill_slide_type_53'', Filler fill_slide_type_53),
      (''fill_slide_type_54'', Filler fill_slide_type_54), (''fill_slide_type_55'', Filler fill_slide_type_55),
      (''fill_slide_type_56'', Filler fill_slide_type_56), (''fill_slide_type_57'', Filler fill_slide_type_57),
      (''fill_slide_type_58'', Filler fill_slide_type_58), (''fill_slide_type_59'', Filler fill_slide_type_59),
      (''fill_slide_type_60'', Filler fill_slide_type_60), (''fill_slide_type_61'', Filler fill_slide_type_61),
      (''fill_slide_type_62'', Filler fill_slide_type_62), (''fill_slide_type_63'', Filler fill_slide_type_63),
      (''fill_slide_type_64'', Filler fill_slide_type_64), (''fill_slide_type_65'', Filler fill_slide_type_65),
      (''fill_slide_type_66'', Filler fill_slide_type_66), (''fill_slide_type_67'', Filler fill_slide_type_67),
      (''fill_slide_type_68'', Filler fill_slide_type_68), (''fill_slide_type_69'', Filler fill_slide_type_69),
      (''fill_slide_type_71'', Filler fill_slide_type_71), (''fill_slide_type_72'', Filler fill_slide_type_72),
      (''fill_slide_type_73'', Filler fill_slide_type_73), (''fill_slide_type_74'', Filler fill_slide_type_74),
      (''fill_slide_type_75'', Filler fill_slide_type_75), (''fill_slide_type_76'', Filler fill_slide_type_76),
      (''fill_slide_type_77'', Filler fill_slide_type_77), (''fill_slide_type_78'', Filler fill_slide_type_78),
      (''fill_slide_type_79'', Filler fill_slide_type_79), (''fill_slide_type_80'', Filler fill_slide_type_80),
      (''fill_slide_type_81'', Filler fill_slide_type_81), (''fill_slide_type_83'', Filler fill_slide_type_83),
      (''fill_slide_type_84'', Filler fill_slide_type_84), (''fill_slide_type_85'', Filler fill_slide_type_85),
      (''fill_slide_type_86'', Filler fill_slide_type_86), (''fill_slide_type_87'', Filler fill_slide_type_87),
      (''fill_slide_type_88'', Filler fill_slide_type_88), (''fill_slide_type_89'', Filler fill_slide_type_89),
      (''fill_slide_type_90'', Filler fill_slide_type_90), (''fill_slide_type_91'', Filler fill_slide_type_91),
      (''fill_slide_type_92'', Filler fill_slide_type_92), (''fill_slide_type_93'', Filler fill_slide_type_93),
      (''fill_slide_type_95'', Filler fill_slide_type_95), (''fill_slide_type_96'', Filler fill_slide_type_96),
      (''fill_slide_type_100'', Filler fill_slide_type_100), (''fill_slide_type_101'', Filler fill_slide_type_101),
      (''fill_slide_type_102'', Filler fill_slide_type_102), (''fill_slide_type_103'', Filler fill_slide_type_103),
      (''fill_slide_type_104'', Filler fill_slide_type_104), (''fill_slide_type_105'', Filler fill_slide_type_105),
      (''fill_slide_type_106'', Filler fill_slide_type_106), (''fill_slide_type_107'', Filler fill_slide_type_107),
      (''fill_slide_type_108'', Filler fill_slide_type_108), (''fill_slide_type_109'', Filler fill_slide_type_109),
      (''fill_slide_type_110'', Filler fill_slide_type_110), (''fill_slide_type_112'', Filler fill_slide_type_112),
      (''fill_slide_type_113'', Filler fill_slide_type_113), (''fill_slide_type_115'', Filler fill_slide_type_115),
      (''fill_slide_type_116'', Filler fill_slide_type_116), (''fill_slide_type_117'', Filler fill_slide_type_117),
      (''fill_slide_type_118'', Filler fill_slide_type_118), (''fill_slide_type_119'', Filler fill_slide_type_119),
      (''fill_slide_type_120'', Filler fill_slide_type_120), (''fill_slide_type_121'', Filler fill_slide_type_121),
      (''fill_slide_type_122'', Filler fill_slide_type_122), (''fill_slide_type_123'', Filler fill_slide_type_123),
      (''fill_slide_type_124'', Filler fill_slide_type_124), (''fill_slide_type_125'', Filler fill_slide_type_125),
      (''fill_slide_type_126'', Filler fill_slide_type_126), (''fill_slide_type_127'', Filler fill_slide_type_127),
      (''fill_slide_type_128'', Filler fill_slide_type_128), (''fill_slide_type_129'', Filler fill_slide_type_129),
      (''fill_slide_type_130'', Filler fill_slide_type_130), (''fill_slide_type_131'', Filler fill_slide_type_131),
      (''fill_slide_type_135'', Filler fill_slide_type_135), (''fill_slide_type_136'', Filler fill_slide_type_136),
      (''fill_slide_type_137'', Filler fill_slide_type_137), (''fill_slide_type_138'', Filler fill_slide_type_138),
      (''fill_slide_type_139'', Filler fill_slide_type_139), (''fill_slide_type_143'', Filler fill_slide_type_143),
      (''fill_slide_type_144'', Filler fill_slide_type_144), (''fill_slide_type_145'', Filler fill_slide_type_145),
      (''fill_slide_type_146'', Filler fill_slide_type_146), (''fill_slide_type_147'', Filler fill_slide_type_147),
      (''fill_slide_type_148'', Filler fill_slide_type_148), (''fill_slide_type_149'', Filler fill_slide_type_149),
      (''fill_slide_type_150'', Filler fill_slide_type_150), (''fill_slide_type_151'', Filler fill_slide_type_151),
      (''fill_slide_type_152'', Filler fill_slide_type_152)]"

definition getattr :: "string \<Rightarrow> attr option" where
  "getattr name = map_of fill_methods name"

text \<open>
  The content plan as \<open>json.loads\<close> hands it over: dictionaries in which a key may be
  missing (\<open>None\<close>). Values of another type than the schema gives them are not modelled.
\<close>

record entry =
  slide_index :: "int option"
  slide_title :: "string option"
  slots :: "content option"

record plan =
  presentation_title :: "string option"
  slides :: "entry list option"

text \<open>The constructor: a builder that has no deck open yet.\<close>

definition SlideBuilder :: "builder \<Rightarrow> builder" where
  "SlideBuilder w = w\<lparr>presentation := None, slide := None, shape_cache := Map.empty\<rparr>"

text \<open>\<^verbatim>\<open>[slide["slide_index"]-1 for slide in slides]\<close>\<close>

fun indices :: "entry list \<Rightarrow> error + int list" where
  "indices [] = Inr []"
| "indices (e # es) =
     (case slide_index e of
        None \<Rightarrow> Inl (KeyError ''slide_index'')
      | Some n \<Rightarrow> (case indices es of Inl err \<Rightarrow> Inl err | Inr ns \<Rightarrow> Inr ((n - 1) # ns)))"

text \<open>
  One round of the loop of \<open>_build_slide\<close>, for the entry at position \<open>i\<close> of the plan:
  the method is looked up by name, then the title and the slot map are read, then the
  method is called with the position \<open>i + 2\<close>, and the deck is saved.
\<close>

definition fill_entry :: "nat \<Rightarrow> entry \<Rightarrow> builder \<Rightarrow> builder outcome" where
  "fill_entry i e b =
     (case slide_index e of
        None \<Rightarrow> Raise (KeyError ''slide_index'') b
      | Some n \<Rightarrow>
          (case getattr (''fill_slide_type_'' @ str_int n) of
             None \<Rightarrow> Raise (ValueError (''Unknown Slide Type: '' @ str_int n)) b
           | Some m \<Rightarrow>
               (case slide_title e of
                  None \<Rightarrow> Raise (KeyError ''slide_title'') b
                | Some t \<Rightarrow>
                    (case slots e of
                       None \<Rightarrow> Raise (KeyError ''slots'') b
                     | Some c \<Rightarrow>
                         (case m of
                            TitleFiller g \<Rightarrow> Raise TypeError b
                          | Filler f \<Rightarrow>
                              (case f (int i + 2) t c b of
                                 Raise err b' \<Rightarrow> Raise err b'
                               | Ok b' \<Rightarrow> Ok (save_output b')))))))"

fun fill_loop :: "nat \<Rightarrow> entry list \<Rightarrow> builder \<Rightarrow> builder outcome" where
  "fill_loop i [] b = Ok b"
| "fill_loop i (e # es) b =
     (case fill_entry i e b of
        Raise err b' \<Rightarrow> Raise err b'
      | Ok b' \<Rightarrow> fill_loop (Suc i) es b')"

definition build_slide :: "plan \<Rightarrow> builder \<Rightarrow> builder outcome" where
  "build_slide data w =
     (case presentation_title data of
        None \<Rightarrow> Raise (KeyError ''presentation_title'') w
      | Some title \<Rightarrow>
          (case slides data of
             None \<Rightarrow> Raise (KeyError ''slides'') w
           | Some entries \<Rightarrow>
               (let builder = create_blank (SlideBuilder w)
                in case indices entries of
                     Inl err \<Rightarrow> Raise err builder
                   | Inr slides_to_copy \<Rightarrow>
                       (case copy_slides (0 # slides_to_copy) builder of
                          Raise err b1 \<Rightarrow> Raise err b1
                        | Ok b1 \<Rightarrow>
                            (case fill_slide_type_title title b1 of
                               Raise err b2 \<Rightarrow> Raise err b2
                             | Ok b2 \<Rightarrow>
                                 (case fill_loop 0 entries (save_output b2) of
                                    Raise err b3 \<Rightarrow> Raise err b3
                                  | Ok b3 \<Rightarrow> Ok (quit_powerpoint (close_output b3))))))))"

definition target_item :: "'a builder_scheme \<Rightarrow> string \<Rightarrow> string \<Rightarrow> (nat \<times> nat) option" where
  "target_item f g n =
     (case resolve g f of
        None \<Rightarrow> None
      | Some (j, grp) \<Rightarrow>
          (case GroupItems grp of
             None \<Rightarrow> None
           | Some items \<Rightarrow>
               (case find_item n items of
                  None \<Rightarrow> None
                | Some k \<Rightarrow> if HasTextFrame (items ! k) then Some (j, k) else None)))"

definition put_item_text :: "nat \<Rightarrow> string \<Rightarrow> shape \<Rightarrow> shape" where
  "put_item_text k t grp =
     grp\<lparr>GroupItems := Some ((the (GroupItems grp))[k := (the (GroupItems grp) ! k)\<lparr>Text := t\<rparr>])\<rparr>"

definition writes_on :: "nat \<Rightarrow> event \<Rightarrow> bool" where
  "writes_on s ev =
     (case ev of
        SetText s' j t \<Rightarrow> s' = s
      | SetCell s' j r c t \<Rightarrow> s' = s
      | SetItemText s' j k t \<Rightarrow> s' = s
      | _ \<Rightarrow> False)"

definition locals :: "frame \<Rightarrow> string \<times> string \<times> string \<times> string \<times> string" where
  "locals f = (msg f, info_1 f, info_2 f, info_3 f, info_4 f)"

definition view :: "frame \<Rightarrow> slide \<times> (string \<rightharpoonup> nat) \<times> (string \<times> string \<times> string \<times> string \<times> string)" where
  "view f = (Shapes f, shape_cache f, locals f)"

definition reads_locals :: "expr \<Rightarrow> bool" where
  "reads_locals e = (\<forall>f g. locals f = locals g \<longrightarrow> e f = e g)"

definition sim :: "step \<Rightarrow> bool" where
  "sim st =
     (\<forall>f g. view f = view g \<longrightarrow>
        view (state_of (st f)) = view (state_of (st g)) \<and> raised (st f) = raised (st g))"

text \<open>The open deck with the active slide blanked out.\<close>

definition others :: "'a builder_scheme \<Rightarrow> deck option" where
  "others f =
     (case slide f of
        None \<Rightarrow> presentation f
      | Some s \<Rightarrow> map_option (\<lambda>d. d[s := []]) (presentation f))"

definition new_writes :: "'a builder_scheme \<Rightarrow> 'a builder_scheme \<Rightarrow> bool" where
  "new_writes f f' =
     (\<exists>ws. events f' = events f @ ws \<and>
        (case slide f of None \<Rightarrow> ws = [] | Some s \<Rightarrow> list_all (writes_on s) ws))"

definition framed :: "step \<Rightarrow> bool" where
  "framed st =
     (\<forall>f. slide (state_of (st f)) = slide f \<and> library (state_of (st f)) = library f
        \<and> output_file (state_of (st f)) = output_file f
        \<and> powerpoint (state_of (st f)) = powerpoint f
        \<and> others (state_of (st f)) = others f \<and> new_writes f (state_of (st f)))"

definition local_step :: "step \<Rightarrow> bool" where
  "local_step st = (sim st \<and> framed st)"

text \<open>What a filler makes of a slide that stands alone in a deck.\<close>

definition filled ::
  "(int \<Rightarrow> string \<Rightarrow> content \<Rightarrow> builder \<Rightarrow> builder outcome) \<Rightarrow> string \<Rightarrow> content \<Rightarrow> slide
     \<Rightarrow> slide outcome" where
  "filled f t c sl =
     (case f 1 t c (open_builder [sl]) of
        Ok b \<Rightarrow> Ok (Shapes b)
      | Raise e b \<Rightarrow> Raise e (Shapes b))"

text \<open>
  A filler is local when, called for an existing slide of the open deck, it changes that
  slide only, into what it makes of the slide alone, fails exactly when it fails on the
  slide alone, and leaves the files and the session as they are.
\<close>

definition local_filler :: "(int \<Rightarrow> string \<Rightarrow> content \<Rightarrow> builder \<Rightarrow> builder outcome) \<Rightarrow> bool" where
  "local_filler f =
     (\<forall>index t c b d sl.
        presentation b = Some d \<and> Item d index = Some sl \<longrightarrow>
          raised (f index t c b) = raised (filled f t c sl)
          \<and> presentation (state_of (f index t c b))
              = Some (d[nat (index - 1) := state_of (filled f t c sl)])
          \<and> library (state_of (f index t c b)) = library b
          \<and> output_file (state_of (f index t c b)) = output_file b
          \<and> powerpoint (state_of (f index t c b)) = powerpoint b
          \<and> (\<exists>ws. events (state_of (f index t c b)) = events b @ ws
                 \<and> list_all (writes_on (nat (index - 1))) ws))"

section \<open>The bodies of the fillers as syntax\<close>

text \<open>
  Every slide filler selects its slide, rebuilds the name index and then runs statements
  of five kinds on expressions of five kinds. Here the statements are data, so that a
  property of all fillers can be proved by induction on them.
\<close>

datatype variable = Msg | Info_1 | Info_2 | Info_3 | Info_4

datatype exp = Lit string | Title | Slot string | Local variable | Cat exp exp




primrec set_var :: "variable \<Rightarrow> (string \<Rightarrow> string) \<Rightarrow> frame \<Rightarrow> frame" where
  "set_var Msg = msg_update"
| "set_var Info_1 = info_1_update"
| "set_var Info_2 = info_2_update"
| "set_var Info_3 = info_3_update"
| "set_var Info_4 = info_4_update"






definition item_writes :: "nat \<Rightarrow> nat \<Rightarrow> nat \<Rightarrow> event list \<Rightarrow> string list" where
  "item_writes s j k evs =
     concat (map (\<lambda>ev. case ev of
                          SetItemText s' j' k' t \<Rightarrow> if s' = s \<and> j' = j \<and> k' = k then [t] else []
                        | _ \<Rightarrow> []) evs)"



























































































































text \<open>
  A library of four slides, the last of which is the template of slide type 4, and the
  state before a run: no output file, no session, no deck open.
\<close>

definition small_library :: deck where
  "small_library =
     [[text_shape ''Title 1'' ''Deck title''],
      [text_shape ''Titre 1'' ''Second''],
      [text_shape ''Titre 1'' ''Third''],
      [text_shape ''Titre 1'' ''Slide title'', text_shape ''ZoneTexte 8'' ''Source'',
       text_shape ''ZoneTexte 19'' ''Description'']]"

definition before_run :: "deck \<Rightarrow> builder" where
  "before_run lib =
     \<lparr>library = lib, output_file = None, powerpoint = False, presentation = None,
      slide = None, shape_cache = Map.empty, events = []\<rparr>"


definition unknown_plan :: plan where
  "unknown_plan =
     \<lparr>presentation_title = Some ''Deck'',
      slides = Some [\<lparr>slide_index = Some 9999, slide_title = Some ''Slide'',
                      slots = Some Map.empty\<rparr>]\<rparr>"

definition unfilled_plan :: plan where
  "unfilled_plan =
     \<lparr>presentation_title = Some ''Deck'',
      slides = Some [\<lparr>slide_index = Some 2, slide_title = Some ''Slide'',
                      slots = Some Map.empty\<rparr>]\<rparr>"


section \<open>Properties\<close>

subsection \<open>The shape locator\<close>

lemma matches_snoc:
  "matches name (shapes @ [sh]) =
     matches name shapes @ (if lower (Name sh) = lower name then [length shapes] else [])"
proof -
  have "filter (\<lambda>j. lower (Name ((shapes @ [sh]) ! j)) = lower name) [0 ..< length shapes]
        = filter (\<lambda>j. lower (Name (shapes ! j)) = lower name) [0 ..< length shapes]"
    by (rule filter_cong) (auto simp: nth_append)
  then show ?thesis by (simp add: matches_def)
qed

lemma last_match_snoc:
  "last_match name (shapes @ [sh]) =
     (if lower (Name sh) = lower name then Some (length shapes) else last_match name shapes)"
  by (simp add: last_match_def matches_snoc)

lemma cache_of_snoc:
  "cache_of (shapes @ [sh]) = (cache_of shapes)(lower (Name sh) \<mapsto> length shapes)"
  by (simp add: cache_of_def enumerate_append_eq)

lemma cache_of_last_match: "cache_of shapes (lower name) = last_match name shapes"
proof (induction shapes rule: rev_induct)
  case Nil
  show ?case by (simp add: cache_of_def last_match_def matches_def)
next
  case (snoc sh shapes)
  then show ?case by (simp add: cache_of_snoc last_match_snoc)
qed

lemma get_shape_build_shape_cache:
  "slide b \<noteq> None \<Longrightarrow> get_shape name (build_shape_cache b) = last_match name (Shapes b)"
  using cache_of_last_match [of "Shapes b" name]
  by (auto simp: get_shape_def build_shape_cache_def cache_of_def)

text \<open>
  C3. The claim asks that a name shared by several shapes of a slide resolve to the first
  of them in the host's order, as the lookup among the children of a group does
  (\<open>find_item\<close> stops at the first child that matches). The name index does not: every
  shape is stored under its lower-cased name, so that a later shape takes the entry of an
  earlier one. On a slide whose shapes are "Box" and "box", in this order, the first match
  of "BOX" is position 0, and the same two names as the children of a group resolve to
  child 0; but \<open>_get_shape\<close> returns position 1, and \<open>_set_text\<close> writes the second
  shape and leaves the first as it was.
\<close>

theorem shape_locator_duplicate_names:
  "first_match ''BOX'' (Shapes two_boxes) = Some 0
   \<and> find_item ''BOX''
        [\<lparr>Name = ''Box'', HasTextFrame = True, Text = ''first''\<rparr>,
         \<lparr>Name = ''box'', HasTextFrame = True, Text = ''second''\<rparr>] = Some 0
   \<and> get_shape ''BOX'' (build_shape_cache two_boxes) = Some 1
   \<and> events (set_text ''BOX'' ''new'' (build_shape_cache two_boxes)) = [SetText 0 1 ''new'']
   \<and> map Text (Shapes (set_text ''BOX'' ''new'' (build_shape_cache two_boxes)))
       = [''first'', ''new'']"
  by code_simp

lemma Shapes_emit [simp]: "Shapes (emit ev f) = Shapes f"
  by (simp add: Shapes_def emit_def)

lemma fields_emit [simp]:
  "slide (emit ev f) = slide f" "shape_cache (emit ev f) = shape_cache f"
  "presentation (emit ev f) = presentation f" "events (emit ev f) = events f @ [ev]"
  "library (emit ev f) = library f" "output_file (emit ev f) = output_file f"
  "powerpoint (emit ev f) = powerpoint f"
  by (simp_all add: emit_def)

lemma fields_put_shape [simp]:
  "slide (put_shape j sh f) = slide f" "shape_cache (put_shape j sh f) = shape_cache f"
  "events (put_shape j sh f) = events f"
  "library (put_shape j sh f) = library f" "output_file (put_shape j sh f) = output_file f"
  "powerpoint (put_shape j sh f) = powerpoint f"
  by (simp_all add: put_shape_def split: option.splits)

lemma Shapes_put_shape: "j < length (Shapes f) \<Longrightarrow> Shapes (put_shape j sh f) = (Shapes f)[j := sh]"
  by (auto simp: Shapes_def put_shape_def split: option.splits if_splits)

lemma length_deck_put_shape [simp]:
  "map_option length (presentation (put_shape j sh f)) = map_option length (presentation f)"
  by (simp add: put_shape_def split: option.splits)

lemma resolve_SomeD:
  "resolve n f = Some (j, sh) \<Longrightarrow> get_shape n f = Some j \<and> j < length (Shapes f) \<and> sh = Shapes f ! j"
  by (auto simp: resolve_def py_index_def split: option.splits if_splits)

lemma target_text_SomeD:
  "target_text f n = Some j \<Longrightarrow>
     get_shape n f = Some j \<and> j < length (Shapes f) \<and> HasTextFrame (Shapes f ! j)"
  by (auto simp: target_text_def split: option.splits if_splits dest: resolve_SomeD)

lemma target_cell_SomeD:
  "target_cell f n r c = Some j \<Longrightarrow>
     get_shape n f = Some j \<and> j < length (Shapes f) \<and> HasTable (Shapes f ! j)
     \<and> Cells (Shapes f ! j) (r, c) \<noteq> None"
  by (auto simp: target_cell_def split: option.splits if_splits dest: resolve_SomeD)

lemma set_text_eq:
  "set_text n t f =
     (case target_text f n of
        None \<Rightarrow> f
      | Some j \<Rightarrow> emit (SetText (the (slide f)) j t) (put_shape j ((Shapes f ! j)\<lparr>Text := t\<rparr>) f))"
  by (auto simp: set_text_def target_text_def split: option.splits dest: resolve_SomeD)

lemma set_table_cell_eq:
  "set_table_cell n r c t f =
     (case target_cell f n r c of
        None \<Rightarrow> f
      | Some j \<Rightarrow>
          emit (SetCell (the (slide f)) j r c t)
            (put_shape j ((Shapes f ! j)\<lparr>Cells := (Cells (Shapes f ! j))((r, c) \<mapsto> t)\<rparr>) f))"
  by (auto simp: set_table_cell_def target_cell_def split: option.splits dest: resolve_SomeD)

lemma Shapes_set_text:
  "Shapes (set_text n t f) =
     (case target_text f n of
        None \<Rightarrow> Shapes f
      | Some j \<Rightarrow> (Shapes f)[j := (Shapes f ! j)\<lparr>Text := t\<rparr>])"
  by (auto simp: set_text_eq Shapes_put_shape split: option.splits dest: target_text_SomeD)

lemma Shapes_set_table_cell:
  "Shapes (set_table_cell n r c t f) =
     (case target_cell f n r c of
        None \<Rightarrow> Shapes f
      | Some j \<Rightarrow> (Shapes f)[j := (Shapes f ! j)\<lparr>Cells := (Cells (Shapes f ! j))((r, c) \<mapsto> t)\<rparr>])"
  by (auto simp: set_table_cell_eq Shapes_put_shape split: option.splits dest: target_cell_SomeD)

lemma events_set_text:
  "events (set_text n t f) =
     events f @ (case target_text f n of None \<Rightarrow> [] | Some j \<Rightarrow> [SetText (the (slide f)) j t])"
  by (simp add: set_text_eq split: option.splits)

lemma events_set_table_cell:
  "events (set_table_cell n r c t f) =
     events f @ (case target_cell f n r c of None \<Rightarrow> [] | Some j \<Rightarrow> [SetCell (the (slide f)) j r c t])"
  by (simp add: set_table_cell_eq split: option.splits)

lemma fields_set_text [simp]:
  "slide (set_text n t f) = slide f" "shape_cache (set_text n t f) = shape_cache f"
  "library (set_text n t f) = library f" "output_file (set_text n t f) = output_file f"
  "powerpoint (set_text n t f) = powerpoint f"
  "map_option length (presentation (set_text n t f)) = map_option length (presentation f)"
  by (simp_all add: set_text_eq split: option.splits)

lemma fields_set_table_cell [simp]:
  "slide (set_table_cell n r c t f) = slide f" "shape_cache (set_table_cell n r c t f) = shape_cache f"
  "library (set_table_cell n r c t f) = library f" "output_file (set_table_cell n r c t f) = output_file f"
  "powerpoint (set_table_cell n r c t f) = powerpoint f"
  "map_option length (presentation (set_table_cell n r c t f)) = map_option length (presentation f)"
  by (simp_all add: set_table_cell_eq split: option.splits)

lemma get_shape_set_text [simp]: "get_shape m (set_text n t f) = get_shape m f"
  by (simp add: get_shape_def)

lemma get_shape_set_table_cell [simp]: "get_shape m (set_table_cell n r c t f) = get_shape m f"
  by (simp add: get_shape_def)

lemma shape_set_text:
  "Shapes (set_text n t f) ! j =
     (if target_text f n = Some j then (Shapes f ! j)\<lparr>Text := t\<rparr> else Shapes f ! j)"
  by (auto simp: Shapes_set_text nth_list_update split: option.splits dest: target_text_SomeD)

lemma shape_set_table_cell:
  "Shapes (set_table_cell n r c t f) ! j =
     (if target_cell f n r c = Some j
      then (Shapes f ! j)\<lparr>Cells := (Cells (Shapes f ! j))((r, c) \<mapsto> t)\<rparr> else Shapes f ! j)"
  by (auto simp: Shapes_set_table_cell nth_list_update split: option.splits dest: target_cell_SomeD)

lemma length_Shapes_set_text [simp]: "length (Shapes (set_text n t f)) = length (Shapes f)"
  by (simp add: Shapes_set_text split: option.splits)

lemma length_Shapes_set_table_cell [simp]:
  "length (Shapes (set_table_cell n r c t f)) = length (Shapes f)"
  by (simp add: Shapes_set_table_cell split: option.splits)

lemma resolve_eq:
  "resolve n f =
     (case get_shape n f of
        None \<Rightarrow> None
      | Some j \<Rightarrow> if j < length (Shapes f) then Some (j, Shapes f ! j) else None)"
  by (simp add: resolve_def py_index_def split: option.splits)

lemma target_text_eq:
  "target_text f n =
     (case get_shape n f of
        None \<Rightarrow> None
      | Some j \<Rightarrow> if j < length (Shapes f) \<and> HasTextFrame (Shapes f ! j) then Some j else None)"
  by (simp add: target_text_def resolve_eq split: option.splits)

lemma target_cell_eq:
  "target_cell f n r c =
     (case get_shape n f of
        None \<Rightarrow> None
      | Some j \<Rightarrow>
          if j < length (Shapes f) \<and> HasTable (Shapes f ! j) \<and> Cells (Shapes f ! j) (r, c) \<noteq> None
          then Some j else None)"
  by (auto simp: target_cell_def resolve_eq split: option.splits)

lemma skeleton_set_text [simp]:
  "Name (Shapes (set_text n t f) ! j) = Name (Shapes f ! j)"
  "HasTextFrame (Shapes (set_text n t f) ! j) = HasTextFrame (Shapes f ! j)"
  "HasTable (Shapes (set_text n t f) ! j) = HasTable (Shapes f ! j)"
  "Cells (Shapes (set_text n t f) ! j) = Cells (Shapes f ! j)"
  "GroupItems (Shapes (set_text n t f) ! j) = GroupItems (Shapes f ! j)"
  by (simp_all add: shape_set_text)

lemma skeleton_set_table_cell [simp]:
  "Name (Shapes (set_table_cell n r c t f) ! j) = Name (Shapes f ! j)"
  "HasTextFrame (Shapes (set_table_cell n r c t f) ! j) = HasTextFrame (Shapes f ! j)"
  "HasTable (Shapes (set_table_cell n r c t f) ! j) = HasTable (Shapes f ! j)"
  "Text (Shapes (set_table_cell n r c t f) ! j) = Text (Shapes f ! j)"
  "GroupItems (Shapes (set_table_cell n r c t f) ! j) = GroupItems (Shapes f ! j)"
  by (simp_all add: shape_set_table_cell)

lemma cell_set_table_cell:
  "Cells (Shapes (set_table_cell n r c t f) ! j) rc =
     (if target_cell f n r c = Some j \<and> rc = (r, c) then Some t else Cells (Shapes f ! j) rc)"
  by (simp add: shape_set_table_cell)

lemma cell_exists_set_table_cell [simp]:
  "(Cells (Shapes (set_table_cell n r c t f) ! j) rc = None) = (Cells (Shapes f ! j) rc = None)"
  by (auto simp: cell_set_table_cell dest: target_cell_SomeD)


lemma target_text_set_text [simp]: "target_text (set_text m t f) n = target_text f n"
  by (simp add: target_text_eq cong: option.case_cong)

lemma target_text_set_table_cell [simp]: "target_text (set_table_cell m r c t f) n = target_text f n"
  by (simp add: target_text_eq cong: option.case_cong)

lemma target_cell_set_text [simp]: "target_cell (set_text m t f) n r c = target_cell f n r c"
  by (simp add: target_cell_eq cong: option.case_cong)

lemma target_cell_set_table_cell [simp]:
  "target_cell (set_table_cell m r' c' t f) n r c = target_cell f n r c"
  by (simp add: target_cell_eq cong: option.case_cong)

lemma run_append:
  "run (xs @ ys) f = (case run xs f of Ok f' \<Rightarrow> run ys f' | Raise e f' \<Rightarrow> Raise e f')"
  by (induction xs arbitrary: f) (auto split: outcome.splits)

lemma last_match_less: "last_match n sl = Some j \<Longrightarrow> j < length sl"
proof -
  assume a: "last_match n sl = Some j"
  then have "j \<in> set (matches n sl)"
    by (auto simp: last_match_def split: list.splits)
  then show ?thesis by (simp add: matches_def)
qed

lemma last_match_name: "last_match n sl = Some j \<Longrightarrow> lower (Name (sl ! j)) = lower n"
proof -
  assume a: "last_match n sl = Some j"
  then have "j \<in> set (matches n sl)"
    by (auto simp: last_match_def split: list.splits)
  then show ?thesis by (simp add: matches_def)
qed

lemma select_slide_enter:
  "presentation b = Some d \<Longrightarrow> Item d index = Some sl \<Longrightarrow>
     run (select_slide index # call build_shape_cache # rest) (enter b) = run rest (opened b index)"
  by (simp add: select_slide_def enter_def call_def opened_def)

lemma Item_SomeD: "Item d index = Some sl \<Longrightarrow> nat (index - 1) < length d \<and> d ! nat (index - 1) = sl"
  by (auto simp: Item_def split: if_splits)

lemma opened_fields:
  assumes "presentation b = Some d" "Item d index = Some sl"
  shows "Shapes (opened b index) = sl"
    and "slide (opened b index) = Some (nat (index - 1))"
    and "presentation (opened b index) = Some d"
    and "events (opened b index) = events b"
    and "get_shape n (opened b index) = last_match n sl"
proof -
  let ?f = "(enter b)\<lparr>slide := Some (nat (index - 1))\<rparr>"
  from assms have S: "Shapes ?f = sl"
    by (auto simp: Shapes_def enter_def dest: Item_SomeD)
  show "Shapes (opened b index) = sl"
    using S by (simp add: opened_def build_shape_cache_def Shapes_def)
  show "slide (opened b index) = Some (nat (index - 1))"
    by (simp add: opened_def build_shape_cache_def)
  show "presentation (opened b index) = Some d"
    using assms by (simp add: opened_def build_shape_cache_def enter_def)
  show "events (opened b index) = events b"
    by (simp add: opened_def build_shape_cache_def enter_def)
  show "get_shape n (opened b index) = last_match n sl"
    using get_shape_build_shape_cache [of ?f n] S by (simp add: opened_def)
qed

lemma opened_targets:
  assumes "presentation b = Some d" "Item d index = Some sl"
  shows "target_text (opened b index) n = text_target n sl"
    and "target_cell (opened b index) n r c = cell_target n r c sl"
  using opened_fields [OF assms]
  by (auto simp: target_text_eq target_cell_eq text_target_def cell_target_def
      split: option.splits dest: last_match_less)

lemma body_of_simps:
  "raised (body_of body b) = raised (run body (enter b))"
  "state_of (body_of body b) = leave (state_of (run body (enter b)))"
  by (simp_all add: body_of_def split: outcome.splits)

lemma raised_run_Cons:
  "raised (run (st # sts) f) =
     (case raised (st f) of Some e \<Rightarrow> Some e | None \<Rightarrow> raised (run sts (state_of (st f))))"
  by (simp split: outcome.splits)

lemma state_of_run_Cons:
  "state_of (run (st # sts) f) =
     (case raised (st f) of Some e \<Rightarrow> state_of (st f) | None \<Rightarrow> state_of (run sts (state_of (st f))))"
  by (simp split: outcome.splits)

lemma call_Ok: "call m f = Ok (m f)"
  by (simp add: call_def)

lemma call1_lit: "call1 m (lit s) f = Ok (m s f)"
  by (simp add: call1_def lit_def)

lemma call1_local_var: "call1 m (local_var v) f = Ok (m (v f) f)"
  by (simp add: call1_def local_var_def)

lemma if_in_call1_slot:
  "if_in content [k] [call1 m (slot content k)] f =
     Ok (case content k of None \<Rightarrow> f | Some v \<Rightarrow> m v f)"
  by (simp add: if_in_def call1_def slot_def split: option.splits)

lemma set_text_at_Ok:
  "i < length zones \<Longrightarrow> i < length points \<Longrightarrow>
     set_text_at zones points i f = Ok (set_text (zones ! i) (points ! i) f)"
  by (simp add: set_text_at_def py_index_def)

lemma run_set_text_at_Ok:
  "\<forall>i \<in> set ks. i < length zones \<and> i < length points \<Longrightarrow>
     \<exists>f'. run (map (set_text_at zones points) ks) f = Ok f'"
  by (induction ks arbitrary: f) (auto simp: set_text_at_Ok)

lemma for_range_overflow:
  assumes "length zones < n" "n \<le> length points"
  shows "raised (for_range n (set_text_at zones points) f) = Some IndexError"
proof -
  let ?k = "length zones"
  have split: "[0 ..< n] = [0 ..< ?k] @ ?k # [Suc ?k ..< n]"
  proof -
    have "[0 ..< n] = [0 ..< ?k] @ [?k ..< n]"
      using assms upt_add_eq_append [of 0 ?k "n - ?k"] by simp
    moreover have "[?k ..< n] = ?k # [Suc ?k ..< n]"
      using assms by (simp add: upt_conv_Cons)
    ultimately show ?thesis by simp
  qed
  obtain f' where ok: "run (map (set_text_at zones points) [0 ..< ?k]) f = Ok f'"
    using run_set_text_at_Ok [of "[0 ..< ?k]" zones points f] assms by auto
  have "set_text_at zones points ?k f' = Raise IndexError f'"
    by (simp add: set_text_at_def py_index_def)
  then show ?thesis
    by (simp add: for_range_def split run_append ok)
qed

lemma run_single: "run [st] f = st f"
  by (simp split: outcome.splits)

lemma fan_out_overflow:
  assumes "content k = Some v" "length zones < length (splitlines v)"
  shows "raised (if_in content [k] [fan_out zones (slot content k)] f) = Some IndexError"
  using assms for_range_overflow [of zones "length (splitlines v)" "splitlines v" f]
  by (simp add: if_in_def fan_out_def slot_def Let_def run_single del: run.simps)

text \<open>
  C8. In \<open>fill_slide_type_69\<close>, a \<open>detail_1\<close> value with more lines than the five zones
  makes the fan-out loop read \<open>zones[5]\<close>: the filler ends with IndexError, it does not
  clip the extra lines.
\<close>

theorem fan_out_overflow_raises:
  assumes "presentation b = Some d" and "Item d index = Some sl"
    and "content ''detail_1'' = Some v" and "5 < length (splitlines v)"
  shows "raised (fill_slide_type_69 index title content b) = Some IndexError"
proof -
  have "raised (if_in content [''detail_1'']
          [fan_out [''ZoneTexte 77'', ''ZoneTexte 78'', ''ZoneTexte 80'', ''ZoneTexte 86'',
                    ''ZoneTexte 86-2''] (slot content ''detail_1'')] f) = Some IndexError" for f
    using assms(3,4) by (intro fan_out_overflow) auto
  then show ?thesis
    unfolding fill_slide_type_69_def body_of_simps select_slide_enter [OF assms(1,2)]
    by (simp only: raised_run_Cons call1_lit if_in_call1_slot raised.simps state_of.simps
        option.case)
qed

theorem fan_out_overflow_raises_witness:
  "presentation six_lines_builder = Some [[text_shape ''Title 5'' ''t'']]
   \<and> Item [[text_shape ''Title 5'' ''t'']] 1 = Some [text_shape ''Title 5'' ''t'']
   \<and> six_lines ''detail_1'' = Some ''A\<newline>B\<newline>C\<newline>D\<newline>E\<newline>F''
   \<and> 5 < length (splitlines ''A\<newline>B\<newline>C\<newline>D\<newline>E\<newline>F'')
   \<and> raised (fill_slide_type_69 1 ''T'' six_lines six_lines_builder) = Some IndexError"
proof -
  have h1: "presentation six_lines_builder = Some [[text_shape ''Title 5'' ''t'']]"
    by (simp add: six_lines_builder_def open_builder_def)
  have h2: "Item [[text_shape ''Title 5'' ''t'']] 1 = Some [text_shape ''Title 5'' ''t'']"
    by (simp add: Item_def)
  have h3: "six_lines ''detail_1'' = Some ''A\<newline>B\<newline>C\<newline>D\<newline>E\<newline>F''"
    by (simp add: six_lines_def)
  have h4: "5 < length (splitlines ''A\<newline>B\<newline>C\<newline>D\<newline>E\<newline>F'')"
    by code_simp
  from fan_out_overflow_raises
         [where content = six_lines and b = six_lines_builder and title = "''T''", OF h1 h2 h3 h4]
       h1 h2 h3 h4
  show ?thesis by simp
qed

lemma preserves_run: "list_all (preserves obs) sts \<Longrightarrow> preserves obs (run sts)"
proof (induction sts)
  case Nil
  show ?case by (simp add: preserves_def)
next
  case (Cons st sts)
  then have a: "\<And>f. obs (state_of (st f)) = obs f" and b: "\<And>f. obs (state_of (run sts f)) = obs f"
    by (simp_all add: preserves_def)
  show ?case
    unfolding preserves_def
  proof
    fix f
    show "obs (state_of (run (st # sts) f)) = obs f"
      using a [of f] b [of "state_of (st f)"] by (cases "st f") simp_all
  qed
qed

lemma preserves_if_in: "list_all (preserves obs) body \<Longrightarrow> preserves obs (if_in content ks body)"
  using preserves_run [of obs body] by (simp add: preserves_def if_in_def)

lemma preserves_call: "(\<And>f. obs (m f) = obs f) \<Longrightarrow> preserves obs (call m)"
  by (simp add: preserves_def call_def)

lemma preserves_call1: "(\<And>v f. obs (m v f) = obs f) \<Longrightarrow> preserves obs (call1 m e)"
  by (simp add: preserves_def call1_def split: sum.splits)

lemma preserves_assign: "(\<And>g f. obs (upd g f) = obs f) \<Longrightarrow> preserves obs (assign upd e)"
  by (simp add: preserves_def assign_def split: sum.splits)

lemma preserves_aug: "(\<And>g f. obs (upd g f) = obs f) \<Longrightarrow> preserves obs (aug sel upd e)"
  by (simp add: preserves_def aug_def Let_def split: sum.splits)

lemma preserves_for_range: "(\<And>i. preserves obs (body i)) \<Longrightarrow> preserves obs (for_range n body)"
  unfolding for_range_def by (rule preserves_run) (simp add: list_all_iff)

lemma preserves_set_text_at:
  "(\<And>z p f. z \<in> set zones \<Longrightarrow> obs (set_text z p f) = obs f) \<Longrightarrow>
     preserves obs (set_text_at zones points i)"
  by (auto simp: preserves_def set_text_at_def py_index_def split: option.splits)

lemma preserves_fan_out:
  "(\<And>z p f. z \<in> set zones \<Longrightarrow> obs (set_text z p f) = obs f) \<Longrightarrow>
     preserves obs (fan_out zones e)"
  using preserves_for_range [of obs "set_text_at zones points" for points, OF preserves_set_text_at]
  by (auto simp: preserves_def fan_out_def Let_def split: sum.splits)

lemma cell_writes_append [simp]:
  "cell_writes s j r c (xs @ ys) = cell_writes s j r c xs @ cell_writes s j r c ys"
  by (simp add: cell_writes_def)

lemma text_writes_append [simp]:
  "text_writes s j (xs @ ys) = text_writes s j xs @ text_writes s j ys"
  by (simp add: text_writes_def)

lemma Shapes_slide: "j < length (Shapes f) \<Longrightarrow> \<exists>s. slide f = Some s"
  by (auto simp: Shapes_def split: option.splits)

lemma target_slide:
  "target_text f n = Some j \<Longrightarrow> \<exists>s. slide f = Some s"
  "target_cell f n r c = Some j \<Longrightarrow> \<exists>s. slide f = Some s"
  by (auto dest!: target_text_SomeD target_cell_SomeD dest: Shapes_slide)

lemma cell_writes_set_text [simp]:
  "cell_writes s j r c (events (set_text n t f)) = cell_writes s j r c (events f)"
  by (auto simp: events_set_text cell_writes_def split: option.splits)

lemma text_writes_set_table_cell [simp]:
  "text_writes s j (events (set_table_cell n r c t f)) = text_writes s j (events f)"
  by (auto simp: events_set_table_cell text_writes_def split: option.splits)

lemma text_writes_set_text:
  "text_writes s j (events (set_text n t f)) =
     text_writes s j (events f) @
     (if target_text f n = Some j \<and> slide f = Some s then [t] else [])"
proof (cases "target_text f n")
  case None
  then show ?thesis by (simp add: events_set_text text_writes_def)
next
  case (Some k)
  with target_slide(1) [OF Some] show ?thesis
    by (auto simp: events_set_text text_writes_def)
qed

lemma cell_writes_set_table_cell:
  "cell_writes s j r' c' (events (set_table_cell n r c t f)) =
     cell_writes s j r' c' (events f) @
     (if target_cell f n r c = Some j \<and> slide f = Some s \<and> r' = r \<and> c' = c then [t] else [])"
proof (cases "target_cell f n r c")
  case None
  then show ?thesis by (simp add: events_set_table_cell cell_writes_def)
next
  case (Some k)
  with target_slide(2) [OF Some] show ?thesis
    by (auto simp: events_set_table_cell cell_writes_def)
qed

lemma never_raises_run: "list_all never_raises sts \<Longrightarrow> never_raises (run sts)"
proof (induction sts)
  case Nil
  show ?case by (simp add: never_raises_def)
next
  case (Cons st sts)
  then have a: "\<And>f. raised (st f) = None" and b: "\<And>f. raised (run sts f) = None"
    by (simp_all add: never_raises_def)
  show ?case
    unfolding never_raises_def
  proof
    fix f
    show "raised (run (st # sts) f) = None"
      using a [of f] b by (cases "st f") simp_all
  qed
qed

lemma never_raises_if_in:
  "(list_all (\<lambda>k. content k \<noteq> None) ks \<Longrightarrow> list_all never_raises body) \<Longrightarrow>
     never_raises (if_in content ks body)"
  using never_raises_run [of body] by (auto simp: never_raises_def if_in_def)

lemma never_raises_call: "never_raises (call m)"
  by (simp add: never_raises_def call_def)

lemma never_raises_call1: "evaluates e \<Longrightarrow> never_raises (call1 m e)"
  by (auto simp: never_raises_def evaluates_def call1_def split: sum.splits) (metis sum.distinct(1))

lemma never_raises_assign: "evaluates e \<Longrightarrow> never_raises (assign upd e)"
  by (auto simp: never_raises_def evaluates_def assign_def split: sum.splits) (metis sum.distinct(1))

lemma never_raises_aug: "evaluates e \<Longrightarrow> never_raises (aug sel upd e)"
  by (auto simp: never_raises_def evaluates_def aug_def Let_def split: sum.splits) (metis sum.distinct(1))

lemma evaluates_lit: "evaluates (lit s)"
  by (simp add: evaluates_def lit_def)

lemma evaluates_local_var: "evaluates (local_var v)"
  by (simp add: evaluates_def local_var_def)

lemma evaluates_slot: "content k \<noteq> None \<Longrightarrow> evaluates (slot content k)"
  by (auto simp: evaluates_def slot_def)

lemma evaluates_cat: "evaluates a \<Longrightarrow> evaluates b \<Longrightarrow> evaluates (cat a b)"
  by (auto simp: evaluates_def cat_def split: sum.splits) (metis sum.distinct(1))+

lemmas no_raise_intros =
  never_raises_run never_raises_if_in never_raises_call never_raises_call1 never_raises_assign never_raises_aug
  evaluates_lit evaluates_local_var evaluates_slot evaluates_cat

lemma locals_obs [simp]:
  "Shapes (msg_update h f) = Shapes f"
  "get_shape n (msg_update h f) = get_shape n f"
  "target_text (msg_update h f) n = target_text f n"
  "target_cell (msg_update h f) n r c = target_cell f n r c"
  by (simp_all add: target_text_eq target_cell_eq get_shape_def Shapes_def cong: option.case_cong)

lemma leave_obs [simp]:
  "Shapes (leave f) = Shapes f" "events (leave f) = events f"
  "presentation (leave f) = presentation f" "slide (leave f) = slide f"
  "library (leave f) = library f" "output_file (leave f) = output_file f"
  "powerpoint (leave f) = powerpoint f" "shape_cache (leave f) = shape_cache f"
  by (simp_all add: leave_def Shapes_def)

text \<open>
  C6. With \<open>idea_1\<close> and \<open>description_1\<close> in the slot map, \<open>fill_slide_type_107\<close>
  completes and assigns to cell (2, 1) of the table named "Tableau 18" exactly once, the
  text being "1. ", the idea, one newline and the description, with nothing behind it;
  that text is what the cell holds afterwards. For "Reduce cost" and "via automation" this
  is "1. Reduce cost", a newline, "via automation".
\<close>

theorem numbered_prefix_107:
  assumes "presentation b = Some d" and "Item d index = Some sl"
    and "content ''idea_1'' = Some idea" and "content ''description_1'' = Some descr"
    and "cell_target ''Tableau 18'' 2 1 sl = Some j"
  shows "raised (fill_slide_type_107 index title content b) = None
     \<and> cell_writes (nat (index - 1)) j 2 1 (events (state_of (fill_slide_type_107 index title content b)))
         = cell_writes (nat (index - 1)) j 2 1 (events b) @ [''1. '' @ idea @ ''\<newline>'' @ descr]
     \<and> Cells (Shapes (state_of (fill_slide_type_107 index title content b)) ! j) (2, 1)
         = Some (''1. '' @ idea @ ''\<newline>'' @ descr)"
proof -
  let ?text = "''1. '' @ idea @ ''\<newline>'' @ descr"
  let ?s = "nat (index - 1)"
  let ?f1 = "opened b index"
  let ?pre = "[call1 (set_text ''Titre 1'') (lit title),
      assign msg_update (lit []),
      if_in content [''idea_1'']
        [aug msg msg_update (cat (cat (lit ''1. '') (slot content ''idea_1'')) (lit ''\<newline>''))],
      if_in content [''description_1''] [aug msg msg_update (slot content ''description_1'')],
      call1 (set_table_cell ''Tableau 18'' 2 1) (local_var msg)]"
  let ?suf = "[assign msg_update (lit []),
      if_in content [''idea_2'']
        [aug msg msg_update (cat (cat (lit ''2. '') (slot content ''idea_2'')) (lit ''\<newline>''))],
      if_in content [''description_2''] [aug msg msg_update (slot content ''description_2'')],
      call1 (set_table_cell ''Tableau 18'' 3 1) (local_var msg),
      if_in content [''pro_1''] [call1 (set_table_cell ''Tableau 18'' 2 2) (slot content ''pro_1'')],
      if_in content [''con_1''] [call1 (set_table_cell ''Tableau 18'' 2 3) (slot content ''con_1'')],
      if_in content [''pro_2''] [call1 (set_table_cell ''Tableau 18'' 3 2) (slot content ''pro_2'')],
      if_in content [''con_2''] [call1 (set_table_cell ''Tableau 18'' 3 3) (slot content ''con_2'')]]"
  let ?g = "(set_text ''Titre 1'' title ?f1)\<lparr>msg := ?text\<rparr>"
  let ?f7 = "set_table_cell ''Tableau 18'' 2 1 ?text ?g"
  note of = opened_fields [OF assms(1,2)] opened_targets [OF assms(1,2)]
  have pre: "run ?pre ?f1 = Ok ?f7"
    using assms(3,4)
    by (simp add: call1_def lit_def assign_def if_in_def aug_def cat_def slot_def local_var_def)
  have tg: "target_cell ?g ''Tableau 18'' 2 1 = Some j"
    using assms(5) of by simp
  have sg: "slide ?g = Some ?s"
    using of by simp
  have ev7: "cell_writes ?s j 2 1 (events ?f7) = cell_writes ?s j 2 1 (events b) @ [?text]"
    using tg sg of by (simp add: cell_writes_set_table_cell)
  have c7: "Cells (Shapes ?f7 ! j) (2, 1) = Some ?text"
    using tg by (simp add: cell_set_table_cell)
  have p1: "preserves (\<lambda>f. cell_writes ?s j 2 1 (events f)) (run ?suf)"
    by (intro preserves_run)
      (simp add: preserves_if_in preserves_call1 preserves_assign preserves_aug
        cell_writes_set_table_cell)
  have p2: "preserves (\<lambda>f. Cells (Shapes f ! j) (2, 1)) (run ?suf)"
    by (intro preserves_run)
      (simp add: preserves_if_in preserves_call1 preserves_assign preserves_aug
        cell_set_table_cell)
  have tot: "never_raises (run (?pre @ ?suf))"
    by (intro never_raises_run) (auto intro!: no_raise_intros)
  have run: "run (select_slide index # call build_shape_cache # ?pre @ ?suf) (enter b)
      = run ?suf ?f7"
    unfolding select_slide_enter [OF assms(1,2)] run_append pre by simp
  have eq: "fill_slide_type_107 index title content =
      body_of (select_slide index # call build_shape_cache # ?pre @ ?suf)"
    by (simp add: fill_slide_type_107_def)
  have r: "raised (fill_slide_type_107 index title content b) = None"
    using tot unfolding eq body_of_simps select_slide_enter [OF assms(1,2)]
    by (simp add: never_raises_def)
  show ?thesis
    using r p1 p2 ev7 c7 unfolding eq body_of_simps run
    by (simp add: preserves_def)
qed

theorem numbered_prefix_107_witness:
  "presentation (open_builder [ideas_slide]) = Some [ideas_slide]
   \<and> Item [ideas_slide] 1 = Some ideas_slide
   \<and> reduce_cost ''idea_1'' = Some ''Reduce cost''
   \<and> reduce_cost ''description_1'' = Some ''via automation''
   \<and> cell_target ''Tableau 18'' 2 1 ideas_slide = Some 1
   \<and> raised (fill_slide_type_107 1 ''T'' reduce_cost (open_builder [ideas_slide])) = None
   \<and> cell_writes 0 1 2 1
        (events (state_of (fill_slide_type_107 1 ''T'' reduce_cost (open_builder [ideas_slide]))))
       = [''1. Reduce cost\<newline>via automation'']
   \<and> Cells (Shapes (state_of (fill_slide_type_107 1 ''T'' reduce_cost (open_builder [ideas_slide]))) ! 1)
        (2, 1) = Some ''1. Reduce cost\<newline>via automation''"
proof -
  have h1: "presentation (open_builder [ideas_slide]) = Some [ideas_slide]"
    by (simp add: open_builder_def)
  have h2: "Item [ideas_slide] 1 = Some ideas_slide"
    by (simp add: Item_def)
  have h3: "reduce_cost ''idea_1'' = Some ''Reduce cost''"
    by (simp add: reduce_cost_def)
  have h4: "reduce_cost ''description_1'' = Some ''via automation''"
    by (simp add: reduce_cost_def)
  have h5: "cell_target ''Tableau 18'' 2 1 ideas_slide = Some 1"
    by code_simp
  have e: "events (open_builder [ideas_slide]) = []"
    by (simp add: open_builder_def)
  from numbered_prefix_107
         [where content = reduce_cost and b = "open_builder [ideas_slide]" and title = "''T''",
          OF h1 h2 h3 h4 h5]
       h1 h2 h3 h4 h5 e
  show ?thesis by (simp add: cell_writes_def)
qed

lemma preserves_if_in_absent:
  "\<not> list_all (\<lambda>k. content k \<noteq> None) ks \<Longrightarrow> preserves obs (if_in content ks body)"
  by (simp add: preserves_def if_in_def)





lemma locals_fields [simp]:
  "slide (msg_update h f) = slide f" "events (msg_update h f) = events f"
  by simp_all

lemma text_target_inj:
  assumes "text_target n sl = Some j" "lower n' \<noteq> lower n"
  shows "text_target n' sl \<noteq> Some j"
  using assms last_match_name [of n sl j] last_match_name [of n' sl j]
  by (auto simp: text_target_def split: option.splits if_splits)

lemma cell_target_same_shape:
  "cell_target n r c sl = Some j \<Longrightarrow> cell_target n r' c' sl = Some j' \<Longrightarrow> j' = j"
  by (auto simp: cell_target_def split: option.splits if_splits)





lemma keeps_apply: "keeps I obs st \<Longrightarrow> I f \<Longrightarrow> I (state_of (st f)) \<and> obs (state_of (st f)) = obs f"
  by (simp add: keeps_def)

lemma keeps_run: "list_all (keeps I obs) sts \<Longrightarrow> keeps I obs (run sts)"
proof (induction sts)
  case Nil
  show ?case by (simp add: keeps_def)
next
  case (Cons st sts)
  then have a: "\<And>f. I f \<Longrightarrow> I (state_of (st f)) \<and> obs (state_of (st f)) = obs f"
    and b: "\<And>f. I f \<Longrightarrow> I (state_of (run sts f)) \<and> obs (state_of (run sts f)) = obs f"
    by (simp_all add: keeps_def)
  show ?case
    unfolding keeps_def
  proof (intro allI impI)
    fix f assume "I f"
    then show "I (state_of (run (st # sts) f)) \<and> obs (state_of (run (st # sts) f)) = obs f"
      using a [of f] b [of "state_of (st f)"] by (cases "st f") simp_all
  qed
qed

lemma keeps_if_in: "list_all (keeps I obs) body \<Longrightarrow> keeps I obs (if_in content ks body)"
  using keeps_run [of I obs body] by (simp add: keeps_def if_in_def)

lemma keeps_call1:
  "(\<And>v f. I f \<Longrightarrow> I (m v f) \<and> obs (m v f) = obs f) \<Longrightarrow> keeps I obs (call1 m e)"
  by (simp add: keeps_def call1_def split: sum.splits)

lemma keeps_set_text_at:
  "(\<And>z p f. z \<in> set zones \<Longrightarrow> I f \<Longrightarrow> I (set_text z p f) \<and> obs (set_text z p f) = obs f) \<Longrightarrow>
     keeps I obs (set_text_at zones points i)"
  by (auto simp: keeps_def set_text_at_def py_index_def split: option.splits)

lemma keeps_fan_out:
  assumes "\<And>z p f. z \<in> set zones \<Longrightarrow> I f \<Longrightarrow> I (set_text z p f) \<and> obs (set_text z p f) = obs f"
  shows "keeps I obs (fan_out zones e)"
proof -
  have "keeps I obs (for_range n (set_text_at zones points))" for n points
    unfolding for_range_def
    by (rule keeps_run) (simp add: list_all_iff keeps_set_text_at [OF assms])
  then show ?thesis
    by (auto simp: keeps_def fan_out_def Let_def split: sum.splits)
qed

lemma for_range_Ok:
  "k \<le> length zones \<Longrightarrow> k \<le> length points \<Longrightarrow>
     for_range k (set_text_at zones points) f
       = Ok (rounds zones points k f)"
proof (induction k)
  case 0
  show ?case by (simp add: for_range_def rounds_def)
next
  case (Suc k)
  then show ?case
    by (simp add: for_range_def rounds_def run_append set_text_at_Ok run_single del: run.simps)
qed

lemma fold_set_text_writes:
  assumes I: "\<And>n. target_text f n = text_target n sl" "slide f = Some s"
    and d: "distinct (map lower zones)"
    and i: "i < length zones" "text_target (zones ! i) sl = Some j"
    and k: "k \<le> length zones"
  shows "(\<forall>n. target_text (rounds zones points k f) n = text_target n sl)
     \<and> slide (rounds zones points k f) = Some s
     \<and> text_writes s j (events (rounds zones points k f))
         = text_writes s j (events f) @ (if i < k then [points ! i] else [])
     \<and> (if i < k then Text (Shapes (rounds zones points k f) ! j) = points ! i
         else Shapes (rounds zones points k f) ! j = Shapes f ! j)"
  using k
proof (induction k)
  case 0
  show ?case using I by (simp add: rounds_def)
next
  case (Suc k)
  let ?W = "rounds zones points k f"
  from Suc have IH: "(\<forall>n. target_text ?W n = text_target n sl)" "slide ?W = Some s"
    "text_writes s j (events ?W) = text_writes s j (events f) @ (if i < k then [points ! i] else [])"
    "if i < k then Text (Shapes ?W ! j) = points ! i else Shapes ?W ! j = Shapes f ! j"
    by simp_all
  have hit: "text_target (zones ! k) sl = Some j \<longleftrightarrow> k = i"
  proof
    assume a: "text_target (zones ! k) sl = Some j"
    show "k = i"
    proof (rule ccontr)
      assume "k \<noteq> i"
      with d i(1) Suc.prems have "lower (zones ! k) \<noteq> lower (zones ! i)"
        by (simp add: distinct_conv_nth)
      from text_target_inj [OF i(2) this] a show False by simp
    qed
  next
    assume "k = i" with i(2) show "text_target (zones ! k) sl = Some j" by simp
  qed
  have step: "rounds zones points (Suc k) f = set_text (zones ! k) (points ! k) ?W"
    by (simp add: rounds_def)
  show ?case
    unfolding step using IH hit
    by (auto simp: text_writes_set_text shape_set_text)
qed

lemma never_raises_Ok: "never_raises st \<Longrightarrow> st f = Ok (state_of (st f))"
  by (cases "st f") (auto simp: never_raises_def dest: spec [of _ f])

lemma lower_names_69:
  "map lower detail_1_zones =
     [''zonetexte 77'', ''zonetexte 78'', ''zonetexte 80'', ''zonetexte 86'', ''zonetexte 86-2'']"
  "map lower detail_2_zones =
     [''zonetexte 47'', ''zonetexte 48'', ''zonetexte 49'', ''zonetexte 50'', ''zonetexte 50-2'']"
  "lower ''Title 5'' = ''title 5''"
  "lower ''ZoneTexte 71'' = ''zonetexte 71''"
  "lower ''ZoneTexte 72'' = ''zonetexte 72''"
  by code_simp+

lemma other_names_69:
  assumes "i < 5"
    and "n \<in> {''Title 5'', ''ZoneTexte 71'', ''ZoneTexte 72''} \<union> set detail_2_zones"
  shows "lower n \<noteq> lower (detail_1_zones ! i)"
proof -
  have "i < length detail_1_zones"
    using assms(1) by (simp add: detail_1_zones_def)
  then have l1: "lower (detail_1_zones ! i) = map lower detail_1_zones ! i"
    by (rule nth_map [symmetric])
  have l2: "n \<in> set detail_2_zones \<Longrightarrow> lower n \<in> set (map lower detail_2_zones)"
    by simp
  from assms(1) have "i = 0 \<or> i = 1 \<or> i = 2 \<or> i = 3 \<or> i = 4"
    by arith
  with assms(2) l2 show ?thesis
    unfolding l1 lower_names_69 by (auto simp: lower_names_69)
qed

lemma fan_out_Ok:
  assumes "content k = Some v" "length (splitlines v) \<le> length zones"
  shows "if_in content [k] [fan_out zones (slot content k)] f
     = Ok (rounds zones (splitlines v) (length (splitlines v)) f)"
  using assms
  by (simp add: if_in_def fan_out_def slot_def Let_def run_single for_range_Ok del: run.simps)

lemma fill_69_zone:
  assumes o: "presentation b = Some d" "Item d index = Some sl"
    and v: "content ''detail_1'' = Some v" "length (splitlines v) \<le> 5"
    and i: "i < 5" "text_target (detail_1_zones ! i) sl = Some j"
    and b': "b' = state_of (fill_slide_type_69 index title content b)"
  shows "text_writes (nat (index - 1)) j (events b')
           = text_writes (nat (index - 1)) j (events b)
             @ (if i < length (splitlines v) then [splitlines v ! i] else [])"
    and "if i < length (splitlines v) then Text (Shapes b' ! j) = splitlines v ! i
         else Shapes b' ! j = sl ! j"
    and "(\<forall>w. content ''detail_2'' = Some w \<longrightarrow> length (splitlines w) \<le> 5) \<Longrightarrow>
           raised (fill_slide_type_69 index title content b) = None"
proof -
  let ?s = "nat (index - 1)"
  let ?f1 = "opened b index"
  let ?I = "\<lambda>f. (\<forall>n. target_text f n = text_target n sl) \<and> slide f = Some ?s"
  let ?obs = "\<lambda>f. (text_writes ?s j (events f), Shapes f ! j)"
  let ?points = "splitlines v"
  define A where "A =
     [call1 (set_text ''Title 5'') (lit title),
      if_in content [''pro''] [call1 (set_text ''ZoneTexte 71'') (slot content ''pro'')],
      if_in content [''con''] [call1 (set_text ''ZoneTexte 72'') (slot content ''con'')]]"
  define D1 where "D1 = if_in content [''detail_1''] [fan_out detail_1_zones (slot content ''detail_1'')]"
  define D2 where "D2 = if_in content [''detail_2''] [fan_out detail_2_zones (slot content ''detail_2'')]"
  note of = opened_fields [OF o] opened_targets [OF o]
  have other: "?I (set_text n t f) \<and> ?obs (set_text n t f) = ?obs f"
    if "n \<in> {''Title 5'', ''ZoneTexte 71'', ''ZoneTexte 72''} \<union> set detail_2_zones" "?I f"
    for n t and f :: frame
  proof -
    have "text_target n sl \<noteq> Some j"
      using text_target_inj [OF i(2) other_names_69 [OF i(1) that(1)]] .
    with that(2) show ?thesis
      by (simp add: text_writes_set_text shape_set_text)
  qed
  have eq: "fill_slide_type_69 index title content =
      body_of (select_slide index # call build_shape_cache # A @ [D1, D2])"
    by (simp add: fill_slide_type_69_def A_def D1_def D2_def detail_1_zones_def detail_2_zones_def)
  have I1: "?I ?f1"
    using of by simp
  have kA: "keeps ?I ?obs (run A)"
    unfolding A_def
    by (intro keeps_run) (auto intro!: keeps_if_in keeps_call1 other)
  have nA: "never_raises (run A)"
    unfolding A_def by (intro never_raises_run) (auto intro!: no_raise_intros)
  define fA where "fA = state_of (run A ?f1)"
  have rA: "run A ?f1 = Ok fA"
    unfolding fA_def by (rule never_raises_Ok [OF nA])
  have IA: "?I fA" and oA: "?obs fA = ?obs ?f1"
    using keeps_apply [OF kA I1] unfolding fA_def by simp_all
  define fD where "fD = rounds detail_1_zones ?points (length ?points) fA"
  have rD: "D1 fA = Ok fD"
    unfolding D1_def fD_def using v by (intro fan_out_Ok) (simp_all add: detail_1_zones_def)
  have dz: "distinct (map lower detail_1_zones)"
    unfolding lower_names_69 by simp
  have len: "length detail_1_zones = 5"
    by (simp add: detail_1_zones_def)
  have D: "?I fD"
    "text_writes ?s j (events fD)
       = text_writes ?s j (events fA) @ (if i < length ?points then [?points ! i] else [])"
    "if i < length ?points then Text (Shapes fD ! j) = ?points ! i else Shapes fD ! j = Shapes fA ! j"
    using fold_set_text_writes [of fA sl ?s detail_1_zones i j "length ?points" ?points]
      IA dz i v(2) len
    unfolding fD_def by simp_all
  have kD2: "keeps ?I ?obs D2"
    unfolding D2_def
    by (intro keeps_if_in) (auto intro!: keeps_fan_out other)
  have run: "run (select_slide index # call build_shape_cache # A @ [D1, D2]) (enter b) = D2 fD"
    unfolding select_slide_enter [OF o] run_append rA
    by (simp add: rD split: outcome.splits)
  have fin: "b' = leave (state_of (D2 fD))"
    unfolding b' eq body_of_simps run ..
  have oF: "?obs (state_of (D2 fD)) = ?obs fD"
    using keeps_apply [OF kD2 D(1)] by simp
  show "text_writes ?s j (events b')
           = text_writes ?s j (events b) @ (if i < length ?points then [?points ! i] else [])"
    using oF oA D(2) of unfolding fin by simp
  show "if i < length ?points then Text (Shapes b' ! j) = ?points ! i else Shapes b' ! j = sl ! j"
    using oF oA D(3) of unfolding fin by simp
  show "raised (fill_slide_type_69 index title content b) = None"
    if "\<forall>w. content ''detail_2'' = Some w \<longrightarrow> length (splitlines w) \<le> 5"
  proof (cases "content ''detail_2''")
    case None
    then show ?thesis
      unfolding eq body_of_simps run by (simp add: D2_def if_in_def)
  next
    case (Some w)
    with that have "length (splitlines w) \<le> length detail_2_zones"
      by (simp add: detail_2_zones_def)
    from fan_out_Ok [where content = content and k = "''detail_2''", OF Some this] show ?thesis
      unfolding eq body_of_simps run by (simp add: D2_def)
  qed
qed

text \<open>
  C7. In \<open>fill_slide_type_69\<close>, when \<open>detail_1\<close> splits into K lines with K at most 5, the
  shape that the i-th of the five zones resolves to receives exactly one assignment, of
  line i, when i is below K, and holds that line afterwards; for i from K on, the shape
  receives no assignment and is what it was in the template.
\<close>

theorem fan_out_first_lines:
  assumes "presentation b = Some d" and "Item d index = Some sl"
    and "content ''detail_1'' = Some v" and "length (splitlines v) \<le> 5"
    and "i < 5" and "text_target (detail_1_zones ! i) sl = Some j"
    and "b' = state_of (fill_slide_type_69 index title content b)"
  shows
    "(i < length (splitlines v) \<longrightarrow>
        text_writes (nat (index - 1)) j (events b')
          = text_writes (nat (index - 1)) j (events b) @ [splitlines v ! i]
        \<and> Text (Shapes b' ! j) = splitlines v ! i)
     \<and> (length (splitlines v) \<le> i \<longrightarrow>
        text_writes (nat (index - 1)) j (events b') = text_writes (nat (index - 1)) j (events b)
        \<and> Shapes b' ! j = sl ! j)
     \<and> ((\<forall>w. content ''detail_2'' = Some w \<longrightarrow> length (splitlines w) \<le> 5) \<longrightarrow>
        raised (fill_slide_type_69 index title content b) = None)"
  using fill_69_zone [OF assms] by simp

theorem fan_out_first_lines_witness:
  "presentation (open_builder [zones_slide]) = Some [zones_slide]
   \<and> Item [zones_slide] 1 = Some zones_slide
   \<and> three_lines ''detail_1'' = Some ''A\<newline>B\<newline>C''
   \<and> splitlines ''A\<newline>B\<newline>C'' = [''A'', ''B'', ''C'']
   \<and> text_target (detail_1_zones ! 2) zones_slide = Some 3
   \<and> text_target (detail_1_zones ! 3) zones_slide = Some 4
   \<and> text_writes 0 3 (events (state_of (fill_slide_type_69 1 ''T'' three_lines (open_builder [zones_slide]))))
       = [''C'']
   \<and> Text (Shapes (state_of (fill_slide_type_69 1 ''T'' three_lines (open_builder [zones_slide]))) ! 3)
       = ''C''
   \<and> text_writes 0 4 (events (state_of (fill_slide_type_69 1 ''T'' three_lines (open_builder [zones_slide]))))
       = []
   \<and> Shapes (state_of (fill_slide_type_69 1 ''T'' three_lines (open_builder [zones_slide]))) ! 4
       = text_shape ''ZoneTexte 86'' ''four''
   \<and> raised (fill_slide_type_69 1 ''T'' three_lines (open_builder [zones_slide])) = None"
proof -
  have h1: "presentation (open_builder [zones_slide]) = Some [zones_slide]"
    by (simp add: open_builder_def)
  have h2: "Item [zones_slide] 1 = Some zones_slide"
    by (simp add: Item_def)
  have h3: "three_lines ''detail_1'' = Some ''A\<newline>B\<newline>C''"
    by (simp add: three_lines_def)
  have sp: "splitlines ''A\<newline>B\<newline>C'' = [''A'', ''B'', ''C'']"
    by code_simp
  have h4: "length (splitlines ''A\<newline>B\<newline>C'') \<le> 5"
    by (simp add: sp)
  have t2: "text_target (detail_1_zones ! 2) zones_slide = Some 3"
    by code_simp
  have t3: "text_target (detail_1_zones ! 3) zones_slide = Some 4"
    by code_simp
  have d2: "\<forall>w. three_lines ''detail_2'' = Some w \<longrightarrow> length (splitlines w) \<le> 5"
    by (simp add: three_lines_def)
  have e: "events (open_builder [zones_slide]) = []"
    by (simp add: open_builder_def)
  have z: "zones_slide ! 4 = text_shape ''ZoneTexte 86'' ''four''"
    by (simp add: zones_slide_def)
  from fan_out_first_lines
         [where content = three_lines and b = "open_builder [zones_slide]" and title = "''T''"
            and i = 2, OF h1 h2 h3 h4 _ t2 refl]
       fan_out_first_lines
         [where content = three_lines and b = "open_builder [zones_slide]" and title = "''T''"
            and i = 3, OF h1 h2 h3 h4 _ t3 refl]
       h1 h2 h3 sp t2 t3 d2 e z
  show ?thesis by (simp add: text_writes_def)
qed

lemma target_item_SomeD:
  "target_item f g n = Some (j, k) \<Longrightarrow> get_shape g f = Some j \<and> j < length (Shapes f)"
  by (auto simp: target_item_def split: option.splits if_splits dest: resolve_SomeD)

lemma set_group_text_eq:
  "set_group_text g n t f =
     (case target_item f g n of
        None \<Rightarrow> f
      | Some (j, k) \<Rightarrow>
          emit (SetItemText (the (slide f)) j k t) (put_shape j (put_item_text k t (Shapes f ! j)) f))"
  by (auto simp: set_group_text_def target_item_def put_item_text_def
      split: option.splits dest: resolve_SomeD)

lemma Shapes_set_group_text:
  "Shapes (set_group_text g n t f) =
     (case target_item f g n of
        None \<Rightarrow> Shapes f
      | Some (j, k) \<Rightarrow> (Shapes f)[j := put_item_text k t (Shapes f ! j)])"
  by (auto simp: set_group_text_eq Shapes_put_shape split: option.splits dest: target_item_SomeD)

lemma events_set_group_text:
  "events (set_group_text g n t f) =
     events f @ (case target_item f g n of None \<Rightarrow> [] | Some (j, k) \<Rightarrow> [SetItemText (the (slide f)) j k t])"
  by (simp add: set_group_text_eq split: option.splits)

lemma fields_set_group_text [simp]:
  "slide (set_group_text g n t f) = slide f" "shape_cache (set_group_text g n t f) = shape_cache f"
  "library (set_group_text g n t f) = library f" "output_file (set_group_text g n t f) = output_file f"
  "powerpoint (set_group_text g n t f) = powerpoint f"
  by (simp_all add: set_group_text_eq split: option.splits)

text \<open>What a writer does depends on the shapes of the active slide and the cache only.\<close>

lemma target_text_cong:
  "Shapes f = Shapes g \<Longrightarrow> shape_cache f = shape_cache g \<Longrightarrow> target_text f n = target_text g n"
  by (simp add: target_text_eq get_shape_def cong: option.case_cong if_cong)

lemma target_cell_cong:
  "Shapes f = Shapes g \<Longrightarrow> shape_cache f = shape_cache g \<Longrightarrow> target_cell f n r c = target_cell g n r c"
  by (simp add: target_cell_eq get_shape_def cong: option.case_cong if_cong)

lemma target_item_cong:
  "Shapes f = Shapes g \<Longrightarrow> shape_cache f = shape_cache g \<Longrightarrow> target_item f n m = target_item g n m"
  by (simp add: target_item_def resolve_eq get_shape_def cong: option.case_cong if_cong)

lemma writer_cong:
  assumes "Shapes f = Shapes g" "shape_cache f = shape_cache g"
  shows "Shapes (set_text n t f) = Shapes (set_text n t g)"
    and "Shapes (set_table_cell n r c t f) = Shapes (set_table_cell n r c t g)"
    and "Shapes (set_group_text n m t f) = Shapes (set_group_text n m t g)"
  using assms target_text_cong [OF assms, of n] target_cell_cong [OF assms, of n r c]
    target_item_cong [OF assms, of n m]
  by (simp_all add: Shapes_set_text Shapes_set_table_cell Shapes_set_group_text
      cong: option.case_cong if_cong)

lemma others_put_shape [simp]: "others (put_shape j sh f) = others f"
  by (auto simp: others_def put_shape_def split: option.splits)

lemma others_emit [simp]: "others (emit ev f) = others f"
  by (simp add: others_def emit_def split: option.splits)

lemma new_writes_refl [simp]: "new_writes f f"
  by (simp add: new_writes_def split: option.splits)

lemma new_writes_trans:
  "new_writes f g \<Longrightarrow> new_writes g h \<Longrightarrow> slide g = slide f \<Longrightarrow> new_writes f h"
  by (auto simp: new_writes_def split: option.splits)

lemma new_writes_emit:
  "writes_on (the (slide f)) ev \<Longrightarrow> slide f \<noteq> None \<Longrightarrow> events g = events f \<Longrightarrow>
     new_writes f (emit ev g)"
  by (auto simp: new_writes_def split: option.splits)

lemma framed_writers:
  "framed (call (set_text n t))"
  "framed (call (set_table_cell n r c t))"
  "framed (call (set_group_text n m t))"
proof -
  have s: "slide f \<noteq> None" if "j < length (Shapes f)" for f :: frame and j
    using Shapes_slide [OF that] by auto
  show "framed (call (set_text n t))"
    by (auto simp: framed_def call_def set_text_eq writes_on_def
        split: option.splits intro!: new_writes_emit dest!: target_text_SomeD dest: s)
  show "framed (call (set_table_cell n r c t))"
    by (auto simp: framed_def call_def set_table_cell_eq writes_on_def
        split: option.splits intro!: new_writes_emit dest!: target_cell_SomeD dest: s)
  show "framed (call (set_group_text n m t))"
    by (auto simp: framed_def call_def set_group_text_eq writes_on_def
        split: option.splits intro!: new_writes_emit dest!: target_item_SomeD dest: s)
qed

lemma framed_run: "list_all framed sts \<Longrightarrow> framed (run sts)"
proof (induction sts)
  case Nil
  show ?case by (simp add: framed_def)
next
  case (Cons st sts)
  then have a: "framed st" and b: "framed (run sts)" by simp_all
  show ?case
    unfolding framed_def
  proof
    fix f
    let ?g = "state_of (st f)"
    from a have A: "slide ?g = slide f" "library ?g = library f" "output_file ?g = output_file f"
      "powerpoint ?g = powerpoint f" "others ?g = others f" "new_writes f ?g"
      by (simp_all add: framed_def)
    from b have B: "slide (state_of (run sts ?g)) = slide ?g"
      "library (state_of (run sts ?g)) = library ?g"
      "output_file (state_of (run sts ?g)) = output_file ?g"
      "powerpoint (state_of (run sts ?g)) = powerpoint ?g"
      "others (state_of (run sts ?g)) = others ?g" "new_writes ?g (state_of (run sts ?g))"
      by (simp_all add: framed_def)
    show "slide (state_of (run (st # sts) f)) = slide f
        \<and> library (state_of (run (st # sts) f)) = library f
        \<and> output_file (state_of (run (st # sts) f)) = output_file f
        \<and> powerpoint (state_of (run (st # sts) f)) = powerpoint f
        \<and> others (state_of (run (st # sts) f)) = others f
        \<and> new_writes f (state_of (run (st # sts) f))"
      using A B new_writes_trans [OF A(6) B(6) A(1)]
      by (cases "st f") simp_all
  qed
qed

lemma framed_if_in: "list_all framed body \<Longrightarrow> framed (if_in content ks body)"
  using framed_run [of body] by (simp add: framed_def if_in_def)

lemma framed_call1: "(\<And>v. framed (call (m v))) \<Longrightarrow> framed (call1 m e)"
  by (simp add: framed_def call1_def call_def split: sum.splits)

lemma framed_local_update:
  assumes "\<And>h f. slide (upd h f) = slide f \<and> library (upd h f) = library f
      \<and> output_file (upd h f) = output_file f \<and> powerpoint (upd h f) = powerpoint f
      \<and> presentation (upd h f) = presentation f \<and> events (upd h f) = events f"
  shows "framed (assign upd e)" and "framed (aug sel upd e)"
  using assms
  by (auto simp: framed_def assign_def aug_def Let_def others_def new_writes_def
      split: sum.splits option.splits)

lemma framed_fan_out: "framed (fan_out zones e)"
proof -
  have "framed (set_text_at zones points i)" for points i
    using framed_writers(1)
    by (auto simp: framed_def set_text_at_def call_def split: option.splits)
  then have "framed (for_range n (set_text_at zones points))" for n points
    unfolding for_range_def by (intro framed_run) (simp add: list_all_iff)
  then show ?thesis
    by (auto simp: framed_def fan_out_def Let_def split: sum.splits)
qed

lemma locals_writers [simp]:
  "locals (set_text n t f) = locals f"
  "locals (set_table_cell n r c t f) = locals f"
  "locals (set_group_text n m t f) = locals f"
  by (simp_all add: locals_def set_text_eq set_table_cell_eq set_group_text_eq emit_def
      put_shape_def split: option.splits)

lemma view_writers:
  assumes "view f = view g"
  shows "view (set_text n t f) = view (set_text n t g)"
    and "view (set_table_cell n r c t f) = view (set_table_cell n r c t g)"
    and "view (set_group_text n m t f) = view (set_group_text n m t g)"
  using assms writer_cong [of f g]
  by (simp_all add: view_def)

lemma reads_locals_view: "reads_locals e \<Longrightarrow> view f = view g \<Longrightarrow> e f = e g"
  unfolding reads_locals_def view_def by blast

lemma sim_call1:
  assumes "reads_locals e" "\<And>v f g. view f = view g \<Longrightarrow> view (m v f) = view (m v g)"
  shows "sim (call1 m e)"
  unfolding sim_def
proof (intro allI impI)
  fix f g :: frame assume v: "view f = view g"
  from reads_locals_view [OF assms(1) v] assms(2) [OF v]
  show "view (state_of (call1 m e f)) = view (state_of (call1 m e g))
      \<and> raised (call1 m e f) = raised (call1 m e g)"
    using v by (auto simp: call1_def split: sum.splits)
qed

lemma sim_assign:
  assumes "reads_locals e" "\<And>h f g. view f = view g \<Longrightarrow> view (upd h f) = view (upd h g)"
  shows "sim (assign upd e)"
  unfolding sim_def
proof (intro allI impI)
  fix f g :: frame assume v: "view f = view g"
  from reads_locals_view [OF assms(1) v] assms(2) [OF v]
  show "view (state_of (assign upd e f)) = view (state_of (assign upd e g))
      \<and> raised (assign upd e f) = raised (assign upd e g)"
    using v by (auto simp: assign_def split: sum.splits)
qed

lemma sim_aug:
  assumes "reads_locals e" "\<And>h f g. view f = view g \<Longrightarrow> view (upd h f) = view (upd h g)"
    and "\<And>f g. view f = view g \<Longrightarrow> sel f = sel g"
  shows "sim (aug sel upd e)"
  unfolding sim_def
proof (intro allI impI)
  fix f g :: frame assume v: "view f = view g"
  from reads_locals_view [OF assms(1) v] assms(2) [OF v] assms(3) [OF v]
  show "view (state_of (aug sel upd e f)) = view (state_of (aug sel upd e g))
      \<and> raised (aug sel upd e f) = raised (aug sel upd e g)"
    using v by (auto simp: aug_def Let_def split: sum.splits)
qed

lemma simD:
  "sim st \<Longrightarrow> view f = view g \<Longrightarrow>
     view (state_of (st f)) = view (state_of (st g)) \<and> raised (st f) = raised (st g)"
  unfolding sim_def by blast

lemma sim_run: "list_all sim sts \<Longrightarrow> sim (run sts)"
proof (induction sts)
  case Nil
  show ?case by (simp add: sim_def)
next
  case (Cons st sts)
  then have a: "sim st" and b: "sim (run sts)" by simp_all
  show ?case
    unfolding sim_def
  proof (intro allI impI)
    fix f g :: frame assume v: "view f = view g"
    from simD [OF a v] have A: "view (state_of (st f)) = view (state_of (st g))"
      "raised (st f) = raised (st g)"
      by simp_all
    from simD [OF b A(1)]
    have B: "view (state_of (run sts (state_of (st f)))) = view (state_of (run sts (state_of (st g))))"
      "raised (run sts (state_of (st f))) = raised (run sts (state_of (st g)))"
      by simp_all
    show "view (state_of (run (st # sts) f)) = view (state_of (run (st # sts) g))
        \<and> raised (run (st # sts) f) = raised (run (st # sts) g)"
      using A B by (cases "st f"; cases "st g") simp_all
  qed
qed

lemma sim_if_in:
  assumes "list_all sim body"
  shows "sim (if_in content ks body)"
  unfolding sim_def
proof (intro allI impI)
  fix f g :: frame assume v: "view f = view g"
  from simD [OF sim_run [OF assms] v] v
  show "view (state_of (if_in content ks body f)) = view (state_of (if_in content ks body g))
      \<and> raised (if_in content ks body f) = raised (if_in content ks body g)"
    by (simp add: if_in_def)
qed

lemma sim_set_text_at: "sim (set_text_at zones points i)"
  unfolding sim_def
proof (intro allI impI)
  fix f g :: frame assume v: "view f = view g"
  show "view (state_of (set_text_at zones points i f)) = view (state_of (set_text_at zones points i g))
      \<and> raised (set_text_at zones points i f) = raised (set_text_at zones points i g)"
    using v view_writers(1) [OF v]
    by (simp add: set_text_at_def split: option.splits)
qed

lemma sim_fan_out:
  assumes "reads_locals e"
  shows "sim (fan_out zones e)"
  unfolding sim_def
proof (intro allI impI)
  fix f g :: frame assume v: "view f = view g"
  have r: "sim (for_range n (set_text_at zones points))" for n points
    unfolding for_range_def by (intro sim_run) (simp add: list_all_iff sim_set_text_at)
  show "view (state_of (fan_out zones e f)) = view (state_of (fan_out zones e g))
      \<and> raised (fan_out zones e f) = raised (fan_out zones e g)"
  proof (cases "e g")
    case (Inl err)
    with reads_locals_view [OF assms v] v show ?thesis
      by (simp add: fan_out_def)
  next
    case (Inr x)
    with reads_locals_view [OF assms v] simD [OF r v] show ?thesis
      by (simp add: fan_out_def Let_def)
  qed
qed

lemma reads_locals_cat:
  assumes "reads_locals a" "reads_locals b"
  shows "reads_locals (cat a b)"
  unfolding reads_locals_def
proof (intro allI impI)
  fix f g :: frame assume l: "locals f = locals g"
  from assms l have "a f = a g" "b f = b g"
    unfolding reads_locals_def by blast+
  then show "cat a b f = cat a b g"
    by (simp add: cat_def cong: sum.case_cong)
qed

lemma reads_locals_intros:
  "reads_locals (lit s)"
  "reads_locals (slot content k)"
  "reads_locals (local_var msg)"
  "reads_locals (local_var info_1)"
  "reads_locals (local_var info_2)"
  "reads_locals (local_var info_3)"
  "reads_locals (local_var info_4)"
  by (simp_all add: reads_locals_def lit_def slot_def local_var_def locals_def)

lemma view_locals_update:
  assumes "view f = view g"
  shows "view (msg_update h f) = view (msg_update h g)"
    and "view (info_1_update h f) = view (info_1_update h g)"
    and "view (info_2_update h f) = view (info_2_update h g)"
    and "view (info_3_update h f) = view (info_3_update h g)"
    and "view (info_4_update h f) = view (info_4_update h g)"
    and "msg f = msg g" and "info_1 f = info_1 g" and "info_2 f = info_2 g"
    and "info_3 f = info_3 g" and "info_4 f = info_4 g"
  using assms by (simp_all add: view_def locals_def Shapes_def)

lemma framed_locals:
  "framed (assign msg_update e)" "framed (aug sel msg_update e)"
  "framed (assign info_1_update e)" "framed (aug sel info_1_update e)"
  "framed (assign info_2_update e)" "framed (aug sel info_2_update e)"
  "framed (assign info_3_update e)" "framed (aug sel info_3_update e)"
  "framed (assign info_4_update e)" "framed (aug sel info_4_update e)"
  by (rule framed_local_update; simp)+

lemma local_step_writers:
  assumes e: "reads_locals e"
  shows "local_step (call1 (set_text n) e)"
    and "local_step (call1 (set_table_cell n r c) e)"
    and "local_step (call1 (set_group_text n m) e)"
    and "local_step (fan_out zones e)"
proof -
  show "local_step (call1 (set_text n) e)"
    unfolding local_step_def
    by (rule conjI, rule sim_call1 [OF e], erule view_writers, rule framed_call1, rule framed_writers)
  show "local_step (call1 (set_table_cell n r c) e)"
    unfolding local_step_def
    by (rule conjI, rule sim_call1 [OF e], erule view_writers, rule framed_call1, rule framed_writers)
  show "local_step (call1 (set_group_text n m) e)"
    unfolding local_step_def
    by (rule conjI, rule sim_call1 [OF e], erule view_writers, rule framed_call1, rule framed_writers)
  show "local_step (fan_out zones e)"
    unfolding local_step_def
    by (rule conjI, rule sim_fan_out [OF e], rule framed_fan_out)
qed

lemma local_step_assign:
  assumes e: "reads_locals e"
  shows "local_step (assign msg_update e)"
    and "local_step (assign info_1_update e)"
    and "local_step (assign info_2_update e)"
    and "local_step (assign info_3_update e)"
    and "local_step (assign info_4_update e)"
  unfolding local_step_def
  by (rule conjI, rule sim_assign [OF e], erule view_locals_update, rule framed_locals)+

lemma local_step_aug:
  assumes e: "reads_locals e"
  shows "local_step (aug msg msg_update e)"
    and "local_step (aug info_1 info_1_update e)"
    and "local_step (aug info_2 info_2_update e)"
    and "local_step (aug info_3 info_3_update e)"
    and "local_step (aug info_4 info_4_update e)"
  unfolding local_step_def
  by (rule conjI, rule sim_aug [OF e], erule view_locals_update, erule view_locals_update,
      rule framed_locals)+

lemma list_all_local_step:
  "list_all local_step sts \<Longrightarrow> list_all sim sts \<and> list_all framed sts"
  by (induction sts) (auto simp: local_step_def)

lemma local_step_if_in:
  assumes "list_all local_step body"
  shows "local_step (if_in content ks body)"
proof -
  have a: "list_all sim body" and b: "list_all framed body"
    using list_all_local_step [OF assms] by (rule conjunct1, rule conjunct2)
  have "sim (if_in content ks body)" using a by (rule sim_if_in)
  moreover have "framed (if_in content ks body)" using b by (rule framed_if_in)
  ultimately show ?thesis by (simp only: local_step_def)
qed

lemma local_step_run:
  assumes "list_all local_step sts"
  shows "local_step (run sts)"
proof -
  have a: "list_all sim sts" and b: "list_all framed sts"
    using list_all_local_step [OF assms] by simp_all
  have "sim (run sts)" using a by (rule sim_run)
  moreover have "framed (run sts)" using b by (rule framed_run)
  ultimately show ?thesis by (simp only: local_step_def)
qed

lemma shape_cache_opened:
  assumes "presentation b = Some d" "Item d index = Some sl"
  shows "shape_cache (opened b index) = cache_of sl"
proof -
  let ?f = "(enter b)\<lparr>slide := Some (nat (index - 1))\<rparr>"
  from assms have "Shapes ?f = sl"
    by (auto simp: Shapes_def enter_def dest: Item_SomeD)
  then show ?thesis
    by (simp add: opened_def build_shape_cache_def cache_of_def)
qed

lemma list_update_blank:
  assumes "d'[s := []] = d[s := ([] :: 'a list)]" "s < length d"
  shows "d' = d[s := d' ! s]"
proof -
  have "d' = (d'[s := []])[s := d' ! s]" by simp
  also have "\<dots> = (d[s := []])[s := d' ! s]" using assms(1) by simp
  also have "\<dots> = d[s := d' ! s]" by simp
  finally show ?thesis .
qed

lemma framedD:
  "framed st \<Longrightarrow>
     slide (state_of (st f)) = slide f \<and> library (state_of (st f)) = library f
     \<and> output_file (state_of (st f)) = output_file f
     \<and> powerpoint (state_of (st f)) = powerpoint f
     \<and> others (state_of (st f)) = others f \<and> new_writes f (state_of (st f))"
  unfolding framed_def by blast

lemma local_fillerI:
  assumes def: "\<And>index title content.
      f index title content = body_of (select_slide index # call build_shape_cache # tail title content)"
    and tail: "\<And>title content. list_all local_step (tail title content)"
  shows "local_filler f"
  unfolding local_filler_def
proof (intro allI impI, elim conjE)
  fix index t c and b :: builder and d sl
  assume o: "presentation b = Some d" "Item d index = Some sl"
  let ?s = "nat (index - 1)"
  let ?a = "open_builder [sl]"
  have oa: "presentation ?a = Some [sl]" "Item [sl] 1 = Some sl"
    by (simp_all add: open_builder_def Item_def)
  let ?F = "opened b index" and ?G = "opened ?a 1"
  let ?F' = "state_of (run (tail t c) ?F)" and ?G' = "state_of (run (tail t c) ?G)"
  have ls: "local_step (run (tail t c))"
    using tail by (rule local_step_run)
  then have sm: "sim (run (tail t c))" and fr: "framed (run (tail t c))"
    by (simp_all only: local_step_def)
  have v: "view ?F = view ?G"
    using opened_fields(1) [OF o] opened_fields(1) [OF oa] shape_cache_opened [OF o]
      shape_cache_opened [OF oa]
    by (simp add: view_def locals_def opened_def build_shape_cache_def enter_def)
  from simD [OF sm v] have V: "view ?F' = view ?G'"
    and R: "raised (run (tail t c) ?F) = raised (run (tail t c) ?G)"
    by simp_all
  have rf: "f index t c b = body_of (select_slide index # call build_shape_cache # tail t c) b"
    and rg: "f 1 t c ?a = body_of (select_slide 1 # call build_shape_cache # tail t c) ?a"
    by (simp_all only: def)
  have sf: "state_of (f index t c b) = leave ?F'" and qf: "raised (f index t c b) = raised (run (tail t c) ?F)"
    unfolding rf body_of_simps select_slide_enter [OF o] by simp_all
  have sg: "state_of (f 1 t c ?a) = leave ?G'" and qg: "raised (f 1 t c ?a) = raised (run (tail t c) ?G)"
    unfolding rg body_of_simps select_slide_enter [OF oa] by simp_all
  have fl: "state_of (filled f t c sl) = Shapes ?G'" "raised (filled f t c sl) = raised (run (tail t c) ?G)"
    using sg qg by (auto simp: filled_def split: outcome.splits)
  note D = framedD [OF fr, of ?F]
  have sl: "slide ?F' = Some ?s"
    using D opened_fields(2) [OF o] by simp
  have "others ?F = Some (d[?s := []])"
    using opened_fields(2,3) [OF o] by (simp add: others_def)
  moreover have "others ?F' = others ?F"
    using D by simp
  moreover have "others ?F' = map_option (\<lambda>d. d[?s := []]) (presentation ?F')"
    by (simp add: others_def sl)
  ultimately have "map_option (\<lambda>d. d[?s := []]) (presentation ?F') = Some (d[?s := []])"
    by simp
  then obtain d' where d': "presentation ?F' = Some d'" "d'[?s := []] = d[?s := []]"
    by auto
  have len: "?s < length d"
    using Item_SomeD [OF o(2)] by simp
  then have len': "?s < length d'"
    using d'(2) by (metis length_list_update)
  have "Shapes ?F' = d' ! ?s"
    using d'(1) sl len' by (simp add: Shapes_def)
  moreover have "Shapes ?F' = Shapes ?G'"
    using V by (simp add: view_def)
  ultimately have "d' = d[?s := state_of (filled f t c sl)]"
    using list_update_blank [OF d'(2) len] fl(1) by simp
  moreover have "\<exists>ws. events ?F' = events b @ ws \<and> list_all (writes_on ?s) ws"
    using D opened_fields(2,4) [OF o] by (auto simp: new_writes_def)
  moreover have "library ?F' = library b" "output_file ?F' = output_file b" "powerpoint ?F' = powerpoint b"
    using D by (simp_all add: opened_def build_shape_cache_def enter_def)
  ultimately show "raised (f index t c b) = raised (filled f t c sl)
      \<and> presentation (state_of (f index t c b)) = Some (d[?s := state_of (filled f t c sl)])
      \<and> library (state_of (f index t c b)) = library b
      \<and> output_file (state_of (f index t c b)) = output_file b
      \<and> powerpoint (state_of (f index t c b)) = powerpoint b
      \<and> (\<exists>ws. events (state_of (f index t c b)) = events b @ ws \<and> list_all (writes_on ?s) ws)"
    unfolding sf qf fl(2) R using d'(1) by simp
qed

lemmas local_rules =
  local_step_writers local_step_assign local_step_aug local_step_if_in
  reads_locals_intros reads_locals_cat

lemma fill_slide_type_4_local: "local_filler fill_slide_type_4"
  by (rule local_fillerI [OF fill_slide_type_4_def]) (simp add: local_rules)

lemma fill_slide_type_5_local: "local_filler fill_slide_type_5"
  by (rule local_fillerI [OF fill_slide_type_5_def]) (simp add: local_rules)

lemma fill_slide_type_6_local: "local_filler fill_slide_type_6"
  by (rule local_fillerI [OF fill_slide_type_6_def]) (simp add: local_rules)

lemma fill_slide_type_7_local: "local_filler fill_slide_type_7"
  by (rule local_fillerI [OF fill_slide_type_7_def]) (simp add: local_rules)

lemma fill_slide_type_8_local: "local_filler fill_slide_type_8"
  by (rule local_fillerI [OF fill_slide_type_8_def]) (simp add: local_rules)

lemma fill_slide_type_9_local: "local_filler fill_slide_type_9"
  by (rule local_fillerI [OF fill_slide_type_9_def]) (simp add: local_rules)

lemma fill_slide_type_10_local: "local_filler fill_slide_type_10"
  by (rule local_fillerI [OF fill_slide_type_10_def]) (simp add: local_rules)

lemma fill_slide_type_11_local: "local_filler fill_slide_type_11"
  by (rule local_fillerI [OF fill_slide_type_11_def]) (simp add: local_rules)

lemma fill_slide_type_12_local: "local_filler fill_slide_type_12"
  by (rule local_fillerI [OF fill_slide_type_12_def]) (simp add: local_rules)

lemma fill_slide_type_13_local: "local_filler fill_slide_type_13"
  by (rule local_fillerI [OF fill_slide_type_13_def]) (simp add: local_rules)

lemma fill_slide_type_15_local: "local_filler fill_slide_type_15"
  by (rule local_fillerI [OF fill_slide_type_15_def]) (simp add: local_rules)

lemma fill_slide_type_16_local: "local_filler fill_slide_type_16"
  by (rule local_fillerI [OF fill_slide_type_16_def]) (simp add: local_rules)

lemma fill_slide_type_17_local: "local_filler fill_slide_type_17"
  by (rule local_fillerI [OF fill_slide_type_17_def]) (simp add: local_rules)

lemma fill_slide_type_18_local: "local_filler fill_slide_type_18"
  by (rule local_fillerI [OF fill_slide_type_18_def]) (simp add: local_rules)

lemma fill_slide_type_19_local: "local_filler fill_slide_type_19"
  by (rule local_fillerI [OF fill_slide_type_19_def]) (simp add: local_rules)

lemma fill_slide_type_20_local: "local_filler fill_slide_type_20"
  by (rule local_fillerI [OF fill_slide_type_20_def]) (simp add: local_rules)

lemma fill_slide_type_21_local: "local_filler fill_slide_type_21"
  by (rule local_fillerI [OF fill_slide_type_21_def]) (simp add: local_rules)

lemma fill_slide_type_22_local: "local_filler fill_slide_type_22"
  by (rule local_fillerI [OF fill_slide_type_22_def]) (simp add: local_rules)

lemma fill_slide_type_24_local: "local_filler fill_slide_type_24"
  by (rule local_fillerI [OF fill_slide_type_24_def]) (simp add: local_rules)

lemma fill_slide_type_25_local: "local_filler fill_slide_type_25"
  by (rule local_fillerI [OF fill_slide_type_25_def]) (simp add: local_rules)

lemma fill_slide_type_47_local: "local_filler fill_slide_type_47"
  by (rule local_fillerI [OF fill_slide_type_47_def]) (simp add: local_rules)

lemma fill_slide_type_48_local: "local_filler fill_slide_type_48"
  by (rule local_fillerI [OF fill_slide_type_48_def]) (simp add: local_rules)

lemma fill_slide_type_49_local: "local_filler fill_slide_type_49"
  by (rule local_fillerI [OF fill_slide_type_49_def]) (simp add: local_rules)

lemma fill_slide_type_50_local: "local_filler fill_slide_type_50"
  by (rule local_fillerI [OF fill_slide_type_50_def]) (simp add: local_rules)

lemma fill_slide_type_51_local: "local_filler fill_slide_type_51"
  by (rule local_fillerI [OF fill_slide_type_51_def]) (simp add: local_rules)

lemma fill_slide_type_52_local: "local_filler fill_slide_type_52"
  by (rule local_fillerI [OF fill_slide_type_52_def]) (simp add: local_rules)

lemma fill_slide_type_53_local: "local_filler fill_slide_type_53"
  by (rule local_fillerI [OF fill_slide_type_53_def]) (simp add: local_rules)

lemma fill_slide_type_54_local: "local_filler fill_slide_type_54"
  by (rule local_fillerI [OF fill_slide_type_54_def]) (simp add: local_rules)

lemma fill_slide_type_55_local: "local_filler fill_slide_type_55"
  by (rule local_fillerI [OF fill_slide_type_55_def]) (simp add: local_rules)

lemma fill_slide_type_56_local: "local_filler fill_slide_type_56"
  by (rule local_fillerI [OF fill_slide_type_56_def]) (simp add: local_rules)

lemma fill_slide_type_57_local: "local_filler fill_slide_type_57"
  by (rule local_fillerI [OF fill_slide_type_57_def]) (simp add: local_rules)

lemma fill_slide_type_58_local: "local_filler fill_slide_type_58"
  by (rule local_fillerI [OF fill_slide_type_58_def]) (simp add: local_rules)

lemma fill_slide_type_59_local: "local_filler fill_slide_type_59"
  by (rule local_fillerI [OF fill_slide_type_59_def]) (simp add: local_rules)

lemma fill_slide_type_60_local: "local_filler fill_slide_type_60"
  by (rule local_fillerI [OF fill_slide_type_60_def]) (simp add: local_rules)

lemma fill_slide_type_61_local: "local_filler fill_slide_type_61"
  by (rule local_fillerI [OF fill_slide_type_61_def]) (simp add: local_rules)

lemma fill_slide_type_62_local: "local_filler fill_slide_type_62"
  by (rule local_fillerI [OF fill_slide_type_62_def]) (simp add: local_rules)

lemma fill_slide_type_63_local: "local_filler fill_slide_type_63"
  by (rule local_fillerI [OF fill_slide_type_63_def]) (simp add: local_rules)

lemma fill_slide_type_64_local: "local_filler fill_slide_type_64"
  by (rule local_fillerI [OF fill_slide_type_64_def]) (simp add: local_rules)

lemma fill_slide_type_65_local: "local_filler fill_slide_type_65"
  by (rule local_fillerI [OF fill_slide_type_65_def]) (simp add: local_rules)

lemma fill_slide_type_66_local: "local_filler fill_slide_type_66"
  by (rule local_fillerI [OF fill_slide_type_66_def]) (simp add: local_rules)

lemma fill_slide_type_67_local: "local_filler fill_slide_type_67"
  by (rule local_fillerI [OF fill_slide_type_67_def]) (simp add: local_rules)

lemma fill_slide_type_68_local: "local_filler fill_slide_type_68"
  by (rule local_fillerI [OF fill_slide_type_68_def]) (simp add: local_rules)

lemma fill_slide_type_69_local: "local_filler fill_slide_type_69"
  by (rule local_fillerI [OF fill_slide_type_69_def]) (simp add: local_rules)

lemma fill_slide_type_71_local: "local_filler fill_slide_type_71"
  by (rule local_fillerI [OF fill_slide_type_71_def]) (simp add: local_rules)

lemma fill_slide_type_72_local: "local_filler fill_slide_type_72"
  by (rule local_fillerI [OF fill_slide_type_72_def]) (simp add: local_rules)

lemma fill_slide_type_73_local: "local_filler fill_slide_type_73"
  by (rule local_fillerI [OF fill_slide_type_73_def]) (simp add: local_rules)

lemma fill_slide_type_74_local: "local_filler fill_slide_type_74"
  by (rule local_fillerI [OF fill_slide_type_74_def]) (simp add: local_rules)

lemma fill_slide_type_75_local: "local_filler fill_slide_type_75"
  by (rule local_fillerI [OF fill_slide_type_75_def]) (simp add: local_rules)

lemma fill_slide_type_76_local: "local_filler fill_slide_type_76"
  by (rule local_fillerI [OF fill_slide_type_76_def]) (simp add: local_rules)

lemma fill_slide_type_77_local: "local_filler fill_slide_type_77"
  by (rule local_fillerI [OF fill_slide_type_77_def]) (simp add: local_rules)

lemma fill_slide_type_78_local: "local_filler fill_slide_type_78"
  by (rule local_fillerI [OF fill_slide_type_78_def]) (simp add: local_rules)

lemma fill_slide_type_79_local: "local_filler fill_slide_type_79"
  by (rule local_fillerI [OF fill_slide_type_79_def]) (simp add: local_rules)

lemma fill_slide_type_80_local: "local_filler fill_slide_type_80"
  by (rule local_fillerI [OF fill_slide_type_80_def]) (simp add: local_rules)

lemma fill_slide_type_81_local: "local_filler fill_slide_type_81"
  by (rule local_fillerI [OF fill_slide_type_81_def]) (simp add: local_rules)

lemma fill_slide_type_83_local: "local_filler fill_slide_type_83"
  by (rule local_fillerI [OF fill_slide_type_83_def]) (simp add: local_rules)

lemma fill_slide_type_84_local: "local_filler fill_slide_type_84"
  by (rule local_fillerI [OF fill_slide_type_84_def]) (simp add: local_rules)

lemma fill_slide_type_85_local: "local_filler fill_slide_type_85"
  by (rule local_fillerI [OF fill_slide_type_85_def]) (simp add: local_rules)

lemma fill_slide_type_86_local: "local_filler fill_slide_type_86"
  by (rule local_fillerI [OF fill_slide_type_86_def]) (simp add: local_rules)

lemma fill_slide_type_87_local: "local_filler fill_slide_type_87"
  by (rule local_fillerI [OF fill_slide_type_87_def]) (simp add: local_rules)

lemma fill_slide_type_88_local: "local_filler fill_slide_type_88"
  by (rule local_fillerI [OF fill_slide_type_88_def]) (simp add: local_rules)

lemma fill_slide_type_89_local: "local_filler fill_slide_type_89"
  by (rule local_fillerI [OF fill_slide_type_89_def]) (simp add: local_rules)

lemma fill_slide_type_90_local: "local_filler fill_slide_type_90"
  by (rule local_fillerI [OF fill_slide_type_90_def]) (simp add: local_rules)

lemma fill_slide_type_91_local: "local_filler fill_slide_type_91"
  by (rule local_fillerI [OF fill_slide_type_91_def]) (simp add: local_rules)

lemma fill_slide_type_92_local: "local_filler fill_slide_type_92"
  by (rule local_fillerI [OF fill_slide_type_92_def]) (simp add: local_rules)

lemma fill_slide_type_93_local: "local_filler fill_slide_type_93"
  by (rule local_fillerI [OF fill_slide_type_93_def]) (simp add: local_rules)

lemma fill_slide_type_95_local: "local_filler fill_slide_type_95"
  by (rule local_fillerI [OF fill_slide_type_95_def]) (simp add: local_rules)

lemma fill_slide_type_96_local: "local_filler fill_slide_type_96"
  by (rule local_fillerI [OF fill_slide_type_96_def]) (simp add: local_rules)

lemma fill_slide_type_100_local: "local_filler fill_slide_type_100"
  by (rule local_fillerI [OF fill_slide_type_100_def]) (simp add: local_rules)

lemma fill_slide_type_101_local: "local_filler fill_slide_type_101"
  by (rule local_fillerI [OF fill_slide_type_101_def]) (simp add: local_rules)

lemma fill_slide_type_102_local: "local_filler fill_slide_type_102"
  by (rule local_fillerI [OF fill_slide_type_102_def]) (simp add: local_rules)

lemma fill_slide_type_103_local: "local_filler fill_slide_type_103"
  by (rule local_fillerI [OF fill_slide_type_103_def]) (simp add: local_rules)

lemma fill_slide_type_104_local: "local_filler fill_slide_type_104"
  by (rule local_fillerI [OF fill_slide_type_104_def]) (simp add: local_rules)

lemma fill_slide_type_105_local: "local_filler fill_slide_type_105"
  by (rule local_fillerI [OF fill_slide_type_105_def]) (simp add: local_rules)

lemma fill_slide_type_106_local: "local_filler fill_slide_type_106"
  by (rule local_fillerI [OF fill_slide_type_106_def]) (simp add: local_rules)

lemma fill_slide_type_107_local: "local_filler fill_slide_type_107"
  by (rule local_fillerI [OF fill_slide_type_107_def]) (simp add: local_rules)

lemma fill_slide_type_108_local: "local_filler fill_slide_type_108"
  by (rule local_fillerI [OF fill_slide_type_108_def]) (simp add: local_rules)

lemma fill_slide_type_109_local: "local_filler fill_slide_type_109"
  by (rule local_fillerI [OF fill_slide_type_109_def]) (simp add: local_rules)

lemma fill_slide_type_110_local: "local_filler fill_slide_type_110"
  by (rule local_fillerI [OF fill_slide_type_110_def]) (simp add: local_rules)

lemma fill_slide_type_112_local: "local_filler fill_slide_type_112"
  by (rule local_fillerI [OF fill_slide_type_112_def]) (simp add: local_rules)

lemma fill_slide_type_113_local: "local_filler fill_slide_type_113"
  by (rule local_fillerI [OF fill_slide_type_113_def]) (simp add: local_rules)

lemma fill_slide_type_115_local: "local_filler fill_slide_type_115"
  by (rule local_fillerI [OF fill_slide_type_115_def]) (simp add: local_rules)

lemma fill_slide_type_116_local: "local_filler fill_slide_type_116"
  by (rule local_fillerI [OF fill_slide_type_116_def]) (simp add: local_rules)

lemma fill_slide_type_117_local: "local_filler fill_slide_type_117"
  by (rule local_fillerI [OF fill_slide_type_117_def]) (simp add: local_rules)

lemma fill_slide_type_118_local: "local_filler fill_slide_type_118"
  by (rule local_fillerI [OF fill_slide_type_118_def]) (simp add: local_rules)

lemma fill_slide_type_119_local: "local_filler fill_slide_type_119"
  by (rule local_fillerI [OF fill_slide_type_119_def]) (simp add: local_rules)

lemma fill_slide_type_120_local: "local_filler fill_slide_type_120"
  by (rule local_fillerI [OF fill_slide_type_120_def]) (simp add: local_rules)

lemma fill_slide_type_121_local: "local_filler fill_slide_type_121"
  by (rule local_fillerI [OF fill_slide_type_121_def]) (simp add: local_rules)

lemma fill_slide_type_122_local: "local_filler fill_slide_type_122"
  by (rule local_fillerI [OF fill_slide_type_122_def]) (simp add: local_rules)

lemma fill_slide_type_123_local: "local_filler fill_slide_type_123"
  by (rule local_fillerI [OF fill_slide_type_123_def]) (simp add: local_rules)

lemma fill_slide_type_124_local: "local_filler fill_slide_type_124"
  by (rule local_fillerI [OF fill_slide_type_124_def]) (simp add: local_rules)

lemma fill_slide_type_125_local: "local_filler fill_slide_type_125"
  by (rule local_fillerI [OF fill_slide_type_125_def]) (simp add: local_rules)

lemma fill_slide_type_126_local: "local_filler fill_slide_type_126"
  by (rule local_fillerI [OF fill_slide_type_126_def]) (simp add: local_rules)

lemma fill_slide_type_127_local: "local_filler fill_slide_type_127"
  by (rule local_fillerI [OF fill_slide_type_127_def]) (simp add: local_rules)

lemma fill_slide_type_128_local: "local_filler fill_slide_type_128"
  by (rule local_fillerI [OF fill_slide_type_128_def]) (simp add: local_rules)

lemma fill_slide_type_129_local: "local_filler fill_slide_type_129"
  by (rule local_fillerI [OF fill_slide_type_129_def]) (simp add: local_rules)

lemma fill_slide_type_130_local: "local_filler fill_slide_type_130"
  by (rule local_fillerI [OF fill_slide_type_130_def]) (simp add: local_rules)

lemma fill_slide_type_131_local: "local_filler fill_slide_type_131"
  by (rule local_fillerI [OF fill_slide_type_131_def]) (simp add: local_rules)

lemma fill_slide_type_135_local: "local_filler fill_slide_type_135"
  by (rule local_fillerI [OF fill_slide_type_135_def]) (simp add: local_rules)

lemma fill_slide_type_136_local: "local_filler fill_slide_type_136"
  by (rule local_fillerI [OF fill_slide_type_136_def]) (simp add: local_rules)

lemma fill_slide_type_137_local: "local_filler fill_slide_type_137"
  by (rule local_fillerI [OF fill_slide_type_137_def]) (simp add: local_rules)

lemma fill_slide_type_138_local: "local_filler fill_slide_type_138"
  by (rule local_fillerI [OF fill_slide_type_138_def]) (simp add: local_rules)

lemma fill_slide_type_139_local: "local_filler fill_slide_type_139"
  by (rule local_fillerI [OF fill_slide_type_139_def]) (simp add: local_rules)

lemma fill_slide_type_143_local: "local_filler fill_slide_type_143"
  by (rule local_fillerI [OF fill_slide_type_143_def]) (simp add: local_rules)

lemma fill_slide_type_144_local: "local_filler fill_slide_type_144"
  by (rule local_fillerI [OF fill_slide_type_144_def]) (simp add: local_rules)

lemma fill_slide_type_145_local: "local_filler fill_slide_type_145"
  by (rule local_fillerI [OF fill_slide_type_145_def]) (simp add: local_rules)

lemma fill_slide_type_146_local: "local_filler fill_slide_type_146"
  by (rule local_fillerI [OF fill_slide_type_146_def]) (simp add: local_rules)

lemma fill_slide_type_147_local: "local_filler fill_slide_type_147"
  by (rule local_fillerI [OF fill_slide_type_147_def]) (simp add: local_rules)

lemma fill_slide_type_148_local: "local_filler fill_slide_type_148"
  by (rule local_fillerI [OF fill_slide_type_148_def]) (simp add: local_rules)

lemma fill_slide_type_149_local: "local_filler fill_slide_type_149"
  by (rule local_fillerI [OF fill_slide_type_149_def]) (simp add: local_rules)

lemma fill_slide_type_150_local: "local_filler fill_slide_type_150"
  by (rule local_fillerI [OF fill_slide_type_150_def]) (simp add: local_rules)

lemma fill_slide_type_151_local: "local_filler fill_slide_type_151"
  by (rule local_fillerI [OF fill_slide_type_151_def]) (simp add: local_rules)

lemma fill_slide_type_152_local: "local_filler fill_slide_type_152"
  by (rule local_fillerI [OF fill_slide_type_152_def]) (simp add: local_rules)

lemmas fillers_local =
  fill_slide_type_4_local fill_slide_type_5_local fill_slide_type_6_local fill_slide_type_7_local
  fill_slide_type_8_local fill_slide_type_9_local fill_slide_type_10_local
  fill_slide_type_11_local fill_slide_type_12_local fill_slide_type_13_local
  fill_slide_type_15_local fill_slide_type_16_local fill_slide_type_17_local
  fill_slide_type_18_local fill_slide_type_19_local fill_slide_type_20_local
  fill_slide_type_21_local fill_slide_type_22_local fill_slide_type_24_local
  fill_slide_type_25_local fill_slide_type_47_local fill_slide_type_48_local
  fill_slide_type_49_local fill_slide_type_50_local fill_slide_type_51_local
  fill_slide_type_52_local fill_slide_type_53_local fill_slide_type_54_local
  fill_slide_type_55_local fill_slide_type_56_local fill_slide_type_57_local
  fill_slide_type_58_local fill_slide_type_59_local fill_slide_type_60_local
  fill_slide_type_61_local fill_slide_type_62_local fill_slide_type_63_local
  fill_slide_type_64_local fill_slide_type_65_local fill_slide_type_66_local
  fill_slide_type_67_local fill_slide_type_68_local fill_slide_type_69_local
  fill_slide_type_71_local fill_slide_type_72_local fill_slide_type_73_local
  fill_slide_type_74_local fill_slide_type_75_local fill_slide_type_76_local
  fill_slide_type_77_local fill_slide_type_78_local fill_slide_type_79_local
  fill_slide_type_80_local fill_slide_type_81_local fill_slide_type_83_local
  fill_slide_type_84_local fill_slide_type_85_local fill_slide_type_86_local
  fill_slide_type_87_local fill_slide_type_88_local fill_slide_type_89_local
  fill_slide_type_90_local fill_slide_type_91_local fill_slide_type_92_local
  fill_slide_type_93_local fill_slide_type_95_local fill_slide_type_96_local
  fill_slide_type_100_local fill_slide_type_101_local fill_slide_type_102_local
  fill_slide_type_103_local fill_slide_type_104_local fill_slide_type_105_local
  fill_slide_type_106_local fill_slide_type_107_local fill_slide_type_108_local
  fill_slide_type_109_local fill_slide_type_110_local fill_slide_type_112_local
  fill_slide_type_113_local fill_slide_type_115_local fill_slide_type_116_local
  fill_slide_type_117_local fill_slide_type_118_local fill_slide_type_119_local
  fill_slide_type_120_local fill_slide_type_121_local fill_slide_type_122_local
  fill_slide_type_123_local fill_slide_type_124_local fill_slide_type_125_local
  fill_slide_type_126_local fill_slide_type_127_local fill_slide_type_128_local
  fill_slide_type_129_local fill_slide_type_130_local fill_slide_type_131_local
  fill_slide_type_135_local fill_slide_type_136_local fill_slide_type_137_local
  fill_slide_type_138_local fill_slide_type_139_local fill_slide_type_143_local
  fill_slide_type_144_local fill_slide_type_145_local fill_slide_type_146_local
  fill_slide_type_147_local fill_slide_type_148_local fill_slide_type_149_local
  fill_slide_type_150_local fill_slide_type_151_local fill_slide_type_152_local

text \<open>Every slide filler that \<open>getattr\<close> can find is local.\<close>

lemma getattr_local:
  assumes "getattr name = Some (Filler f)"
  shows "local_filler f"
proof -
  have "list_all (\<lambda>(n, m). case m of Filler f \<Rightarrow> local_filler f | TitleFiller g \<Rightarrow> True) fill_methods"
    by (simp add: fill_methods_def fillers_local)
  moreover from assms have "(name, Filler f) \<in> set fill_methods"
    by (simp add: getattr_def map_of_SomeD)
  ultimately show ?thesis
    by (auto simp: list_all_iff)
qed

lemma item_writes_append [simp]:
  "item_writes s j k (xs @ ys) = item_writes s j k xs @ item_writes s j k ys"
  by (simp add: item_writes_def)

lemma target_item_eq:
  "target_item f g n =
     (case get_shape g f of
        None \<Rightarrow> None
      | Some j \<Rightarrow>
          if j < length (Shapes f)
          then (case GroupItems (Shapes f ! j) of
                  None \<Rightarrow> None
                | Some items \<Rightarrow>
                    (case find_item n items of
                       None \<Rightarrow> None
                     | Some k \<Rightarrow> if HasTextFrame (items ! k) then Some (j, k) else None))
          else None)"
  by (simp add: target_item_def resolve_eq split: option.splits)

lemma shape_set_group_text:
  "Shapes (set_group_text g n t f) ! j =
     (case target_item f g n of
        None \<Rightarrow> Shapes f ! j
      | Some (j', k) \<Rightarrow> if j' = j then put_item_text k t (Shapes f ! j) else Shapes f ! j)"
  by (auto simp: Shapes_set_group_text nth_list_update split: option.splits dest: target_item_SomeD)

lemma length_Shapes_set_group_text [simp]:
  "length (Shapes (set_group_text g n t f)) = length (Shapes f)"
  by (simp add: Shapes_set_group_text split: option.splits)

lemma get_shape_set_group_text [simp]: "get_shape m (set_group_text g n t f) = get_shape m f"
  by (simp add: get_shape_def)

lemma skeleton_set_group_text [simp]:
  "Name (Shapes (set_group_text g n t f) ! j) = Name (Shapes f ! j)"
  "HasTextFrame (Shapes (set_group_text g n t f) ! j) = HasTextFrame (Shapes f ! j)"
  "HasTable (Shapes (set_group_text g n t f) ! j) = HasTable (Shapes f ! j)"
  "Cells (Shapes (set_group_text g n t f) ! j) = Cells (Shapes f ! j)"
  "Text (Shapes (set_group_text g n t f) ! j) = Text (Shapes f ! j)"
  by (simp_all add: shape_set_group_text put_item_text_def split: option.splits)

lemma target_text_set_group_text [simp]: "target_text (set_group_text g m t f) n = target_text f n"
  by (simp add: target_text_eq cong: option.case_cong)

lemma target_cell_set_group_text [simp]:
  "target_cell (set_group_text g m t f) n r c = target_cell f n r c"
  by (simp add: target_cell_eq cong: option.case_cong)

lemma target_item_set_text [simp]: "target_item (set_text m t f) g n = target_item f g n"
  by (simp add: target_item_eq cong: option.case_cong if_cong)

lemma target_item_set_table_cell [simp]:
  "target_item (set_table_cell m r c t f) g n = target_item f g n"
  by (simp add: target_item_eq cong: option.case_cong if_cong)

lemma find_item_SomeD:
  "find_item n items = Some k \<Longrightarrow> k < length items \<and> lower (Name (items ! k)) = lower n"
  by (auto simp: find_item_def find_Some_iff)

lemma item_update_skeleton [simp]:
  "Name ((items[k := (items ! k)\<lparr>Text := t\<rparr>]) ! x) = Name (items ! x)"
  "HasTextFrame ((items[k := (items ! k)\<lparr>Text := t\<rparr>]) ! x) = HasTextFrame (items ! x)"
proof -
  show "Name ((items[k := (items ! k)\<lparr>Text := t\<rparr>]) ! x) = Name (items ! x)"
    by (cases "k < length items"; cases "x = k") (simp_all add: not_less list_update_beyond)
  show "HasTextFrame ((items[k := (items ! k)\<lparr>Text := t\<rparr>]) ! x) = HasTextFrame (items ! x)"
    by (cases "k < length items"; cases "x = k") (simp_all add: not_less list_update_beyond)
qed

lemma find_item_update [simp]:
  "find_item n (items[k := (items ! k)\<lparr>Text := t\<rparr>]) = find_item n items"
proof -
  have "find (\<lambda>i. lower (Name ((items[k := (items ! k)\<lparr>Text := t\<rparr>]) ! i)) = lower n) [0 ..< length items]
      = find (\<lambda>i. lower (Name (items ! i)) = lower n) [0 ..< length items]"
    by (rule find_cong) simp_all
  then show ?thesis by (simp add: find_item_def)
qed

lemma target_item_SomeD2:
  "target_item f g n = Some (j, k) \<Longrightarrow>
     \<exists>items. GroupItems (Shapes f ! j) = Some items \<and> find_item n items = Some k
        \<and> HasTextFrame (items ! k)"
  by (auto simp: target_item_eq split: option.splits if_splits)

lemma group_set_group_text:
  "GroupItems (Shapes (set_group_text g n t f) ! j) =
     (case target_item f g n of
        None \<Rightarrow> GroupItems (Shapes f ! j)
      | Some (j', k) \<Rightarrow>
          if j' = j
          then Some ((the (GroupItems (Shapes f ! j)))
                       [k := (the (GroupItems (Shapes f ! j)) ! k)\<lparr>Text := t\<rparr>])
          else GroupItems (Shapes f ! j))"
  by (simp add: shape_set_group_text put_item_text_def split: option.splits)

lemma target_item_set_group_text [simp]:
  "target_item (set_group_text g' n' t f) g n = target_item f g n"
proof (cases "target_item f g' n'")
  case None
  then show ?thesis by (simp add: set_group_text_eq)
next
  case (Some jk)
  obtain j' k' where jk: "jk = (j', k')" by (cases jk)
  from Some jk target_item_SomeD2 [of f g' n' j' k'] obtain items' where
    it: "GroupItems (Shapes f ! j') = Some items'" "find_item n' items' = Some k'"
    by auto
  have k': "k' < length items'"
    using find_item_SomeD [OF it(2)] by simp
  have G: "GroupItems (Shapes (set_group_text g' n' t f) ! j) =
      (if j' = j then Some (items'[k' := (items' ! k')\<lparr>Text := t\<rparr>]) else GroupItems (Shapes f ! j))" for j
    using Some jk it by (auto simp: group_set_group_text)
  show ?thesis
  proof (cases "get_shape g f")
    case None
    then show ?thesis by (simp add: target_item_eq)
  next
    case (Some j)
    show ?thesis
    proof (cases "j' = j")
      case True
      with Some it k' show ?thesis
        by (simp add: target_item_eq G cong: option.case_cong if_cong)
    next
      case False
      with Some show ?thesis
        by (simp add: target_item_eq G)
    qed
  qed
qed

lemma fields_set_var [simp]:
  "slide (set_var v h f) = slide f" "events (set_var v h f) = events f"
  "Shapes (set_var v h f) = Shapes f" "shape_cache (set_var v h f) = shape_cache f"
proof -
  show "slide (set_var v h f) = slide f"
    by (cases v) simp_all
  show "events (set_var v h f) = events f"
    by (cases v) simp_all
  show "Shapes (set_var v h f) = Shapes f"
    by (cases v) (simp_all add: Shapes_def)
  show "shape_cache (set_var v h f) = shape_cache f"
    by (cases v) simp_all
qed

lemma targets_set_var [simp]:
  "target_text (set_var v h f) n = target_text f n"
  "target_cell (set_var v h f) n r c = target_cell f n r c"
  "target_item (set_var v h f) g n = target_item f g n"
proof -
  show "target_text (set_var v h f) n = target_text f n"
    by (rule target_text_cong) simp_all
  show "target_cell (set_var v h f) n r c = target_cell f n r c"
    by (rule target_cell_cong) simp_all
  show "target_item (set_var v h f) g n = target_item f g n"
    by (rule target_item_cong) simp_all
qed

lemma item_writes_set_text [simp]:
  "item_writes s j k (events (set_text n t f)) = item_writes s j k (events f)"
  by (auto simp: events_set_text item_writes_def split: option.splits)

lemma item_writes_set_table_cell [simp]:
  "item_writes s j k (events (set_table_cell n r c t f)) = item_writes s j k (events f)"
  by (auto simp: events_set_table_cell item_writes_def split: option.splits)

lemma text_writes_set_group_text [simp]:
  "text_writes s j (events (set_group_text g n t f)) = text_writes s j (events f)"
  by (auto simp: events_set_group_text text_writes_def split: option.splits)

lemma cell_writes_set_group_text [simp]:
  "cell_writes s j r c (events (set_group_text g n t f)) = cell_writes s j r c (events f)"
  by (auto simp: events_set_group_text cell_writes_def split: option.splits)






































































































































text \<open>
  C5. The claim asks that an entry whose slide type has no filler end the assembly with an
  error that reports the type. \<open>_build_slide\<close> looks for the filler only when it comes to
  fill the entry; before that it copies the library slide at position
  \<open>slide_index - 1\<close>. For slide type 9999, which has no filler, and a library of four
  slides the host raises while copying: the run ends with the host's error, not with
  "Unknown Slide Type: 9999", after the output file was created and the title template
  pasted. Slide type 2 has no filler either, but the library has a second slide: there
  the run ends with "Unknown Slide Type: 2", after both slides were copied and saved.
\<close>

theorem unknown_type_fails_in_copy:
  "getattr (''fill_slide_type_'' @ str_int 9999) = None
   \<and> raised (build_slide unknown_plan (before_run small_library)) = Some com_error
   \<and> raised (build_slide unknown_plan (before_run small_library))
       \<noteq> Some (ValueError (''Unknown Slide Type: '' @ str_int 9999))
   \<and> events (state_of (build_slide unknown_plan (before_run small_library))) = [SaveAs, Paste 0]
   \<and> map_option length
        (output_file (state_of (build_slide unknown_plan (before_run small_library)))) = Some 0
   \<and> raised (build_slide unfilled_plan (before_run small_library))
       = Some (ValueError ''Unknown Slide Type: 2'')
   \<and> events (state_of (build_slide unfilled_plan (before_run small_library)))
       = [SaveAs, Paste 0, Paste 1, Save, SetText 0 0 ''Deck'', Save]"
proof -
  have "char_of (57 :: nat) = CHR ''9''"
    by code_simp
  then have "str_int 9999 = ''9999''"
    by (simp add: str_int_def digits.simps)
  then have "getattr (''fill_slide_type_'' @ str_int 9999) = None"
    by (simp add: getattr_def fill_methods_def)
  moreover have "raised (build_slide unknown_plan (before_run small_library)) = Some com_error"
    by code_simp
  moreover have "events (state_of (build_slide unknown_plan (before_run small_library)))
      = [SaveAs, Paste 0]"
    by code_simp
  moreover have "map_option length
        (output_file (state_of (build_slide unknown_plan (before_run small_library)))) = Some 0"
    by code_simp
  moreover have "raised (build_slide unfilled_plan (before_run small_library))
      = Some (ValueError ''Unknown Slide Type: 2'')"
    by code_simp
  moreover have "events (state_of (build_slide unfilled_plan (before_run small_library)))
      = [SaveAs, Paste 0, Paste 1, Save, SetText 0 0 ''Deck'', Save]"
    by code_simp
  ultimately show ?thesis by simp
qed

end
